theory Spec2Isabelle
  imports Complex_Main "HOL-Library.AList" "HOL-Library.Sublist"
begin

section \<open>Python values shared by both modules\<close>

text \<open>
  Exceptions of the source are values: every raise is a branch that returns one.
\<close>

datatype pyerr =
  IndexError | KeyError | ValueError | TypeError | RuntimeError | ZeroDivisionError

type_synonym ivec2 = "int \<times> int"
type_synonym ivec3 = "int \<times> int \<times> int"

text \<open>
  A \<open>for\<close> loop over a list whose body updates a state and may raise: the first
  exception ends the loop.
\<close>

fun forE :: "('a \<Rightarrow> 's \<Rightarrow> pyerr + 's) \<Rightarrow> 'a list \<Rightarrow> 's \<Rightarrow> pyerr + 's" where
  "forE body [] s = Inr s"
| "forE body (a # as) s = (case body a s of Inl e \<Rightarrow> Inl e | Inr s' \<Rightarrow> forE body as s')"

text \<open>
  numpy indexing along one axis of length \<open>n\<close>: an index in \<open>[0, n)\<close> is taken as it is,
  an index in \<open>[-n, 0)\<close> counts from the end, anything else raises IndexError.
\<close>

definition np_index :: "nat \<Rightarrow> int \<Rightarrow> pyerr + nat" where
  "np_index n i =
     (if 0 \<le> i \<and> i < int n then Inr (nat i)
      else if - int n \<le> i \<and> i < 0 then Inr (nat (i + int n))
      else Inl IndexError)"

text \<open>
  Python strings are modelled over the Latin-1 range of code points, one \<open>char\<close> per
  code point. In that range the characters with a Unicode numeric type are the
  decimal digits and the six characters U+00B2, U+00B3, U+00B9 (superscript digits)
  and U+00BC, U+00BD, U+00BE (vulgar fractions); \<open>str.isnumeric\<close> holds of a
  non-empty string made of such characters.
\<close>

definition isnumeric_char :: "char \<Rightarrow> bool" where
  "isnumeric_char c =
     (let n = (of_char c :: nat)
      in (48 \<le> n \<and> n \<le> 57) \<or> n = 178 \<or> n = 179 \<or> n = 185 \<or> n = 188 \<or> n = 189 \<or> n = 190)"

definition isnumeric :: "string \<Rightarrow> bool" where
  "isnumeric t = (t \<noteq> [] \<and> list_all isnumeric_char t)"

section \<open>editor.py: the collaborators of the Editor\<close>

subsection \<open>Vectors, rectangles and blocks\<close>

definition addY :: "ivec2 \<Rightarrow> int \<Rightarrow> ivec3" where
  "addY v h = (fst v, h, snd v)"

definition dropY :: "ivec3 \<Rightarrow> ivec2" where
  "dropY p = (fst p, snd (snd p))"

definition vsub :: "ivec3 \<Rightarrow> ivec3 \<Rightarrow> ivec3" where
  "vsub p q = (fst p - fst q, fst (snd p) - fst (snd q), snd (snd p) - snd (snd q))"

text \<open>
  Modelled from the spec: \<open>vector_tools.Rect\<close> and \<open>vector_tools.Box\<close> are not under
  src/. A Rect is an XZ rectangle given by its offset and its size; a position lies
  within it when both coordinates are at least the offset and below offset plus size.
\<close>

record Rect =
  offset :: ivec2
  size2 :: ivec2

definition contains :: "Rect \<Rightarrow> ivec2 \<Rightarrow> bool" where
  "contains r v =
     (fst (offset r) \<le> fst v \<and> fst v < fst (offset r) + fst (size2 r) \<and>
      snd (offset r) \<le> snd v \<and> snd v < snd (offset r) + snd (size2 r))"

record Box =
  boxOffset :: ivec3
  boxSize :: ivec3

datatype area = AreaRect Rect | AreaBox Box

text \<open>
  Modelled from the spec: \<open>block.Block\<close> is not under src/. A voxel is an identifier
  string with optional state attributes and optional auxiliary data. A block matches
  a replace filter when its identifier is one of the filter's; the placement-skip
  heuristic of the write path asks whether the looked-up block's identifier contains
  the new identifier as a substring.
\<close>

record Block =
  id_b :: string
  states :: "(string \<times> string) list"
  data_b :: "string option"

fun isPrefix :: "string \<Rightarrow> string \<Rightarrow> bool" where
  "isPrefix [] ys = True"
| "isPrefix (x # xs) [] = False"
| "isPrefix (x # xs) (y # ys) = (x = y \<and> isPrefix xs ys)"

fun isSubstring :: "string \<Rightarrow> string \<Rightarrow> bool" where
  "isSubstring xs [] = (xs = [])"
| "isSubstring xs (y # ys) = (isPrefix xs (y # ys) \<or> isSubstring xs ys)"

definition blockInReplace :: "Block \<Rightarrow> string list \<Rightarrow> bool" where
  "blockInReplace b replace = (id_b b \<in> set replace)"

definition idInBlock :: "string \<Rightarrow> Block \<Rightarrow> bool" where
  "idInBlock i b = isSubstring i (id_b b)"

text \<open>
  The parts of the repository the Editor reads that are not under src/ and that the
  spec gives no value for: the two build-height constants of \<open>lookup\<close>, and
  \<open>Block.chooseId\<close>, which draws one identifier from a block palette at random.
\<close>

record Env =
  BUILD_Y_MIN :: int
  BUILD_HEIGHT :: int
  chooseId :: "Block \<Rightarrow> Block"

subsection \<open>The cached world slice and its decay array\<close>

text \<open>
  Modelled from the spec: \<open>world_slice.WorldSlice\<close>, the class the Editor caches, is
  not under src/. The Editor reads its rectangle and the block it resolves at a
  position (\<open>Block.fromBlockCompound\<close> of \<open>getBlockCompoundAt\<close>).
\<close>

record SliceView =
  sliceRect :: Rect
  sliceBlockAt :: "ivec3 \<Rightarrow> Block"

text \<open>A three-dimensional boolean numpy array: its shape and its cells.\<close>

record ndarray3 =
  shape3 :: "nat \<times> nat \<times> nat"
  cells3 :: "nat \<times> nat \<times> nat \<Rightarrow> bool"

definition np_zeros3 :: "ivec3 \<Rightarrow> pyerr + ndarray3" where
  "np_zeros3 shp =
     (if fst shp < 0 \<or> fst (snd shp) < 0 \<or> snd (snd shp) < 0 then Inl ValueError
      else Inr \<lparr>shape3 = (nat (fst shp), nat (fst (snd shp)), nat (snd (snd shp))),
                cells3 = (\<lambda>_. False)\<rparr>)"

definition np_cell3 :: "ndarray3 \<Rightarrow> ivec3 \<Rightarrow> pyerr + (nat \<times> nat \<times> nat)" where
  "np_cell3 a idx =
     (case np_index (fst (shape3 a)) (fst idx) of
        Inl e \<Rightarrow> Inl e
      | Inr i \<Rightarrow>
          (case np_index (fst (snd (shape3 a))) (fst (snd idx)) of
             Inl e \<Rightarrow> Inl e
           | Inr j \<Rightarrow>
               (case np_index (snd (snd (shape3 a))) (snd (snd idx)) of
                  Inl e \<Rightarrow> Inl e
                | Inr k \<Rightarrow> Inr (i, j, k))))"

definition np_get3 :: "ndarray3 \<Rightarrow> ivec3 \<Rightarrow> pyerr + bool" where
  "np_get3 a idx = (case np_cell3 a idx of Inl e \<Rightarrow> Inl e | Inr c \<Rightarrow> Inr (cells3 a c))"

definition np_set3 :: "ndarray3 \<Rightarrow> ivec3 \<Rightarrow> bool \<Rightarrow> pyerr + ndarray3" where
  "np_set3 a idx v =
     (case np_cell3 a idx of
        Inl e \<Rightarrow> Inl e
      | Inr c \<Rightarrow> Inr (a\<lparr>cells3 := (cells3 a)(c := v)\<rparr>))"

subsection \<open>The interface to the remote host\<close>

text \<open>
  \<open>interface.Interface\<close> is not under src/. The remote host is modelled by the list
  of the requests that changed it, oldest first, and by arbitrary answers that are
  functions of that list: the result tokens of a request, the blocks read at a
  position, the build area, and the world slice fetched for an area.
\<close>

datatype request =
  PlaceBlocks "(ivec3 \<times> Block) list" bool "nat option"
| RunCommand string

record Interface =
  sent :: "request list"
  tokens :: "request list \<Rightarrow> request \<Rightarrow> string list"
  blocksAt :: "request list \<Rightarrow> ivec3 \<Rightarrow> bool \<Rightarrow> bool \<Rightarrow> (ivec3 \<times> Block) list"
  buildArea :: "request list \<Rightarrow> bool \<times> Box"
  sliceOf :: "request list \<Rightarrow> area \<Rightarrow> SliceView"

definition send :: "Interface \<Rightarrow> request \<Rightarrow> string list \<times> Interface" where
  "send i r = (tokens i (sent i) r, i\<lparr>sent := sent i @ [r]\<rparr>)"

definition placeBlocks ::
  "Interface \<Rightarrow> (ivec3 \<times> Block) list \<Rightarrow> bool \<Rightarrow> nat option \<Rightarrow> string list \<times> Interface" where
  "placeBlocks i blocks doUpdates retries = send i (PlaceBlocks blocks doUpdates retries)"

definition runCommandI :: "Interface \<Rightarrow> string \<Rightarrow> string list \<times> Interface" where
  "runCommandI i command = send i (RunCommand command)"

definition getBlocks :: "Interface \<Rightarrow> ivec3 \<Rightarrow> bool \<Rightarrow> bool \<Rightarrow> (ivec3 \<times> Block) list" where
  "getBlocks i position includeState includeData =
     blocksAt i (sent i) position includeState includeData"

definition getBuildAreaI :: "Interface \<Rightarrow> bool \<times> Box" where
  "getBuildAreaI i = buildArea i (sent i)"

definition newWorldSlice :: "Interface \<Rightarrow> area \<Rightarrow> SliceView" where
  "newWorldSlice i a = sliceOf i (sent i) a"

subsection \<open>The lookup cache\<close>

text \<open>
  Modelled from the spec: \<open>utility.OrderedByLookupDict\<close> is not under src/. It is a
  bounded mapping whose entries are kept in order of use, least recently used first.
  A successful lookup moves the entry to the most recent end; a store inserts or
  overwrites, counts as a use, and then evicts least recently used entries until the
  size is within the limit.
\<close>

record OrderedByLookupDict =
  maxSize :: nat
  entries :: "(ivec3 \<times> Block) list"

definition cache_getitem ::
  "OrderedByLookupDict \<Rightarrow> ivec3 \<Rightarrow> (Block \<times> OrderedByLookupDict) option" where
  "cache_getitem c k =
     (case map_of (entries c) k of
        None \<Rightarrow> None
      | Some v \<Rightarrow> Some (v, c\<lparr>entries := filter (\<lambda>e. fst e \<noteq> k) (entries c) @ [(k, v)]\<rparr>))"

definition cache_setitem :: "OrderedByLookupDict \<Rightarrow> ivec3 \<Rightarrow> Block \<Rightarrow> OrderedByLookupDict" where
  "cache_setitem c k v =
     (let es = filter (\<lambda>e. fst e \<noteq> k) (entries c) @ [(k, v)]
      in c\<lparr>entries := drop (length es - maxSize c) es\<rparr>)"

section \<open>editor.py: the Editor\<close>

text \<open>
  A warning printed to stderr: the response of a direct placement, or the offending
  line of a buffered placement or of a buffered command.
\<close>

datatype warning =
  WarnPlace "string list"
| WarnBufferedBlock string
| WarnBufferedCommand string

text \<open>
  A future of the buffer flush executor: the task \<open>sendBufferedBlocks\<close> submitted,
  which is the closure over the two detached buffers and the retry count, and whether
  the worker has run it (\<open>future.done()\<close>).
\<close>

record FlushFuture =
  blockBufferCopy :: "(ivec3 \<times> Block) list"
  commandBufferCopy :: "string list"
  flushRetries :: nat
  isDone :: bool

text \<open>
  The fields of an Editor. The buffer is a Python dict, which keeps insertion order:
  an association list updated in place. The futures that are not done are the tasks
  waiting in the executor, oldest first. The coordinate transform is outside this
  development.
\<close>

record Editor =
  interface :: Interface
  buffering :: bool
  bufferLimit :: int
  buffer :: "(ivec3 \<times> Block) list"
  commandBuffer :: "string list"
  caching :: bool
  cache :: OrderedByLookupDict
  multithreading :: bool
  bufferFlushFutures :: "FlushFuture list"
  doBlockUpdates :: bool
  bufferDoBlockUpdates :: bool
  worldSlice :: "SliceView option"
  worldSliceDecay :: "ndarray3 option"
  stderr :: "warning list"

subsection \<open>Loading and updating the world slice\<close>

definition getBuildArea :: "Editor \<Rightarrow> pyerr + Box" where
  "getBuildArea s =
     (case getBuildAreaI (interface s) of
        (success, result) \<Rightarrow> if \<not> success then Inl RuntimeError else Inr result)"

definition loadWorldSlice ::
  "Env \<Rightarrow> Editor \<Rightarrow> Rect option \<Rightarrow> bool \<Rightarrow> pyerr + (SliceView \<times> Editor)" where
  "loadWorldSlice env s rect cache_flag =
     (case (case rect of
              None \<Rightarrow> (case getBuildArea s of Inl e \<Rightarrow> Inl e | Inr b \<Rightarrow> Inr (AreaBox b))
            | Some r \<Rightarrow> Inr (AreaRect r)) of
        Inl e \<Rightarrow> Inl e
      | Inr a \<Rightarrow>
          (let ws = newWorldSlice (interface s) a
           in if cache_flag
              then (case np_zeros3 (addY (size2 (sliceRect ws)) (BUILD_HEIGHT env)) of
                      Inl e \<Rightarrow> Inl e
                    | Inr d \<Rightarrow> Inr (ws, s\<lparr>worldSlice := Some ws, worldSliceDecay := Some d\<rparr>))
              else Inr (ws, s)))"

definition updateWorldSlice :: "Env \<Rightarrow> Editor \<Rightarrow> pyerr + (SliceView \<times> Editor)" where
  "updateWorldSlice env s =
     (case worldSlice s of
        None \<Rightarrow> Inl RuntimeError
      | Some ws \<Rightarrow> loadWorldSlice env s (Some (sliceRect ws)) False)"

subsection \<open>Reading a block\<close>

text \<open>
  The index of a position in the decay array: the position relative to the slice's
  offset, with the lowest build layer at index 0.
\<close>

definition decayIndex :: "Env \<Rightarrow> SliceView \<Rightarrow> ivec3 \<Rightarrow> ivec3" where
  "decayIndex env ws position = vsub position (addY (offset (sliceRect ws)) (BUILD_Y_MIN env))"

text \<open>
  The condition under which \<open>getBlockGlobal\<close> answers from the cached world slice,
  evaluated left to right as Python's \<open>and\<close> does: a slice is cached, its rectangle
  contains the position's XZ, and the decay array is false at the position's index.
  The result is the slice to read from, if any. Indexing the decay array can raise.
\<close>

definition sliceForRead :: "Env \<Rightarrow> Editor \<Rightarrow> ivec3 \<Rightarrow> pyerr + SliceView option" where
  "sliceForRead env s position =
     (case worldSlice s of
        None \<Rightarrow> Inr None
      | Some ws \<Rightarrow>
          if \<not> contains (sliceRect ws) (dropY position) then Inr None
          else (case worldSliceDecay s of
                  None \<Rightarrow> Inl TypeError
                | Some d \<Rightarrow>
                    (case np_get3 d (decayIndex env ws position) of
                       Inl e \<Rightarrow> Inl e
                     | Inr decayed \<Rightarrow> Inr (if decayed then None else Some ws))))"

definition getBlockGlobal ::
  "Env \<Rightarrow> Editor \<Rightarrow> ivec3 \<Rightarrow> bool \<Rightarrow> bool \<Rightarrow> pyerr + (Block \<times> Editor)" where
  "getBlockGlobal env s position getBlockStates getBlockData =
     (case (if caching s then cache_getitem (cache s) position else None) of
        Some (b, c) \<Rightarrow> Inr (b, s\<lparr>cache := c\<rparr>)
      | None \<Rightarrow>
          (case (if buffering s then map_of (buffer s) position else None) of
             Some b \<Rightarrow> Inr (b, s)
           | None \<Rightarrow>
               (case sliceForRead env s position of
                  Inl e \<Rightarrow> Inl e
                | Inr src \<Rightarrow>
                    (case (case src of
                             Some ws \<Rightarrow> Inr (sliceBlockAt ws position)
                           | None \<Rightarrow>
                               (case getBlocks (interface s) position getBlockStates getBlockData of
                                  [] \<Rightarrow> Inl IndexError
                                | r # _ \<Rightarrow> Inr (snd r))) of
                       Inl e \<Rightarrow> Inl e
                     | Inr block \<Rightarrow>
                         Inr (block,
                              if caching s
                              then s\<lparr>cache := cache_setitem (cache s) position block\<rparr>
                              else s)))))"

subsection \<open>Flushing the buffers\<close>

definition joinLines :: "string list \<Rightarrow> string" where
  "joinLines ls =
     (case ls of [] \<Rightarrow> [] | l # rest \<Rightarrow> l @ concat (map (\<lambda>m. char_of (10 :: nat) # m) rest))"

text \<open>
  The inner function \<open>flush\<close> of \<open>sendBufferedBlocks\<close>, run on the editor as it is
  when the function runs: it sends the block buffer it is given, if it is not empty,
  through the editor's interface and with the block-update flag the editor's buffer
  carries at that moment, warns about every line of the response that is not numeric,
  and does the same for the command buffer. The containers it clears are cleared by
  its callers below.
\<close>

definition flush :: "Editor \<Rightarrow> (ivec3 \<times> Block) list \<Rightarrow> string list \<Rightarrow> nat \<Rightarrow> Editor" where
  "flush s blockBuffer commands retries =
     (let s1 =
            (if blockBuffer \<noteq> []
             then (case placeBlocks (interface s) blockBuffer (bufferDoBlockUpdates s) (Some retries) of
                     (response, i) \<Rightarrow>
                       s\<lparr>interface := i,
                         stderr := stderr s @
                           map WarnBufferedBlock (filter (\<lambda>line. \<not> isnumeric line) response)\<rparr>)
             else s)
      in if commands \<noteq> []
         then (case runCommandI (interface s1) (joinLines commands) of
                 (response, i) \<Rightarrow>
                   s1\<lparr>interface := i,
                      stderr := stderr s1 @
                        map WarnBufferedCommand (filter (\<lambda>line. \<not> isnumeric line) response)\<rparr>)
         else s1)"

text \<open>
  With multithreading the futures that are done are dropped from the editor's list,
  the two buffers are detached into a task that is submitted to the executor, and
  the editor gets two empty buffers; nothing is sent by this call. Without
  multithreading the flush runs at once on the live buffers, which it clears.
\<close>

definition sendBufferedBlocks :: "Editor \<Rightarrow> nat \<Rightarrow> Editor" where
  "sendBufferedBlocks s retries =
     (if multithreading s
      then s\<lparr>bufferFlushFutures :=
               filter (\<lambda>future. \<not> isDone future) (bufferFlushFutures s) @
               [\<lparr>blockBufferCopy = buffer s, commandBufferCopy = commandBuffer s,
                 flushRetries = retries, isDone = False\<rparr>],
             buffer := [], commandBuffer := []\<rparr>
      else (flush s (buffer s) (commandBuffer s) retries)\<lparr>buffer := [], commandBuffer := []\<rparr>)"

text \<open>
  The worker thread of the executor (\<open>multithreadingWorkers\<close> is 1 by default) takes
  the oldest task that is waiting and runs it: \<open>flush\<close> on the two detached buffers,
  on the editor as it is when the task runs, so that the interface and the buffer's
  block-update flag are read then, not when the task was submitted. The task clears
  its two buffers and its future is done. A step of the worker is a transition of
  its own: it can take place between any two calls the main thread makes.
\<close>

definition runFlushTask :: "Editor \<Rightarrow> Editor" where
  "runFlushTask s =
     (case List.extract (\<lambda>future. \<not> isDone future) (bufferFlushFutures s) of
        None \<Rightarrow> s
      | Some (finished, future, waiting) \<Rightarrow>
          (flush s (blockBufferCopy future) (commandBufferCopy future) (flushRetries future))
            \<lparr>bufferFlushFutures :=
               finished @
               [future\<lparr>blockBufferCopy := [], commandBufferCopy := [], isDone := True\<rparr>] @
               waiting\<rparr>)"

text \<open>
  \<open>awaitBufferFlushes\<close> without a timeout: the main thread waits until the worker has
  run every task that is waiting, and keeps the futures that are not done, of which
  there are none then.
\<close>

definition awaitBufferFlushes :: "Editor \<Rightarrow> Editor" where
  "awaitBufferFlushes s =
     (foldl (\<lambda>s1 future. runFlushTask s1) s (bufferFlushFutures s))\<lparr>bufferFlushFutures := []\<rparr>"

definition runCommand :: "Editor \<Rightarrow> string \<Rightarrow> bool \<Rightarrow> Editor" where
  "runCommand s command syncWithBuffer =
     (if buffering s \<and> syncWithBuffer then s\<lparr>commandBuffer := commandBuffer s @ [command]\<rparr>
      else s\<lparr>interface := snd (runCommandI (interface s) command)\<rparr>)"

subsection \<open>Placing a block\<close>

definition effectiveUpdates :: "Editor \<Rightarrow> bool option \<Rightarrow> bool" where
  "effectiveUpdates s flag = (case flag of None \<Rightarrow> doBlockUpdates s | Some f \<Rightarrow> f)"

definition placeSingleBlockGlobalDirect ::
  "Editor \<Rightarrow> ivec3 \<Rightarrow> Block \<Rightarrow> bool option \<Rightarrow> pyerr + (bool \<times> Editor)" where
  "placeSingleBlockGlobalDirect s position block flag =
     (case placeBlocks (interface s) [(position, block)] (effectiveUpdates s flag) None of
        (result, i) \<Rightarrow>
          (case result of
             [] \<Rightarrow> Inl IndexError
           | t # _ \<Rightarrow>
               if \<not> isnumeric t
               then Inr (False, s\<lparr>interface := i, stderr := stderr s @ [WarnPlace result]\<rparr>)
               else Inr (True, s\<lparr>interface := i\<rparr>)))"

definition placeSingleBlockGlobalBuffered ::
  "Editor \<Rightarrow> ivec3 \<Rightarrow> Block \<Rightarrow> bool option \<Rightarrow> bool \<times> Editor" where
  "placeSingleBlockGlobalBuffered s position block flag =
     (let upd = effectiveUpdates s flag;
          s1 = (if upd \<noteq> bufferDoBlockUpdates s
                then (sendBufferedBlocks s 5)\<lparr>bufferDoBlockUpdates := upd\<rparr>
                else if int (length (buffer s)) \<ge> bufferLimit s
                then sendBufferedBlocks s 5
                else s)
      in (True, s1\<lparr>buffer := AList.update position block (buffer s1)\<rparr>))"

text \<open>
  The end of \<open>_placeSingleBlockGlobal\<close>, after a successful placement: the block is
  stored in the cache if caching is on, and the decay array is set at the position's
  index if a slice is cached whose rectangle contains the position's XZ.
\<close>

definition recordPlacement :: "Env \<Rightarrow> Editor \<Rightarrow> ivec3 \<Rightarrow> Block \<Rightarrow> pyerr + (bool \<times> Editor)" where
  "recordPlacement env s position block =
     (let s1 = (if caching s then s\<lparr>cache := cache_setitem (cache s) position block\<rparr> else s)
      in case worldSlice s1 of
           None \<Rightarrow> Inr (True, s1)
         | Some ws \<Rightarrow>
             if contains (sliceRect ws) (dropY position)
             then (case worldSliceDecay s1 of
                     None \<Rightarrow> Inl TypeError
                   | Some d \<Rightarrow>
                       (case np_set3 d (decayIndex env ws position) True of
                          Inl e \<Rightarrow> Inl e
                        | Inr d' \<Rightarrow> Inr (True, s1\<lparr>worldSliceDecay := Some d'\<rparr>)))
             else Inr (True, s1))"

text \<open>
  \<open>_placeSingleBlockGlobal\<close> from the choice of the block's identifier on: an empty
  identifier places nothing; with caching, a looked-up block whose identifier contains
  the new one skips the placement; otherwise the block is staged or sent.
\<close>

definition placeChosen ::
  "Env \<Rightarrow> Editor \<Rightarrow> ivec3 \<Rightarrow> Block \<Rightarrow> bool option \<Rightarrow> pyerr + (bool \<times> Editor)" where
  "placeChosen env s position block0 flag =
     (let block = chooseId env block0
      in if id_b block = [] then Inr (True, s)
         else
           (case (if caching s
                  then (case getBlockGlobal env s position True False of
                          Inl e \<Rightarrow> Inl e
                        | Inr (b, s1) \<Rightarrow> Inr (idInBlock (id_b block) b, s1))
                  else Inr (False, s)) of
              Inl e \<Rightarrow> Inl e
            | Inr (skip, s1) \<Rightarrow>
                if skip then Inr (True, s1)
                else
                  (case (if buffering s1
                         then Inr (placeSingleBlockGlobalBuffered s1 position block flag)
                         else placeSingleBlockGlobalDirect s1 position block flag) of
                     Inl e \<Rightarrow> Inl e
                   | Inr (success, s2) \<Rightarrow>
                       if \<not> success then Inr (False, s2)
                       else recordPlacement env s2 position block)))"

definition placeSingleBlockGlobal ::
  "Env \<Rightarrow> Editor \<Rightarrow> ivec3 \<Rightarrow> Block \<Rightarrow> string list option \<Rightarrow> bool option \<Rightarrow> pyerr + (bool \<times> Editor)" where
  "placeSingleBlockGlobal env s position block replace flag =
     (case replace of
        None \<Rightarrow> placeChosen env s position block flag
      | Some r \<Rightarrow>
          (case getBlockGlobal env s position True False of
             Inl e \<Rightarrow> Inl e
           | Inr (b, s1) \<Rightarrow>
               if \<not> blockInReplace b r then Inr (True, s1)
               else placeChosen env s1 position block flag))"

section \<open>worldLoader.py\<close>

subsection \<open>The bit array\<close>

text \<open>
  Modelled from the spec: \<open>bitarray.BitArray\<close> is not under src/. Elements of a fixed
  bit width are packed low bit first into 64-bit storage words; a word holds
  \<open>64 div w\<close> elements and no element spans two words. Reading index \<open>i\<close> takes word
  \<open>i div entriesPerWord\<close>, shifts it right by \<open>(i mod entriesPerWord) * w\<close> and masks
  \<open>w\<close> bits. An index below 0 or not below the element count is an IndexError, and so
  is a word the storage does not have. A bit array built without data has no words.
\<close>

record BitArray =
  bitsPerEntry :: nat
  arraySize :: nat
  longArray :: "int list"

definition newBitArray :: "nat \<Rightarrow> nat \<Rightarrow> int list option \<Rightarrow> BitArray" where
  "newBitArray w n words =
     \<lparr>bitsPerEntry = w, arraySize = n,
      longArray = (case words of None \<Rightarrow> [] | Some ws \<Rightarrow> ws)\<rparr>"

definition getAt :: "BitArray \<Rightarrow> int \<Rightarrow> pyerr + int" where
  "getAt a i =
     (if i < 0 \<or> int (arraySize a) \<le> i then Inl IndexError
      else if bitsPerEntry a = 0 \<or> 64 div bitsPerEntry a = 0 then Inl ZeroDivisionError
      else (let entriesPerWord = 64 div bitsPerEntry a;
                wordIndex = nat i div entriesPerWord;
                bitOffset = (nat i mod entriesPerWord) * bitsPerEntry a
            in if length (longArray a) \<le> wordIndex then Inl IndexError
               else Inr ((longArray a ! wordIndex div 2 ^ bitOffset) mod 2 ^ bitsPerEntry a)))"

subsection \<open>Bit widths of the palettes\<close>

text \<open>
  \<open>ceil(log2(n))\<close> for a length \<open>n\<close>, computed on the integers: 0 for 1, and one more
  than the value at half of \<open>n\<close> rounded up otherwise. The source computes it on
  floats; \<open>log2(0)\<close> raises ValueError.
\<close>

function ceil_log2 :: "nat \<Rightarrow> nat" where
  "ceil_log2 n = (if n \<le> 1 then 0 else Suc (ceil_log2 ((n + 1) div 2)))"
  by pat_completeness auto
termination
  by (relation "measure (\<lambda>n. n)") auto

declare ceil_log2.simps [simp del]

definition blockPaletteBitsPerEntry :: "nat \<Rightarrow> pyerr + nat" where
  "blockPaletteBitsPerEntry p = (if p = 0 then Inl ValueError else Inr (max 4 (ceil_log2 p)))"

definition biomesBitsPerEntry :: "nat \<Rightarrow> pyerr + nat" where
  "biomesBitsPerEntry p = (if p = 0 then Inl ValueError else Inr (max 1 (ceil_log2 p)))"

text \<open>
  The bit width in the words of the specification: the larger of the minimum width
  and the ceiling of the real logarithm to base 2 of the palette size.
\<close>

definition specBitWidth :: "nat \<Rightarrow> nat \<Rightarrow> nat" where
  "specBitWidth minWidth p = max minWidth (nat \<lceil>log 2 (real p)\<rceil>)"

subsection \<open>The parsed chunk data\<close>

text \<open>
  The NBT file \<open>di.getChunks\<close> returns, parsed, as far as the constructor reads it: a
  list of chunks, each with its height maps by name (arrays of longs) and its
  sections. A section has its Y, and may have block states and biomes; each of these
  may have a palette and may have data. A palette entry of the block states is a
  compound, here its string-valued keys.
\<close>

type_synonym compound = "(string \<times> string) list"

record RawBlockStates =
  palette :: "compound list option"
  data_s :: "int list option"

record RawBiomes =
  biomePalette :: "string list option"
  biomeData :: "int list option"

record RawSection =
  Y_s :: int
  block_states :: "RawBlockStates option"
  biomes :: "RawBiomes option"

record Chunk =
  Heightmaps :: "(string \<times> int list) list"
  sections_c :: "RawSection list"

record CachedSection =
  x_s :: int
  y_s :: int
  z_s :: int
  blockPalette :: "compound list"
  blockStatesBitArray :: BitArray
  biomesPalette :: "string list"
  biomesBitArray :: BitArray

text \<open>A two-dimensional integer numpy array: its shape and its cells.\<close>

record ndarray2 =
  shape2 :: "nat \<times> nat"
  cells2 :: "nat \<times> nat \<Rightarrow> int"

definition np_zeros2 :: "ivec2 \<Rightarrow> pyerr + ndarray2" where
  "np_zeros2 shp =
     (if fst shp < 0 \<or> snd shp < 0 then Inl ValueError
      else Inr \<lparr>shape2 = (nat (fst shp), nat (snd shp)), cells2 = (\<lambda>_. 0)\<rparr>)"

definition np_cell2 :: "ndarray2 \<Rightarrow> ivec2 \<Rightarrow> pyerr + (nat \<times> nat)" where
  "np_cell2 a idx =
     (case np_index (fst (shape2 a)) (fst idx) of
        Inl e \<Rightarrow> Inl e
      | Inr i \<Rightarrow>
          (case np_index (snd (shape2 a)) (snd idx) of
             Inl e \<Rightarrow> Inl e
           | Inr j \<Rightarrow> Inr (i, j)))"

record WorldSlice =
  rect :: "int \<times> int \<times> int \<times> int"
  chunkRect :: "int \<times> int \<times> int \<times> int"
  heightmapTypes :: "string list"
  nbtfile :: "Chunk list"
  heightmaps :: "(string \<times> ndarray2) list"
  sections :: "CachedSection list"

subsection \<open>The constructor of WorldSlice: height maps\<close>

definition pyrange :: "int \<Rightarrow> int list" where
  "pyrange n = map int [0..<nat n]"

text \<open>Indexing a Python list: negative indices count from the end.\<close>

definition py_index :: "'a list \<Rightarrow> int \<Rightarrow> pyerr + 'a" where
  "py_index xs i =
     (case np_index (length xs) i of Inl e \<Rightarrow> Inl e | Inr k \<Rightarrow> Inr (xs ! k))"

text \<open>
  The body of the innermost loop: the value read from the bit array, less 64, is
  stored at the region-relative index; an IndexError of the read or of the store is
  caught and passed over.
\<close>

definition storeHeight ::
  "ivec2 \<Rightarrow> int \<Rightarrow> int \<Rightarrow> BitArray \<Rightarrow> int \<Rightarrow> int \<Rightarrow> ndarray2 \<Rightarrow> pyerr + ndarray2" where
  "storeHeight rectOffset cx_chunk cz_chunk bits cz cx hm =
     (case getAt bits (cz * 16 + cx) of
        Inl e \<Rightarrow> if e = IndexError then Inr hm else Inl e
      | Inr v \<Rightarrow>
          (case np_cell2 hm (- fst rectOffset + cx_chunk * 16 + cx,
                             - snd rectOffset + cz_chunk * 16 + cz) of
             Inl e \<Rightarrow> if e = IndexError then Inr hm else Inl e
           | Inr c \<Rightarrow> Inr (hm\<lparr>cells2 := (cells2 hm)(c := v - 64)\<rparr>)))"

definition fillHeightmap ::
  "ivec2 \<Rightarrow> int \<Rightarrow> int \<Rightarrow> BitArray \<Rightarrow> ndarray2 \<Rightarrow> pyerr + ndarray2" where
  "fillHeightmap rectOffset cx_chunk cz_chunk bits hm =
     forE (\<lambda>cz. forE (\<lambda>cx. storeHeight rectOffset cx_chunk cz_chunk bits cz cx) (pyrange 16))
       (pyrange 16) hm"

definition chunkHeightmap ::
  "ivec2 \<Rightarrow> int \<Rightarrow> int \<Rightarrow> (string \<times> int list) list \<Rightarrow> string \<Rightarrow>
   (string \<times> ndarray2) list \<Rightarrow> pyerr + (string \<times> ndarray2) list" where
  "chunkHeightmap rectOffset cx_chunk cz_chunk hms hmName maps =
     (case map_of hms hmName of
        None \<Rightarrow> Inl KeyError
      | Some hmRaw \<Rightarrow>
          (case map_of maps hmName of
             None \<Rightarrow> Inl KeyError
           | Some hm \<Rightarrow>
               (case fillHeightmap rectOffset cx_chunk cz_chunk
                       (newBitArray 9 (16 * 16) (Some hmRaw)) hm of
                  Inl e \<Rightarrow> Inl e
                | Inr hm' \<Rightarrow> Inr (AList.update hmName hm' maps))))"

definition loadHeightmaps ::
  "ivec2 \<Rightarrow> int \<times> int \<times> int \<times> int \<Rightarrow> string list \<Rightarrow> Chunk list \<Rightarrow>
   (string \<times> ndarray2) list \<Rightarrow> pyerr + (string \<times> ndarray2) list" where
  "loadHeightmaps rectOffset crect types chunks maps =
     forE (\<lambda>x. forE (\<lambda>z maps1.
                       (case py_index chunks (x + z * fst (snd (snd crect))) of
                          Inl e \<Rightarrow> Inl e
                        | Inr chunk \<Rightarrow>
                            forE (chunkHeightmap rectOffset x z (Heightmaps chunk)) types maps1))
                 (pyrange (snd (snd (snd crect)))))
       (pyrange (fst (snd (snd crect)))) maps"

definition zeroHeightmaps ::
  "int \<times> int \<times> int \<times> int \<Rightarrow> string list \<Rightarrow> pyerr + (string \<times> ndarray2) list" where
  "zeroHeightmaps r types =
     forE (\<lambda>hmName maps.
             (case np_zeros2 (fst (snd (snd r)) + 1, snd (snd (snd r)) + 1) of
                Inl e \<Rightarrow> Inl e
              | Inr hm \<Rightarrow> Inr (AList.update hmName hm maps)))
       types []"

subsection \<open>The constructor of WorldSlice: sections\<close>

text \<open>
  One section of a chunk: it is passed over when it has no block states or its block
  states are empty; otherwise its palettes and data are read and the two bit arrays
  are built with the bit widths of the palettes.
\<close>

definition buildSection :: "int \<Rightarrow> int \<Rightarrow> RawSection \<Rightarrow> pyerr + CachedSection option" where
  "buildSection x z section =
     (case block_states section of
        None \<Rightarrow> Inr None
      | Some bs \<Rightarrow>
          if palette bs = None \<and> data_s bs = None then Inr None
          else
            (case palette bs of
               None \<Rightarrow> Inl KeyError
             | Some pal \<Rightarrow>
                 (case blockPaletteBitsPerEntry (length pal) of
                    Inl e \<Rightarrow> Inl e
                  | Inr w \<Rightarrow>
                      (case biomes section of
                         None \<Rightarrow> Inl KeyError
                       | Some bm \<Rightarrow>
                           (case biomePalette bm of
                              None \<Rightarrow> Inl KeyError
                            | Some bpal \<Rightarrow>
                                (case biomesBitsPerEntry (length bpal) of
                                   Inl e \<Rightarrow> Inl e
                                 | Inr bw \<Rightarrow>
                                     Inr (Some
                                       \<lparr>x_s = x, y_s = Y_s section, z_s = z,
                                        blockPalette = pal,
                                        blockStatesBitArray =
                                          newBitArray w (16 * 16 * 16) (data_s bs),
                                        biomesPalette = bpal,
                                        biomesBitArray =
                                          newBitArray bw 64 (biomeData bm)\<rparr>)))))))"

definition loadSections ::
  "int \<times> int \<times> int \<times> int \<Rightarrow> Chunk list \<Rightarrow> pyerr + CachedSection list" where
  "loadSections crect chunks =
     forE (\<lambda>x. forE (\<lambda>z secs.
                       (case py_index chunks (x + z * fst (snd (snd crect))) of
                          Inl e \<Rightarrow> Inl e
                        | Inr chunk \<Rightarrow>
                            forE (\<lambda>section secs1.
                                    (case buildSection x z section of
                                       Inl e \<Rightarrow> Inl e
                                     | Inr None \<Rightarrow> Inr secs1
                                     | Inr (Some cs) \<Rightarrow> Inr (secs1 @ [cs])))
                              (sections_c chunk) secs))
                 (pyrange (snd (snd (snd crect)))))
       (pyrange (fst (snd (snd crect)))) []"

subsection \<open>The constructor of WorldSlice\<close>

definition defaultHeightmapTypes :: "string list" where
  "defaultHeightmapTypes =
     [''MOTION_BLOCKING'', ''MOTION_BLOCKING_NO_LEAVES'', ''OCEAN_FLOOR'', ''WORLD_SURFACE'']"

text \<open>
  \<open>direct_interface.getChunks\<close> is not under src/: the chunks the host returns for a
  chunk rectangle, parsed, are a parameter of the constructor.
\<close>

definition newWorldSliceL ::
  "(int \<times> int \<times> int \<times> int \<Rightarrow> Chunk list) \<Rightarrow> int \<Rightarrow> int \<Rightarrow> int \<Rightarrow> int \<Rightarrow>
   string list option \<Rightarrow> pyerr + WorldSlice" where
  "newWorldSliceL getChunks x1 z1 x2 z2 hmTypes =
     (let types = (case hmTypes of None \<Rightarrow> defaultHeightmapTypes | Some ts \<Rightarrow> ts);
          r = (x1, z1, x2 - x1, z2 - z1);
          crect = (x1 div 16, z1 div 16,
                   ((x1 + (x2 - x1) - 1) div 16) - (x1 div 16) + 1,
                   ((z1 + (z2 - z1) - 1) div 16) - (z1 div 16) + 1);
          chunks = getChunks crect;
          rectOffset = (x1 mod 16, z1 mod 16)
      in case zeroHeightmaps r types of
           Inl e \<Rightarrow> Inl e
         | Inr maps0 \<Rightarrow>
             (case loadHeightmaps rectOffset crect types chunks maps0 of
                Inl e \<Rightarrow> Inl e
              | Inr maps \<Rightarrow>
                  (case loadSections crect chunks of
                     Inl e \<Rightarrow> Inl e
                   | Inr secs \<Rightarrow>
                       Inr \<lparr>rect = r, chunkRect = crect, heightmapTypes = types,
                            nbtfile = chunks, heightmaps = maps, sections = secs\<rparr>)))"

subsection \<open>Looking a block up in a WorldSlice\<close>

definition getBlockCompoundAt ::
  "WorldSlice \<Rightarrow> int \<Rightarrow> int \<Rightarrow> int \<Rightarrow> pyerr + compound option" where
  "getBlockCompoundAt ws x y z =
     (let chunkX = (x div 16) - fst (chunkRect ws);
          chunkZ = (z div 16) - fst (snd (chunkRect ws));
          chunkY = y div 16
      in case find (\<lambda>section. x_s section = chunkX \<and> y_s section = chunkY \<and> z_s section = chunkZ)
                (sections ws) of
           None \<Rightarrow> Inr None
         | Some cachedSection \<Rightarrow>
             (let blockIndex = (y mod 16) * 16 * 16 + (z mod 16) * 16 + x mod 16
              in case getAt (blockStatesBitArray cachedSection) blockIndex of
                   Inl e \<Rightarrow> Inl e
                 | Inr k \<Rightarrow>
                     (case py_index (blockPalette cachedSection) k of
                        Inl e \<Rightarrow> Inl e
                      | Inr c \<Rightarrow> Inr (Some c))))"

definition getBlockAt :: "WorldSlice \<Rightarrow> int \<Rightarrow> int \<Rightarrow> int \<Rightarrow> pyerr + string" where
  "getBlockAt ws x y z =
     (case getBlockCompoundAt ws x y z of
        Inl e \<Rightarrow> Inl e
      | Inr None \<Rightarrow> Inr ''minecraft:void_air''
      | Inr (Some blockCompound) \<Rightarrow>
          (case map_of blockCompound ''Name'' of
             None \<Rightarrow> Inl KeyError
           | Some name \<Rightarrow> Inr name))"

section \<open>Editors and hosts used as concrete inputs\<close>

text \<open>
  The constructor of Editor, with the arguments the claims vary: the interface,
  buffering and its limit, caching and its limit. Multithreading is off, as by default.
\<close>

definition newEditor :: "Interface \<Rightarrow> bool \<Rightarrow> int \<Rightarrow> bool \<Rightarrow> nat \<Rightarrow> Editor" where
  "newEditor i buf blim cach clim =
     \<lparr>interface = i, buffering = buf, bufferLimit = blim, buffer = [], commandBuffer = [],
      caching = cach, cache = \<lparr>maxSize = clim, entries = []\<rparr>,
      multithreading = False, bufferFlushFutures = [],
      doBlockUpdates = True, bufferDoBlockUpdates = True,
      worldSlice = None, worldSliceDecay = None, stderr = []\<rparr>"

definition mkBlock :: "string \<Rightarrow> Block" where
  "mkBlock i = \<lparr>id_b = i, states = [], data_b = None\<rparr>"

text \<open>
  A host that behaves: every position holds air until a block is placed there, every
  request is answered with the token 1 for each item, and a fetched slice shows the
  world as it is at the time of the fetch.
\<close>

definition worldAfter :: "request list \<Rightarrow> ivec3 \<Rightarrow> Block" where
  "worldAfter hist p =
     foldl (\<lambda>b r. case r of
                    PlaceBlocks bs _ _ \<Rightarrow> (case map_of bs p of Some b' \<Rightarrow> b' | None \<Rightarrow> b)
                  | RunCommand _ \<Rightarrow> b)
       (mkBlock ''minecraft:air'') hist"

definition plainHost :: Interface where
  "plainHost =
     \<lparr>sent = [],
      tokens = (\<lambda>_ r. case r of
                        PlaceBlocks bs _ _ \<Rightarrow> map (\<lambda>_. ''1'') bs
                      | RunCommand _ \<Rightarrow> [''1'']),
      blocksAt = (\<lambda>hist p _ _. [(p, worldAfter hist p)]),
      buildArea = (\<lambda>_. (True, \<lparr>boxOffset = (0, - 64, 0), boxSize = (2, 384, 2)\<rparr>)),
      sliceOf = (\<lambda>hist a.
        \<lparr>sliceRect = (case a of
                         AreaRect r \<Rightarrow> r
                       | AreaBox b \<Rightarrow> \<lparr>offset = dropY (boxOffset b), size2 = dropY (boxSize b)\<rparr>),
         sliceBlockAt = worldAfter hist\<rparr>)\<rparr>"

definition exEnv :: Env where
  "exEnv = \<lparr>BUILD_Y_MIN = - 64, BUILD_HEIGHT = 384, chooseId = (\<lambda>b. b)\<rparr>"

definition rect22 :: Rect where
  "rect22 = \<lparr>offset = (0, 0), size2 = (2, 2)\<rparr>"

text \<open>
  An editor on that host after \<open>loadWorldSlice\<close> of the rectangle with \<open>cache=True\<close>,
  and the same editor after it placed stone at the origin.
\<close>

definition loadedEditor :: Editor where
  "loadedEditor =
     (newEditor plainHost False 1024 False 8192)
       \<lparr>worldSlice := Some \<lparr>sliceRect = rect22, sliceBlockAt = worldAfter []\<rparr>,
        worldSliceDecay := Some \<lparr>shape3 = (2, 384, 2), cells3 = (\<lambda>_. False)\<rparr>\<rparr>"

definition writtenEditor :: Editor where
  "writtenEditor =
     loadedEditor
       \<lparr>interface :=
          plainHost\<lparr>sent := [PlaceBlocks [((0, 0, 0), mkBlock ''minecraft:stone'')] True None]\<rparr>,
        worldSliceDecay :=
          Some \<lparr>shape3 = (2, 384, 2), cells3 = (\<lambda>_. False)((0, 64, 0) := True)\<rparr>\<rparr>"

text \<open>
  The test of the section scan in \<open>getBlockCompoundAt\<close>: the section is the one that
  holds the coordinate.
\<close>

definition sectionAt :: "WorldSlice \<Rightarrow> int \<Rightarrow> int \<Rightarrow> int \<Rightarrow> CachedSection \<Rightarrow> bool" where
  "sectionAt ws x y z section =
     (x_s section = (x div 16) - fst (chunkRect ws) \<and> y_s section = y div 16 \<and>
      z_s section = (z div 16) - fst (snd (chunkRect ws)))"

text \<open>
  One chunk with three sections: one with a palette, one without block states and
  one whose block states are empty; and the world slice the constructor builds from
  it when no height map is asked for.
\<close>

definition exSections :: "RawSection list" where
  "exSections =
     [\<lparr>Y_s = 0,
       block_states = Some \<lparr>palette = Some [[(''Name'', ''minecraft:stone'')]], data_s = None\<rparr>,
       biomes = Some \<lparr>biomePalette = Some [''minecraft:plains''], biomeData = None\<rparr>\<rparr>,
      \<lparr>Y_s = 1, block_states = None, biomes = None\<rparr>,
      \<lparr>Y_s = 2, block_states = Some \<lparr>palette = None, data_s = None\<rparr>, biomes = None\<rparr>]"

definition exChunks :: "int \<times> int \<times> int \<times> int \<Rightarrow> Chunk list" where
  "exChunks crect = [\<lparr>Heightmaps = [], sections_c = exSections\<rparr>]"

definition exSlice :: WorldSlice where
  "exSlice =
     \<lparr>rect = (0, 0, 16, 16), chunkRect = (0, 0, 1, 1), heightmapTypes = [],
      nbtfile = exChunks (0, 0, 1, 1), heightmaps = [],
      sections =
        [\<lparr>x_s = 0, y_s = 0, z_s = 0,
          blockPalette = [[(''Name'', ''minecraft:stone'')]],
          blockStatesBitArray = \<lparr>bitsPerEntry = 4, arraySize = 4096, longArray = []\<rparr>,
          biomesPalette = [''minecraft:plains''],
          biomesBitArray = \<lparr>bitsPerEntry = 1, arraySize = 64, longArray = []\<rparr>\<rparr>]\<rparr>"

text \<open>
  Words for the statements about reading: the lookup cache does not answer, the
  write buffer does not answer, and the editor after the block read was stored in the
  lookup cache, which happens when caching is on.
\<close>

definition cacheStored :: "Editor \<Rightarrow> ivec3 \<Rightarrow> Block \<Rightarrow> Editor" where
  "cacheStored s p b = (if caching s then s\<lparr>cache := cache_setitem (cache s) p b\<rparr> else s)"

definition cacheMiss :: "Editor \<Rightarrow> ivec3 \<Rightarrow> bool" where
  "cacheMiss s p = (\<not> caching s \<or> cache_getitem (cache s) p = None)"

definition bufferMiss :: "Editor \<Rightarrow> ivec3 \<Rightarrow> bool" where
  "bufferMiss s p = (\<not> buffering s \<or> map_of (buffer s) p = None)"

text \<open>
  An editor with caching and buffering on and a slice cached, in which four positions
  are answered by four different sources: the origin is in the cache (and in the
  buffer), (1, 0, 0) is in the buffer only, (1, 0, 1) is in the slice and not decayed,
  (0, 0, 1) is decayed. The host holds glass at the last two positions.
\<close>

definition readEditor :: Editor where
  "readEditor =
     (newEditor
        (plainHost\<lparr>sent := [PlaceBlocks [((1, 0, 1), mkBlock ''minecraft:glass''),
                                          ((0, 0, 1), mkBlock ''minecraft:glass'')] True None]\<rparr>)
        True 1024 True 8192)
       \<lparr>cache := \<lparr>maxSize = 8192, entries = [((0, 0, 0), mkBlock ''minecraft:stone'')]\<rparr>,
        buffer := [((0, 0, 0), mkBlock ''minecraft:dirt''), ((1, 0, 0), mkBlock ''minecraft:dirt'')],
        worldSlice := Some \<lparr>sliceRect = rect22, sliceBlockAt = worldAfter []\<rparr>,
        worldSliceDecay :=
          Some \<lparr>shape3 = (2, 384, 2), cells3 = (\<lambda>_. False)((0, 64, 1) := True)\<rparr>\<rparr>"

text \<open>An editor on the plain host with caching on and nothing cached.\<close>

definition cachingEditor :: Editor where
  "cachingEditor = newEditor plainHost False 1024 True 8192"

text \<open>
  Staging a list of writes one at a time, each with the editor's own block-update
  setting; and the request a flush sends for the pending commands, if there are any.
\<close>

definition stageAll :: "Editor \<Rightarrow> (ivec3 \<times> Block) list \<Rightarrow> Editor" where
  "stageAll s ws = foldl (\<lambda>s1 w. snd (placeSingleBlockGlobalBuffered s1 (fst w) (snd w) None)) s ws"

definition commandRequests :: "string list \<Rightarrow> request list" where
  "commandRequests cmds = (if cmds = [] then [] else [RunCommand (joinLines cmds)])"

text \<open>An editor on the plain host with buffering on and a buffer limit of 2.\<close>

definition bufferedEditor :: Editor where
  "bufferedEditor = newEditor plainHost True 2 False 8192"

text \<open>
  A history variable beside the editor: for each position in the write buffer, the
  block-update flag that was in effect when the write now in the buffer was staged.
  A staging step records the flag of the new write and forgets the positions that
  left the buffer. \<open>oneFlag\<close> says that every write in the buffer was staged under
  the flag the buffer carries.
\<close>

definition stageTracked ::
  "Editor \<times> (ivec3 \<times> bool) list \<Rightarrow> ivec3 \<times> Block \<times> bool option \<Rightarrow>
   Editor \<times> (ivec3 \<times> bool) list" where
  "stageTracked sg w =
     (case sg of (s, g) \<Rightarrow>
        (case w of (p, b, flag) \<Rightarrow>
           (let s' = snd (placeSingleBlockGlobalBuffered s p b flag)
            in (s', AList.update p (effectiveUpdates s flag)
                      (filter (\<lambda>e. map_of (buffer s') (fst e) \<noteq> None) g)))))"

definition oneFlag :: "Editor \<times> (ivec3 \<times> bool) list \<Rightarrow> bool" where
  "oneFlag sg =
     (case sg of (s, g) \<Rightarrow>
        list_all (\<lambda>e. map_of g (fst e) = Some (bufferDoBlockUpdates s)) (buffer s))"

text \<open>
  On the editor with buffering on: one write staged with the editor's setting, then
  a write staged with block updates off.
\<close>

definition flagRun :: "Editor \<times> (ivec3 \<times> bool) list" where
  "flagRun = foldl stageTracked (bufferedEditor, []) [((0, 0, 0), mkBlock ''minecraft:stone'', None)]"

definition flagStep :: "Editor \<times> (ivec3 \<times> bool) list" where
  "flagStep = stageTracked flagRun ((1, 0, 0), mkBlock ''minecraft:dirt'', Some False)"

text \<open>
  A result token in the words of the specification: syntactically a non-negative
  integer, a non-empty string of decimal digits. And a string of ASCII characters.
\<close>

definition isNonNegativeInteger :: "string \<Rightarrow> bool" where
  "isNonNegativeInteger t =
     (t \<noteq> [] \<and> list_all (\<lambda>c. 48 \<le> (of_char c :: nat) \<and> (of_char c :: nat) \<le> 57) t)"

definition isAscii :: "string \<Rightarrow> bool" where
  "isAscii t = list_all (\<lambda>c. (of_char c :: nat) < 128) t"

text \<open>
  The token made of the one character U+00B2, superscript two; an editor whose host
  answers every request with that token; and an editor with three writes and a
  command pending whose host answers a batch of blocks with the tokens err, 1, bad
  and a command with the tokens fail, 12.
\<close>

definition superscriptTwo :: string where
  "superscriptTwo = [char_of (178 :: nat)]"

definition superscriptEditor :: Editor where
  "superscriptEditor =
     newEditor (plainHost\<lparr>tokens := (\<lambda>_ _. [superscriptTwo])\<rparr>) False 1024 False 8192"

definition mixedEditor :: Editor where
  "mixedEditor =
     (newEditor
        (plainHost\<lparr>tokens := (\<lambda>_ r. case r of
                                      PlaceBlocks _ _ _ \<Rightarrow> [''err'', ''1'', ''bad'']
                                    | RunCommand _ \<Rightarrow> [''fail'', ''12''])\<rparr>)
        True 1024 False 8192)
       \<lparr>buffer := [((0, 0, 0), mkBlock ''minecraft:stone''),
                  ((1, 0, 0), mkBlock ''minecraft:stone''),
                  ((2, 0, 0), mkBlock ''minecraft:stone'')],
        commandBuffer := [''say hi'']\<rparr>"

text \<open>
  The tokens the host answers to the two requests of a flush: to the batch of the
  buffered blocks, and to the pending commands sent after it.
\<close>

definition blockTokens :: "Editor \<Rightarrow> nat \<Rightarrow> string list" where
  "blockTokens s n =
     (if buffer s = [] then []
      else tokens (interface s) (sent (interface s))
             (PlaceBlocks (buffer s) (bufferDoBlockUpdates s) (Some n)))"

definition commandTokens :: "Editor \<Rightarrow> nat \<Rightarrow> string list" where
  "commandTokens s n =
     (if commandBuffer s = [] then []
      else tokens (interface s)
             (sent (interface s) @
              (if buffer s = [] then []
               else [PlaceBlocks (buffer s) (bufferDoBlockUpdates s) (Some n)]))
             (RunCommand (joinLines (commandBuffer s))))"

text \<open>
  Words for the statements about the decay array: the answer of a read, a block or an
  exception, without the editor; the cell of the decay array that belongs to a
  position; a decay array of the shape \<open>loadWorldSlice\<close> gives it for a slice; and a
  position whose Y lies within the build height.
\<close>

definition answer :: "pyerr + (Block \<times> Editor) \<Rightarrow> pyerr + Block" where
  "answer r = map_sum id fst r"

definition cellOf :: "Env \<Rightarrow> SliceView \<Rightarrow> ivec3 \<Rightarrow> nat \<times> nat \<times> nat" where
  "cellOf env ws p =
     (nat (fst p - fst (offset (sliceRect ws))),
      nat (fst (snd p) - BUILD_Y_MIN env),
      nat (snd (snd p) - snd (offset (sliceRect ws))))"

definition decayShaped :: "Env \<Rightarrow> SliceView \<Rightarrow> ndarray3 \<Rightarrow> bool" where
  "decayShaped env ws d =
     (0 \<le> fst (size2 (sliceRect ws)) \<and> 0 \<le> BUILD_HEIGHT env \<and> 0 \<le> snd (size2 (sliceRect ws)) \<and>
      shape3 d = (nat (fst (size2 (sliceRect ws))), nat (BUILD_HEIGHT env),
                  nat (snd (size2 (sliceRect ws)))))"

definition inBuildHeight :: "Env \<Rightarrow> ivec3 \<Rightarrow> bool" where
  "inBuildHeight env p =
     (BUILD_Y_MIN env \<le> fst (snd p) \<and> fst (snd p) < BUILD_Y_MIN env + BUILD_HEIGHT env)"

text \<open>
  What the end of a successful placement does to the decay array of the editor it
  started from: it sets the array at the position's index when a slice is cached
  whose rectangle contains the position's XZ, and leaves it alone otherwise.
\<close>

definition recorded :: "Env \<Rightarrow> Editor \<Rightarrow> ivec3 \<Rightarrow> Editor \<Rightarrow> bool" where
  "recorded env s p s' =
     (case worldSlice s of
        None \<Rightarrow> worldSliceDecay s' = worldSliceDecay s
      | Some ws \<Rightarrow>
          if contains (sliceRect ws) (dropY p)
          then (\<exists>d d'. worldSliceDecay s = Some d \<and>
                  np_set3 d (decayIndex env ws p) True = Inr d' \<and> worldSliceDecay s' = Some d')
          else worldSliceDecay s' = worldSliceDecay s)"

text \<open>
  An editor with a cached slice, caching on with room for one entry, and stone cached
  for the position (5, 0, 5), which lies outside the slice and where the host holds
  air; and the same editor after it placed dirt at the origin.
\<close>

definition evictEditor :: Editor where
  "evictEditor =
     (newEditor plainHost False 1024 True 1)
       \<lparr>cache := \<lparr>maxSize = 1, entries = [((5, 0, 5), mkBlock ''minecraft:stone'')]\<rparr>,
        worldSlice := Some \<lparr>sliceRect = rect22, sliceBlockAt = worldAfter []\<rparr>,
        worldSliceDecay := Some \<lparr>shape3 = (2, 384, 2), cells3 = (\<lambda>_. False)\<rparr>\<rparr>"

definition evictedEditor :: Editor where
  "evictedEditor =
     evictEditor
       \<lparr>interface :=
          plainHost\<lparr>sent := [PlaceBlocks [((0, 0, 0), mkBlock ''minecraft:dirt'')] True None]\<rparr>,
        cache := \<lparr>maxSize = 1, entries = [((0, 0, 0), mkBlock ''minecraft:dirt'')]\<rparr>,
        worldSliceDecay :=
          Some \<lparr>shape3 = (2, 384, 2), cells3 = (\<lambda>_. False)((0, 64, 0) := True)\<rparr>\<rparr>"

text \<open>
  The height map of one chunk, packed at 9 bits: the element at index \<open>k\<close> is
  \<open>64 + k\<close>, so that the height decoded for the chunk-local column \<open>(cx, cz)\<close> is
  \<open>cz * 16 + cx\<close>. And a host with that one chunk.
\<close>

definition hmWords :: "int list" where
  "hmWords =
     [1263440299272208960, 1389787861420904519, 1516135423569600078, 1642482985718295637,
      1768830547866991196, 1895178110015686755, 2021525672164382314,
      2147873234313077873, 2274220796461773432, 2400568358610468991,
      2526915920759164550, 2653263482907860109, 2779611045056555668,
      2905958607205251227, 3032306169353946786, 3158653731502642345,
      3285001293651337904, 3411348855800033463, 3537696417948729022,
      3664043980097424581, 3790391542246120140, 3916739104394815699,
      4043086666543511258, 4169434228692206817, 4295781790840902376,
      4422129352989597935, 4548476915138293494, 4674824477286989053,
      4801172039435684612, 4927519601584380171, 5053867163733075730,
      5180214725881771289, 5306562288030466848, 5432909850179162407,
      5559257412327857966, 5685604974476553525, 42898979644]"

definition hmChunks :: "int \<times> int \<times> int \<times> int \<Rightarrow> Chunk list" where
  "hmChunks crect = [\<lparr>Heightmaps = [(''MOTION_BLOCKING'', hmWords)], sections_c = []\<rparr>]"

text \<open>
  The editor with the cached slice after it placed stone at the top of the build
  height, at Y = 319.
\<close>

definition topWrittenEditor :: Editor where
  "topWrittenEditor =
     loadedEditor
       \<lparr>interface :=
          plainHost\<lparr>sent := [PlaceBlocks [((0, 319, 0), mkBlock ''minecraft:stone'')] True None]\<rparr>,
        worldSliceDecay :=
          Some \<lparr>shape3 = (2, 384, 2), cells3 = (\<lambda>_. False)((0, 383, 0) := True)\<rparr>\<rparr>"

text \<open>
  An editor with buffering and multithreaded flushing on; one write staged with the
  editor's block-update setting, which is on; then a write staged with block updates
  off. The history variable records the flag each write was staged under.
\<close>

definition threadedEditor :: Editor where
  "threadedEditor = (newEditor plainHost True 1024 False 8192)\<lparr>multithreading := True\<rparr>"

definition threadedRun :: "Editor \<times> (ivec3 \<times> bool) list" where
  "threadedRun =
     foldl stageTracked (threadedEditor, []) [((0, 0, 0), mkBlock ''minecraft:stone'', None)]"

definition threadedStep :: "Editor \<times> (ivec3 \<times> bool) list" where
  "threadedStep = stageTracked threadedRun ((1, 0, 0), mkBlock ''minecraft:dirt'', Some False)"

text \<open>
  Words for the statements about a read and an earlier write at another position.
  The block the host answers for one position, \<open>getBlocks(position)[0][1]\<close>. The
  entries of the lookup cache for the positions other than a given one, and whether
  the cache has room for an entry for that position beside them. A flush is due when
  a write is staged: the flag in effect differs from the buffer's, or the buffer has
  reached its limit.
\<close>

definition hostBlock :: "Interface \<Rightarrow> ivec3 \<Rightarrow> bool \<Rightarrow> bool \<Rightarrow> pyerr + Block" where
  "hostBlock i position includeState includeData =
     (case getBlocks i position includeState includeData of
        [] \<Rightarrow> Inl IndexError
      | r # _ \<Rightarrow> Inr (snd r))"

definition otherEntries :: "OrderedByLookupDict \<Rightarrow> ivec3 \<Rightarrow> (ivec3 \<times> Block) list" where
  "otherEntries c p = filter (\<lambda>e. fst e \<noteq> p) (entries c)"

definition cacheHasRoom :: "OrderedByLookupDict \<Rightarrow> ivec3 \<Rightarrow> bool" where
  "cacheHasRoom c p = (length (otherEntries c p) < maxSize c)"

definition flushDue :: "Editor \<Rightarrow> bool option \<Rightarrow> bool" where
  "flushDue s flag =
     (effectiveUpdates s flag \<noteq> bufferDoBlockUpdates s \<or>
      bufferLimit s \<le> int (length (buffer s)))"

text \<open>
  What operations of the lookup cache at one position leave of the entries for the
  other positions: a final part of them, and all of them when the cache has room. And
  what a write of a block at a position leaves of the editor's cache and buffer: the
  buffer is as it was, or holds the block as well, or was flushed because a flush was
  due and holds the block alone.
\<close>

definition cacheKept :: "ivec3 \<Rightarrow> OrderedByLookupDict \<Rightarrow> OrderedByLookupDict \<Rightarrow> bool" where
  "cacheKept p c c' =
     (maxSize c' = maxSize c \<and> suffix (otherEntries c' p) (otherEntries c p) \<and>
      (cacheHasRoom c p \<longrightarrow> otherEntries c' p = otherEntries c p))"

definition keptBy :: "ivec3 \<Rightarrow> Block \<Rightarrow> bool option \<Rightarrow> Editor \<Rightarrow> Editor \<Rightarrow> bool" where
  "keptBy p b flag s s' =
     (caching s' = caching s \<and> buffering s' = buffering s \<and>
      (\<not> caching s \<longrightarrow> cache s' = cache s) \<and> cacheKept p (cache s) (cache s') \<and>
      (buffer s' = buffer s \<or> buffer s' = AList.update p b (buffer s) \<or>
       (buffering s \<and> flushDue s flag \<and> buffer s' = [(p, b)])))"

text \<open>
  An editor with buffering and multithreaded flushing on, a buffer limit of 1, a
  cached slice, and stone pending for the position (5, 0, 5) outside the slice; and
  the same editor after it placed dirt at the origin, which detached the buffer into
  a task that is waiting.
\<close>

definition detachEditor :: Editor where
  "detachEditor =
     (newEditor plainHost True 1 False 8192)
       \<lparr>buffer := [((5, 0, 5), mkBlock ''minecraft:stone'')],
        multithreading := True,
        worldSlice := Some \<lparr>sliceRect = rect22, sliceBlockAt = worldAfter []\<rparr>,
        worldSliceDecay := Some \<lparr>shape3 = (2, 384, 2), cells3 = (\<lambda>_. False)\<rparr>\<rparr>"

definition detachedEditor :: Editor where
  "detachedEditor =
     detachEditor
       \<lparr>buffer := [((0, 0, 0), mkBlock ''minecraft:dirt'')],
        bufferFlushFutures :=
          [\<lparr>blockBufferCopy = [((5, 0, 5), mkBlock ''minecraft:stone'')],
            commandBufferCopy = [], flushRetries = 5, isDone = False\<rparr>],
        worldSliceDecay :=
          Some \<lparr>shape3 = (2, 384, 2), cells3 = (\<lambda>_. False)((0, 64, 0) := True)\<rparr>\<rparr>"

text \<open>
  A host on which water spreads: once water was placed at a position with block
  updates on, the position one step further in X holds water too. An editor with the
  cached slice on that host, and the same editor after it placed water at (1, 0, 0).
\<close>

definition spreadAfter :: "request list \<Rightarrow> ivec3 \<Rightarrow> Block" where
  "spreadAfter hist p =
     (if list_ex (\<lambda>r. case r of
                        PlaceBlocks bs upd _ \<Rightarrow>
                          upd \<and> map_of bs (fst p - 1, fst (snd p), snd (snd p))
                                  = Some (mkBlock ''minecraft:water'')
                      | RunCommand _ \<Rightarrow> False) hist
      then mkBlock ''minecraft:water''
      else worldAfter hist p)"

definition spreadEditor :: Editor where
  "spreadEditor =
     loadedEditor\<lparr>interface := plainHost\<lparr>blocksAt := (\<lambda>hist p _ _. [(p, spreadAfter hist p)])\<rparr>\<rparr>"

definition spreadWrittenEditor :: Editor where
  "spreadWrittenEditor =
     spreadEditor
       \<lparr>interface :=
          (interface spreadEditor)
            \<lparr>sent := [PlaceBlocks [((1, 0, 0), mkBlock ''minecraft:water'')] True None]\<rparr>,
        worldSliceDecay :=
          Some \<lparr>shape3 = (2, 384, 2), cells3 = (\<lambda>_. False)((1, 64, 0) := True)\<rparr>\<rparr>"

text \<open>
  The editor with the cached slice, buffering on and stone pending for the position
  (5, 0, 5); and the same editor after it staged dirt for the origin.
\<close>

definition pendingEditor :: Editor where
  "pendingEditor =
     loadedEditor\<lparr>buffering := True, buffer := [((5, 0, 5), mkBlock ''minecraft:stone'')]\<rparr>"

definition pendingWrittenEditor :: Editor where
  "pendingWrittenEditor =
     pendingEditor
       \<lparr>buffer := [((5, 0, 5), mkBlock ''minecraft:stone''),
                  ((0, 0, 0), mkBlock ''minecraft:dirt'')],
        worldSliceDecay :=
          Some \<lparr>shape3 = (2, 384, 2), cells3 = (\<lambda>_. False)((0, 64, 0) := True)\<rparr>\<rparr>"

section \<open>Unfolding the definitions on the example editors\<close>

lemmas ex_simps =
  newEditor_def plainHost_def mkBlock_def rect22_def exEnv_def
  cacheMiss_def bufferMiss_def cache_getitem_def cache_setitem_def contains_def dropY_def
  decayIndex_def vsub_def addY_def np_get3_def np_cell3_def np_index_def getBlocks_def
  worldAfter_def getBlockGlobal_def sliceForRead_def blockInReplace_def Let_def

lemmas stage_simps =
  stageAll_def placeSingleBlockGlobalBuffered_def sendBufferedBlocks_def flush_def
  effectiveUpdates_def placeBlocks_def runCommandI_def send_def commandRequests_def
  isnumeric_def isnumeric_char_def Let_def newEditor_def plainHost_def mkBlock_def

lemmas write_simps =
  placeSingleBlockGlobal_def placeChosen_def placeSingleBlockGlobalDirect_def
  recordPlacement_def placeBlocks_def send_def effectiveUpdates_def isnumeric_def
  isnumeric_char_def np_set3_def idInBlock_def answer_def

section \<open>Refreshing the cached world slice\<close>

lemma loadedEditor_is_loaded:
  "loadWorldSlice exEnv (newEditor plainHost False 1024 False 8192) (Some rect22) True
     = Inr (\<lparr>sliceRect = rect22, sliceBlockAt = worldAfter []\<rparr>, loadedEditor)"
  by (simp add: Let_def loadWorldSlice_def newWorldSlice_def plainHost_def newEditor_def
      loadedEditor_def np_zeros3_def addY_def rect22_def exEnv_def)

lemma writtenEditor_is_written:
  "placeSingleBlockGlobal exEnv loadedEditor (0, 0, 0) (mkBlock ''minecraft:stone'') None None
     = Inr (True, writtenEditor)"
  by (simp add: Let_def placeSingleBlockGlobal_def placeChosen_def
      placeSingleBlockGlobalDirect_def recordPlacement_def loadedEditor_def writtenEditor_def
      newEditor_def plainHost_def exEnv_def mkBlock_def placeBlocks_def send_def
      effectiveUpdates_def isnumeric_def isnumeric_char_def rect22_def contains_def dropY_def
      np_set3_def np_cell3_def np_index_def decayIndex_def vsub_def addY_def)

text \<open>
  Claim C1. The claim says that \<open>updateWorldSlice\<close> replaces the cached slice by a new
  one and resets the decay array. The code calls \<open>loadWorldSlice\<close> without
  \<open>cache=True\<close>: with a slice cached, it returns the slice newly fetched for the cached
  rectangle and leaves the editor as it was, the cached slice and the decay array
  included.
\<close>

theorem updateWorldSlice_leaves_cache:
  "worldSlice s = Some old \<Longrightarrow>
   updateWorldSlice env s = Inr (newWorldSlice (interface s) (AreaRect (sliceRect old)), s)"
  by (simp add: updateWorldSlice_def loadWorldSlice_def Let_def)

text \<open>
  On the editor that placed stone at the origin: the refreshed slice shows the stone,
  the slice that stays cached still shows air there, and the decay cell of the origin
  stays set.
\<close>

theorem updateWorldSlice_leaves_cache_witness:
  "worldSlice writtenEditor = Some \<lparr>sliceRect = rect22, sliceBlockAt = worldAfter []\<rparr> \<and>
   updateWorldSlice exEnv writtenEditor
     = Inr (newWorldSlice (interface writtenEditor) (AreaRect rect22), writtenEditor) \<and>
   sliceBlockAt (newWorldSlice (interface writtenEditor) (AreaRect rect22)) (0, 0, 0)
     = mkBlock ''minecraft:stone'' \<and>
   map_option (\<lambda>w. sliceBlockAt w (0, 0, 0)) (worldSlice writtenEditor)
     = Some (mkBlock ''minecraft:air'') \<and>
   map_option (\<lambda>d. cells3 d (0, 64, 0)) (worldSliceDecay writtenEditor) = Some True"
proof -
  have cached: "worldSlice writtenEditor = Some \<lparr>sliceRect = rect22, sliceBlockAt = worldAfter []\<rparr>"
    by (simp add: writtenEditor_def loadedEditor_def)
  have fresh: "sliceBlockAt (newWorldSlice (interface writtenEditor) (AreaRect rect22)) (0, 0, 0)
      = mkBlock ''minecraft:stone''"
    by (simp add: newWorldSlice_def writtenEditor_def plainHost_def worldAfter_def)
  have stale: "map_option (\<lambda>w. sliceBlockAt w (0, 0, 0)) (worldSlice writtenEditor)
      = Some (mkBlock ''minecraft:air'')"
    by (simp add: cached worldAfter_def)
  have decayed: "map_option (\<lambda>d. cells3 d (0, 64, 0)) (worldSliceDecay writtenEditor) = Some True"
    by (simp add: writtenEditor_def)
  from updateWorldSlice_leaves_cache [OF cached, of exEnv] cached fresh stale decayed
  show ?thesis by simp
qed

section \<open>Sections the snapshot does not hold\<close>

lemma buildSection_omits:
  "block_states section = None \<or>
   block_states section = Some \<lparr>palette = None, data_s = None\<rparr> \<Longrightarrow>
   buildSection x z section = Inr None"
  by (auto simp: buildSection_def)

lemma exSlice_is_built: "newWorldSliceL exChunks 0 0 16 16 (Some []) = Inr exSlice"
  by (simp add: newWorldSliceL_def Let_def zeroHeightmaps_def loadHeightmaps_def
      loadSections_def pyrange_def exChunks_def exSections_def py_index_def np_index_def
      buildSection_def blockPaletteBitsPerEntry_def biomesBitsPerEntry_def newBitArray_def
      exSlice_def upt_rec ceil_log2.simps)

text \<open>
  Claim C9. When no section of the snapshot's collection holds a coordinate, the
  compound-level lookup returns None, which is not a compound, and the
  identifier-level read returns the identifier \<open>minecraft:void_air\<close>; neither raises.
\<close>

theorem omitted_section_reads_void_air:
  assumes "\<forall>section \<in> set (sections ws). \<not> sectionAt ws x y z section"
  shows "getBlockCompoundAt ws x y z = Inr None \<and>
         getBlockAt ws x y z = Inr ''minecraft:void_air''"
proof -
  from assms have "find (sectionAt ws x y z) (sections ws) = None"
    by (simp add: find_None_iff)
  then have "getBlockCompoundAt ws x y z = Inr None"
    by (simp add: getBlockCompoundAt_def sectionAt_def [abs_def] Let_def)
  then show ?thesis
    by (simp add: getBlockAt_def)
qed

text \<open>
  In the slice built from the one chunk, the coordinate (3, 17, 5) lies in the section
  that had no block states and was passed over.
\<close>

theorem omitted_section_reads_void_air_witness:
  "filter (sectionAt exSlice 3 17 5) (sections exSlice) = [] \<and>
   getBlockCompoundAt exSlice 3 17 5 = Inr None \<and>
   getBlockAt exSlice 3 17 5 = Inr ''minecraft:void_air''"
proof -
  have h: "\<forall>section \<in> set (sections exSlice). \<not> sectionAt exSlice 3 17 5 section"
    by (simp add: exSlice_def sectionAt_def)
  have e: "filter (sectionAt exSlice 3 17 5) (sections exSlice) = []"
    by (simp add: exSlice_def sectionAt_def)
  from omitted_section_reads_void_air [OF h] e show ?thesis
    by simp
qed

section \<open>Bit widths of the palettes\<close>

lemma ceil_log2_one: "ceil_log2 (Suc 0) = 0"
  by (simp add: ceil_log2.simps)

lemma ceil_log2_eq: "0 < n \<Longrightarrow> int (ceil_log2 n) = \<lceil>log 2 (real n)\<rceil>"
proof (induction n rule: ceil_log2.induct)
  case (1 n)
  show ?case
  proof (cases "n \<le> 1")
    case True
    with "1.prems" have "n = 1" by simp
    then show ?thesis by (simp add: ceil_log2.simps)
  next
    case False
    then have n2: "2 \<le> n" by simp
    have half: "(n + 1) div 2 = (n - 1) div 2 + 1" using n2 by (cases n) auto
    have pos: "0 < (n + 1) div 2" using n2 by simp
    have ih: "int (ceil_log2 ((n + 1) div 2)) = \<lceil>log 2 (real ((n + 1) div 2))\<rceil>"
      using "1.IH" [OF False pos] .
    have "int (ceil_log2 n) = int (ceil_log2 ((n + 1) div 2)) + 1"
      using False by (subst ceil_log2.simps) simp
    also have "\<dots> = \<lceil>log 2 (real ((n - 1) div 2 + 1))\<rceil> + 1"
      using ih half by simp
    also have "\<dots> = \<lceil>log 2 (real n)\<rceil>"
      using ceiling_log2_div2 [OF n2] by simp
    finally show ?thesis .
  qed
qed

lemma max_ceil_log2: "0 < p \<Longrightarrow> max m (ceil_log2 p) = specBitWidth m p"
  using ceil_log2_eq [of p] by (simp add: specBitWidth_def)

text \<open>
  The sections the constructor builds carry bit arrays of these widths.
\<close>

lemma section_bit_widths:
  assumes "buildSection x z section = Inr (Some cs)"
  shows "bitsPerEntry (blockStatesBitArray cs) = specBitWidth 4 (length (blockPalette cs)) \<and>
         bitsPerEntry (biomesBitArray cs) = specBitWidth 1 (length (biomesPalette cs))"
proof -
  have b: "blockPaletteBitsPerEntry n = Inr w \<Longrightarrow> w = specBitWidth 4 n" for n w
    using max_ceil_log2 [of n 4] by (cases "n = 0") (auto simp: blockPaletteBitsPerEntry_def)
  have c: "biomesBitsPerEntry n = Inr w \<Longrightarrow> w = specBitWidth 1 n" for n w
    using max_ceil_log2 [of n 1] by (cases "n = 0") (auto simp: biomesBitsPerEntry_def)
  from assms show ?thesis
    by (auto simp: buildSection_def newBitArray_def
        split: option.splits if_splits sum.splits dest: b c)
qed



section \<open>Reading a block: the order of the sources\<close>

lemma map_of_filter_other: "map_of (filter (\<lambda>e. fst e \<noteq> k) xs) k = None"
  by (induction xs) auto

lemma map_of_drop_last:
  "map_of ys k = None \<Longrightarrow> n \<le> length ys \<Longrightarrow> map_of (drop n (ys @ [(k, v)])) k = Some v"
proof (induction ys arbitrary: n)
  case Nil
  then show ?case by simp
next
  case (Cons y ys)
  show ?case
  proof (cases n)
    case 0
    with Cons.prems show ?thesis by (auto simp: map_add_def split: if_splits)
  next
    case (Suc m)
    with Cons show ?thesis by (cases y) (simp split: if_splits)
  qed
qed

lemma cache_getitem_lookup:
  "cache_getitem c p = Some (b, c') \<Longrightarrow> map_of (entries c') p = Some b"
  by (auto simp: cache_getitem_def map_add_def map_of_filter_other split: option.splits)

lemma cache_setitem_lookup:
  "0 < maxSize c \<Longrightarrow> map_of (entries (cache_setitem c p b)) p = Some b"
  unfolding cache_setitem_def Let_def
  by (simp del: drop_append map_of_append)
    (rule map_of_drop_last, simp add: map_of_filter_other, arith)

text \<open>
  When the decay array cannot be indexed at the position, the read raises; the last
  section shows for which positions that is.
\<close>

lemma read_raises_when_decay_unindexable:
  "cacheMiss s p \<Longrightarrow> bufferMiss s p \<Longrightarrow> worldSlice s = Some ws \<Longrightarrow>
   contains (sliceRect ws) (dropY p) \<Longrightarrow> worldSliceDecay s = Some d \<Longrightarrow>
   np_get3 d (decayIndex env ws p) = Inl e \<Longrightarrow>
   getBlockGlobal env s p gs gd = Inl e"
  by (auto simp: getBlockGlobal_def sliceForRead_def cacheMiss_def bufferMiss_def
      split: option.splits)

text \<open>
  Where the decay array can be indexed, a read is answered by the first of four
  sources that applies. A hit in the lookup cache, with caching on, answers whatever
  the buffer, the slice and the host hold, and the entry stays in the cache.
  Otherwise a hit in the write buffer, with buffering on, answers and leaves the
  editor as it was. Otherwise the cached slice answers when one is cached, its
  rectangle contains the position's XZ and the decay array is false at the
  position's index. Otherwise the host is asked for the one position. What the slice
  or the host answered is stored in the lookup cache when caching is on.
\<close>

lemma read_priority:
  "(caching s \<and> cache_getitem (cache s) p = Some (b, c) \<longrightarrow>
      getBlockGlobal env s p gs gd = Inr (b, s\<lparr>cache := c\<rparr>) \<and>
      map_of (entries c) p = Some b) \<and>
   (cacheMiss s p \<and> buffering s \<and> map_of (buffer s) p = Some b \<longrightarrow>
      getBlockGlobal env s p gs gd = Inr (b, s)) \<and>
   (cacheMiss s p \<and> bufferMiss s p \<and> worldSlice s = Some ws \<and>
    contains (sliceRect ws) (dropY p) \<and> worldSliceDecay s = Some d \<and>
    np_get3 d (decayIndex env ws p) = Inr False \<longrightarrow>
      getBlockGlobal env s p gs gd
        = Inr (sliceBlockAt ws p, cacheStored s p (sliceBlockAt ws p))) \<and>
   (cacheMiss s p \<and> bufferMiss s p \<and>
    (worldSlice s = None \<or>
     (worldSlice s = Some ws \<and>
      (\<not> contains (sliceRect ws) (dropY p) \<or>
       (worldSliceDecay s = Some d \<and> np_get3 d (decayIndex env ws p) = Inr True)))) \<and>
    getBlocks (interface s) p gs gd = r # rs \<longrightarrow>
      getBlockGlobal env s p gs gd = Inr (snd r, cacheStored s p (snd r)))"
  by (auto simp: getBlockGlobal_def sliceForRead_def cacheStored_def
      cacheMiss_def bufferMiss_def cache_getitem_lookup split: option.splits)

lemmas readEditor_simps =
  readEditor_def newEditor_def plainHost_def mkBlock_def rect22_def exEnv_def
  cacheMiss_def bufferMiss_def cache_getitem_def contains_def dropY_def decayIndex_def
  vsub_def addY_def np_get3_def np_cell3_def np_index_def getBlocks_def worldAfter_def

text \<open>
  The four positions of the example editor, one for each source.
\<close>

lemma read_priority_example:
  "getBlockGlobal exEnv readEditor (0, 0, 0) True False
     = Inr (mkBlock ''minecraft:stone'', readEditor) \<and>
   getBlockGlobal exEnv readEditor (1, 0, 0) True False
     = Inr (mkBlock ''minecraft:dirt'', readEditor) \<and>
   getBlockGlobal exEnv readEditor (1, 0, 1) True False
     = Inr (mkBlock ''minecraft:air'',
            cacheStored readEditor (1, 0, 1) (mkBlock ''minecraft:air'')) \<and>
   getBlockGlobal exEnv readEditor (0, 0, 1) True False
     = Inr (mkBlock ''minecraft:glass'',
            cacheStored readEditor (0, 0, 1) (mkBlock ''minecraft:glass''))"
proof -
  let ?ws = "\<lparr>sliceRect = rect22, sliceBlockAt = worldAfter []\<rparr>"
  let ?d = "\<lparr>shape3 = (2, 384, 2), cells3 = (\<lambda>_. False)((0, 64, 1) := True)\<rparr>"
  have h1: "caching readEditor \<and>
      cache_getitem (cache readEditor) (0, 0, 0)
        = Some (mkBlock ''minecraft:stone'', cache readEditor)"
    by (simp add: readEditor_simps)
  have h2: "cacheMiss readEditor (1, 0, 0) \<and> buffering readEditor \<and>
      map_of (buffer readEditor) (1, 0, 0) = Some (mkBlock ''minecraft:dirt'')"
    by (simp add: readEditor_simps)
  have h3: "cacheMiss readEditor (1, 0, 1) \<and> bufferMiss readEditor (1, 0, 1) \<and>
      worldSlice readEditor = Some ?ws \<and> contains (sliceRect ?ws) (dropY (1, 0, 1)) \<and>
      worldSliceDecay readEditor = Some ?d \<and>
      np_get3 ?d (decayIndex exEnv ?ws (1, 0, 1)) = Inr False"
    by (simp add: readEditor_simps)
  have h4: "cacheMiss readEditor (0, 0, 1) \<and> bufferMiss readEditor (0, 0, 1) \<and>
      (worldSlice readEditor = None \<or>
       (worldSlice readEditor = Some ?ws \<and>
        (\<not> contains (sliceRect ?ws) (dropY (0, 0, 1)) \<or>
         (worldSliceDecay readEditor = Some ?d \<and>
          np_get3 ?d (decayIndex exEnv ?ws (0, 0, 1)) = Inr True)))) \<and>
      getBlocks (interface readEditor) (0, 0, 1) True False
        = ((0, 0, 1), mkBlock ''minecraft:glass'') # []"
    by (simp add: readEditor_simps)
  have same: "readEditor\<lparr>cache := cache readEditor\<rparr> = readEditor"
    by simp
  have air: "sliceBlockAt ?ws (1, 0, 1) = mkBlock ''minecraft:air''"
    by (simp add: worldAfter_def)
  note r1 = read_priority [where s = readEditor and p = "(0, 0, 0)" and env = exEnv
      and gs = True and gd = False and b = "mkBlock ''minecraft:stone''"
      and c = "cache readEditor", THEN conjunct1, THEN mp, OF h1, THEN conjunct1]
  note r2 = read_priority [where s = readEditor and p = "(1, 0, 0)" and env = exEnv
      and gs = True and gd = False and b = "mkBlock ''minecraft:dirt''",
      THEN conjunct2, THEN conjunct1, THEN mp, OF h2]
  note r3 = read_priority [where s = readEditor and p = "(1, 0, 1)" and env = exEnv
      and gs = True and gd = False and ws = ?ws and d = ?d,
      THEN conjunct2, THEN conjunct2, THEN conjunct1, THEN mp, OF h3]
  note r4 = read_priority [where s = readEditor and p = "(0, 0, 1)" and env = exEnv
      and gs = True and gd = False and ws = ?ws and d = ?d
      and r = "((0, 0, 1), mkBlock ''minecraft:glass'')" and rs = "[]",
      THEN conjunct2, THEN conjunct2, THEN conjunct2, THEN mp, OF h4]
  from r1 r2 r3 r4 same air show ?thesis by simp
qed

section \<open>A write the replace filter turns away\<close>

text \<open>
  A read changes nothing of the editor but the lookup cache, and that only with
  caching on: a cache hit promotes the entry, a buffer hit changes nothing, and an
  answer of the slice or of the host is stored.
\<close>

lemma read_frame:
  assumes "getBlockGlobal env s p gs gd = Inr (b, s1)"
  shows "s1 = s\<lparr>cache := cache s1\<rparr> \<and> (\<not> caching s \<longrightarrow> s1 = s) \<and>
         (caching s \<longrightarrow>
            cache s1 = (case cache_getitem (cache s) p of
                          Some (v, c) \<Rightarrow> c
                        | None \<Rightarrow> if bufferMiss s p then cache_setitem (cache s) p b
                                  else cache s))"
  using assms
  by (auto simp: getBlockGlobal_def bufferMiss_def
      split: option.splits sum.splits if_splits list.splits)

text \<open>
  Claim C3, as stated, fails: with caching on and nothing cached for the position,
  the write that the replace filter turns away returns True and has stored the block
  it read in the lookup cache.
\<close>

theorem filtered_write_changes_cache:
  "getBlockGlobal exEnv cachingEditor (0, 0, 0) True False
     = Inr (mkBlock ''minecraft:air'',
            cachingEditor\<lparr>cache :=
              \<lparr>maxSize = 8192, entries = [((0, 0, 0), mkBlock ''minecraft:air'')]\<rparr>\<rparr>) \<and>
   \<not> blockInReplace (mkBlock ''minecraft:air'') [''minecraft:stone''] \<and>
   placeSingleBlockGlobal exEnv cachingEditor (0, 0, 0) (mkBlock ''minecraft:dirt'')
      (Some [''minecraft:stone'']) None
     = Inr (True,
            cachingEditor\<lparr>cache :=
              \<lparr>maxSize = 8192, entries = [((0, 0, 0), mkBlock ''minecraft:air'')]\<rparr>\<rparr>) \<and>
   entries (cache cachingEditor) = [] \<and>
   cache (cachingEditor\<lparr>cache :=
            \<lparr>maxSize = 8192, entries = [((0, 0, 0), mkBlock ''minecraft:air'')]\<rparr>\<rparr>)
     \<noteq> cache cachingEditor"
  by (simp add: placeSingleBlockGlobal_def cachingEditor_def ex_simps)

text \<open>
  Claim C3, amended. When the read of the position returns a block that the replace
  filter does not hold, the write returns True and its effect is that of the read:
  the write buffer, the pending commands, the host, the cached slice and the decay
  array are as before; with caching off the whole editor is as before; with caching
  on only the lookup cache may differ, by the promotion of the entry read or by the
  store of the block read.
\<close>

theorem filtered_write_is_noop:
  assumes "getBlockGlobal env s p True False = Inr (b, s1)"
    and "\<not> blockInReplace b r"
  shows "placeSingleBlockGlobal env s p blk (Some r) flag = Inr (True, s1) \<and>
         buffer s1 = buffer s \<and> commandBuffer s1 = commandBuffer s \<and>
         interface s1 = interface s \<and>
         worldSlice s1 = worldSlice s \<and> worldSliceDecay s1 = worldSliceDecay s \<and>
         (\<not> caching s \<longrightarrow> s1 = s) \<and>
         (caching s \<longrightarrow>
            s1 = s\<lparr>cache := cache s1\<rparr> \<and>
            cache s1 = (case cache_getitem (cache s) p of
                          Some (v, c) \<Rightarrow> c
                        | None \<Rightarrow> if bufferMiss s p then cache_setitem (cache s) p b
                                  else cache s))"
proof -
  note f = read_frame [OF assms(1)]
  have "s1 = s\<lparr>cache := cache s1\<rparr>"
    using f by simp
  then have "buffer s1 = buffer (s\<lparr>cache := cache s1\<rparr>) \<and>
      commandBuffer s1 = commandBuffer (s\<lparr>cache := cache s1\<rparr>) \<and>
      interface s1 = interface (s\<lparr>cache := cache s1\<rparr>) \<and>
      worldSlice s1 = worldSlice (s\<lparr>cache := cache s1\<rparr>) \<and>
      worldSliceDecay s1 = worldSliceDecay (s\<lparr>cache := cache s1\<rparr>)"
    by simp
  then have fr: "buffer s1 = buffer s \<and> commandBuffer s1 = commandBuffer s \<and>
      interface s1 = interface s \<and>
      worldSlice s1 = worldSlice s \<and> worldSliceDecay s1 = worldSliceDecay s"
    by simp
  have w: "placeSingleBlockGlobal env s p blk (Some r) flag = Inr (True, s1)"
    using assms by (simp add: placeSingleBlockGlobal_def)
  from w fr f show ?thesis
    by blast
qed

text \<open>
  On the editor with a cached slice and caching off, the write of dirt at the origin
  with the filter stone, where the slice shows air, returns True and the editor is
  as before.
\<close>

theorem filtered_write_is_noop_witness:
  "getBlockGlobal exEnv loadedEditor (0, 0, 0) True False
     = Inr (mkBlock ''minecraft:air'', loadedEditor) \<and>
   \<not> blockInReplace (mkBlock ''minecraft:air'') [''minecraft:stone''] \<and>
   placeSingleBlockGlobal exEnv loadedEditor (0, 0, 0) (mkBlock ''minecraft:dirt'')
      (Some [''minecraft:stone'']) None
     = Inr (True, loadedEditor) \<and>
   buffer loadedEditor = [] \<and> sent (interface loadedEditor) = []"
proof -
  have h1: "getBlockGlobal exEnv loadedEditor (0, 0, 0) True False
      = Inr (mkBlock ''minecraft:air'', loadedEditor)"
    by (simp add: loadedEditor_def ex_simps)
  have h2: "\<not> blockInReplace (mkBlock ''minecraft:air'') [''minecraft:stone'']"
    by (simp add: ex_simps)
  have e: "buffer loadedEditor = [] \<and> sent (interface loadedEditor) = []"
    by (simp add: loadedEditor_def ex_simps)
  from filtered_write_is_noop [OF h1 h2, of "mkBlock ''minecraft:dirt''" None] h1 h2 e
  show ?thesis by simp
qed

section \<open>Staging writes and the automatic flush\<close>

lemma update_absent: "k \<notin> fst ` set al \<Longrightarrow> AList.update k v al = al @ [(k, v)]"
  by (induction al) auto

lemma send_sent: "sent (snd (send i r)) = sent i @ [r]"
  by (simp add: send_def)

lemma flush_sent:
  "sent (interface (flush s bs cmds n))
     = sent (interface s) @
       (if bs = [] then [] else [PlaceBlocks bs (bufferDoBlockUpdates s) (Some n)]) @
       commandRequests cmds"
  by (simp add: flush_def Let_def placeBlocks_def runCommandI_def send_def commandRequests_def
      split: prod.splits)

lemma flush_frame:
  "buffering (flush s bs cmds n) = buffering s \<and> bufferLimit (flush s bs cmds n) = bufferLimit s \<and>
   doBlockUpdates (flush s bs cmds n) = doBlockUpdates s \<and>
   bufferDoBlockUpdates (flush s bs cmds n) = bufferDoBlockUpdates s \<and>
   multithreading (flush s bs cmds n) = multithreading s \<and>
   bufferFlushFutures (flush s bs cmds n) = bufferFlushFutures s"
  by (simp add: flush_def Let_def split: prod.splits)

lemma sendBufferedBlocks_empties:
  "buffer (sendBufferedBlocks s n) = [] \<and> commandBuffer (sendBufferedBlocks s n) = []"
  by (simp add: sendBufferedBlocks_def)

lemma sendBufferedBlocks_flag:
  "bufferDoBlockUpdates (sendBufferedBlocks s n) = bufferDoBlockUpdates s"
  by (simp add: sendBufferedBlocks_def flush_frame)

lemma stage_no_flush:
  assumes "effectiveUpdates s flag = bufferDoBlockUpdates s"
    and "int (length (buffer s)) < bufferLimit s"
  shows "placeSingleBlockGlobalBuffered s p b flag
           = (True, s\<lparr>buffer := AList.update p b (buffer s)\<rparr>)"
  using assms by (simp add: placeSingleBlockGlobalBuffered_def Let_def)

lemma stage_flush:
  assumes "effectiveUpdates s flag = bufferDoBlockUpdates s"
    and "bufferLimit s \<le> int (length (buffer s))"
  shows "placeSingleBlockGlobalBuffered s p b flag
           = (True, (sendBufferedBlocks s 5)\<lparr>buffer := [(p, b)]\<rparr>)"
  using assms by (simp add: placeSingleBlockGlobalBuffered_def Let_def sendBufferedBlocks_empties)

lemma stageAll_no_flush:
  "doBlockUpdates s = bufferDoBlockUpdates s \<Longrightarrow>
   int (length (buffer s) + length ws) \<le> bufferLimit s \<Longrightarrow>
   distinct (map fst (buffer s @ ws)) \<Longrightarrow>
   stageAll s ws = s\<lparr>buffer := buffer s @ ws\<rparr>"
proof (induction ws arbitrary: s)
  case Nil
  then show ?case by (simp add: stageAll_def)
next
  case (Cons w ws)
  let ?s1 = "s\<lparr>buffer := buffer s @ [w]\<rparr>"
  have absent: "fst w \<notin> fst ` set (buffer s)"
    using Cons.prems(3) by auto
  have step: "placeSingleBlockGlobalBuffered s (fst w) (snd w) None = (True, ?s1)"
    using Cons.prems(1,2) absent
    by (simp add: stage_no_flush effectiveUpdates_def update_absent)
  have "stageAll s (w # ws) = stageAll ?s1 ws"
    by (simp add: stageAll_def step)
  also have "\<dots> = ?s1\<lparr>buffer := buffer ?s1 @ ws\<rparr>"
    using Cons.prems by (intro Cons.IH) auto
  finally show ?case by simp
qed

text \<open>
  The worker on a task that was submitted while no other task was waiting: it sends
  the two detached buffers through the interface, the blocks with the flag the
  editor's buffer carries when the task runs.
\<close>

lemma runFlushTask_next:
  assumes "bufferFlushFutures s = finished @ future # waiting"
    and "list_all isDone finished" and "\<not> isDone future"
  shows "runFlushTask s
         = (flush s (blockBufferCopy future) (commandBufferCopy future) (flushRetries future))
             \<lparr>bufferFlushFutures :=
                finished @
                [future\<lparr>blockBufferCopy := [], commandBufferCopy := [], isDone := True\<rparr>] @
                waiting\<rparr>"
proof -
  have "List.extract (\<lambda>future. \<not> isDone future) (bufferFlushFutures s)
        = Some (finished, future, waiting)"
    using assms by (simp add: extract_Some_iff list_all_iff)
  then show ?thesis
    by (simp add: runFlushTask_def)
qed

lemma filter_all_done: "list_all isDone fs \<Longrightarrow> filter (\<lambda>future. \<not> isDone future) fs = []"
  by (induction fs) auto

lemma queued_flush_sent:
  assumes "multithreading s" and "list_all isDone (bufferFlushFutures s)"
    and "bufferFlushFutures t = bufferFlushFutures (sendBufferedBlocks s n)"
    and "interface t = interface s"
  shows "sent (interface (runFlushTask t))
         = sent (interface s) @
           (if buffer s = [] then []
            else [PlaceBlocks (buffer s) (bufferDoBlockUpdates t) (Some n)]) @
           commandRequests (commandBuffer s)"
proof -
  let ?future = "\<lparr>blockBufferCopy = buffer s, commandBufferCopy = commandBuffer s,
                   flushRetries = n, isDone = False\<rparr>"
  have fs: "bufferFlushFutures t = [] @ ?future # []"
    using assms by (simp add: sendBufferedBlocks_def filter_all_done)
  from runFlushTask_next [OF fs] have
    "sent (interface (runFlushTask t))
       = sent (interface (flush t (buffer s) (commandBuffer s) n))"
    by simp
  then show ?thesis
    by (simp add: flush_sent assms(4))
qed

text \<open>
  Claim C2, amended. From an empty buffer, with a buffer limit of \<open>L\<close> at least 1 and
  the buffer's block-update flag the editor's own, staging \<open>L\<close> writes at distinct
  positions sends nothing and leaves those \<open>L\<close> writes in the buffer. Staging one more
  write at a further position flushes once, before the write is inserted: without
  multithreading the host receives exactly one batch, holding the \<open>L\<close> writes in the
  order they were staged, followed by the pending commands if any; with
  multithreading exactly one task holding them is submitted, the host receives
  nothing during the call and, if no other task was waiting, receives the same batch
  when the worker runs the task. After that call the buffer holds the write just
  staged and nothing else.
\<close>

theorem staging_flushes_before_insert:
  assumes "doBlockUpdates s = bufferDoBlockUpdates s"
    and "buffer s = []"
    and "distinct (map fst ws)"
    and "int (length ws) = bufferLimit s"
    and "ws \<noteq> []"
    and "p \<notin> fst ` set ws"
    and "s' = snd (placeSingleBlockGlobalBuffered (stageAll s ws) p b None)"
  shows "stageAll s ws = s\<lparr>buffer := ws\<rparr> \<and>
         buffer s' = [(p, b)] \<and>
         (\<not> multithreading s \<longrightarrow>
            sent (interface s')
              = sent (interface s) @ [PlaceBlocks ws (bufferDoBlockUpdates s) (Some 5)] @
                commandRequests (commandBuffer s)) \<and>
         (multithreading s \<longrightarrow>
            interface s' = interface s \<and>
            bufferFlushFutures s' =
              filter (\<lambda>future. \<not> isDone future) (bufferFlushFutures s) @
              [\<lparr>blockBufferCopy = ws, commandBufferCopy = commandBuffer s,
                flushRetries = 5, isDone = False\<rparr>] \<and>
            (list_all isDone (bufferFlushFutures s) \<longrightarrow>
               sent (interface (runFlushTask s'))
                 = sent (interface s) @ [PlaceBlocks ws (bufferDoBlockUpdates s) (Some 5)] @
                   commandRequests (commandBuffer s)))"
proof -
  let ?t = "s\<lparr>buffer := ws\<rparr>"
  have all: "stageAll s ws = ?t"
    using stageAll_no_flush [of s ws] assms(1-4) by simp
  have "placeSingleBlockGlobalBuffered ?t p b None
          = (True, (sendBufferedBlocks ?t 5)\<lparr>buffer := [(p, b)]\<rparr>)"
    using assms(1,4) by (intro stage_flush) (simp_all add: effectiveUpdates_def)
  then have s': "s' = (sendBufferedBlocks ?t 5)\<lparr>buffer := [(p, b)]\<rparr>"
    using assms(7) all by simp
  have sync: "\<not> multithreading s \<longrightarrow>
      sent (interface s')
        = sent (interface s) @ [PlaceBlocks ws (bufferDoBlockUpdates s) (Some 5)] @
          commandRequests (commandBuffer s)"
    using assms(5) by (simp add: s' sendBufferedBlocks_def flush_sent)
  have async: "multithreading s \<longrightarrow>
      interface s' = interface s \<and>
      bufferFlushFutures s' =
        filter (\<lambda>future. \<not> isDone future) (bufferFlushFutures s) @
        [\<lparr>blockBufferCopy = ws, commandBufferCopy = commandBuffer s,
          flushRetries = 5, isDone = False\<rparr>]"
    by (simp add: s' sendBufferedBlocks_def)
  have worker: "sent (interface (runFlushTask s'))
        = sent (interface s) @ [PlaceBlocks ws (bufferDoBlockUpdates s) (Some 5)] @
          commandRequests (commandBuffer s)"
    if m: "multithreading s" and idle: "list_all isDone (bufferFlushFutures s)"
  proof -
    have "sent (interface (runFlushTask s'))
        = sent (interface ?t) @
          (if buffer ?t = [] then []
           else [PlaceBlocks (buffer ?t) (bufferDoBlockUpdates s') (Some 5)]) @
          commandRequests (commandBuffer ?t)"
      using m idle by (intro queued_flush_sent) (simp_all add: s' sendBufferedBlocks_def)
    moreover have "bufferDoBlockUpdates s' = bufferDoBlockUpdates s"
      by (simp add: s' sendBufferedBlocks_flag)
    ultimately show ?thesis
      using assms(5) by simp
  qed
  from all s' sync async worker show ?thesis by simp
qed

text \<open>
  Claim C2, as stated, fails: with a limit of 2, after the second write is staged the
  buffer's size has reached the limit, nothing has been sent and the buffer is not
  empty; the third staging call sends the two writes and leaves the third in the
  buffer, which is not empty then either.
\<close>

theorem buffer_at_limit_not_flushed:
  "bufferLimit bufferedEditor = 2 \<and>
   stageAll bufferedEditor [((0, 0, 0), mkBlock ''minecraft:stone'')]
     = bufferedEditor\<lparr>buffer := [((0, 0, 0), mkBlock ''minecraft:stone'')]\<rparr> \<and>
   stageAll bufferedEditor
       [((0, 0, 0), mkBlock ''minecraft:stone''), ((1, 0, 0), mkBlock ''minecraft:stone'')]
     = bufferedEditor\<lparr>buffer :=
         [((0, 0, 0), mkBlock ''minecraft:stone''), ((1, 0, 0), mkBlock ''minecraft:stone'')]\<rparr> \<and>
   sent (interface bufferedEditor) = [] \<and>
   snd (placeSingleBlockGlobalBuffered
         (stageAll bufferedEditor
            [((0, 0, 0), mkBlock ''minecraft:stone''), ((1, 0, 0), mkBlock ''minecraft:stone'')])
         (2, 0, 0) (mkBlock ''minecraft:stone'') None)
     = bufferedEditor
         \<lparr>interface := plainHost\<lparr>sent :=
            [PlaceBlocks [((0, 0, 0), mkBlock ''minecraft:stone''),
                          ((1, 0, 0), mkBlock ''minecraft:stone'')] True (Some 5)]\<rparr>,
          buffer := [((2, 0, 0), mkBlock ''minecraft:stone'')]\<rparr>"
  by (simp add: bufferedEditor_def stage_simps)

text \<open>
  With the limit 2: two writes staged, then a third.
\<close>

theorem staging_flushes_before_insert_witness:
  "stageAll bufferedEditor
       [((0, 0, 0), mkBlock ''minecraft:stone''), ((1, 0, 0), mkBlock ''minecraft:dirt'')]
     = bufferedEditor\<lparr>buffer :=
         [((0, 0, 0), mkBlock ''minecraft:stone''), ((1, 0, 0), mkBlock ''minecraft:dirt'')]\<rparr> \<and>
   buffer (snd (placeSingleBlockGlobalBuffered
         (stageAll bufferedEditor
            [((0, 0, 0), mkBlock ''minecraft:stone''), ((1, 0, 0), mkBlock ''minecraft:dirt'')])
         (2, 0, 0) (mkBlock ''minecraft:glass'') None))
     = [((2, 0, 0), mkBlock ''minecraft:glass'')] \<and>
   sent (interface (snd (placeSingleBlockGlobalBuffered
         (stageAll bufferedEditor
            [((0, 0, 0), mkBlock ''minecraft:stone''), ((1, 0, 0), mkBlock ''minecraft:dirt'')])
         (2, 0, 0) (mkBlock ''minecraft:glass'') None)))
     = [PlaceBlocks [((0, 0, 0), mkBlock ''minecraft:stone''),
                     ((1, 0, 0), mkBlock ''minecraft:dirt'')] True (Some 5)]"
proof -
  let ?ws = "[((0, 0, 0), mkBlock ''minecraft:stone''), ((1, 0, 0), mkBlock ''minecraft:dirt'')]
      :: (ivec3 \<times> Block) list"
  let ?s' = "snd (placeSingleBlockGlobalBuffered (stageAll bufferedEditor ?ws)
      (2, 0, 0) (mkBlock ''minecraft:glass'') None)"
  have h1: "doBlockUpdates bufferedEditor = bufferDoBlockUpdates bufferedEditor"
    and h2: "buffer bufferedEditor = []"
    and h4: "int (length ?ws) = bufferLimit bufferedEditor"
    and m: "\<not> multithreading bufferedEditor"
    and e: "sent (interface bufferedEditor) = []"
      "commandRequests (commandBuffer bufferedEditor) = []"
      "bufferDoBlockUpdates bufferedEditor = True"
    by (simp_all add: bufferedEditor_def newEditor_def plainHost_def commandRequests_def)
  have h3: "distinct (map fst ?ws)" and h5: "?ws \<noteq> []"
    and h6: "((2, 0, 0) :: ivec3) \<notin> fst ` set ?ws"
    by simp_all
  note t = staging_flushes_before_insert [OF h1 h2 h3 h4 h5 h6 refl,
      of "mkBlock ''minecraft:glass''"]
  from t have a: "stageAll bufferedEditor ?ws = bufferedEditor\<lparr>buffer := ?ws\<rparr>"
    and b: "buffer ?s' = [((2, 0, 0), mkBlock ''minecraft:glass'')]"
    by blast+
  from t m have "sent (interface ?s')
      = sent (interface bufferedEditor) @
        [PlaceBlocks ?ws (bufferDoBlockUpdates bufferedEditor) (Some 5)] @
        commandRequests (commandBuffer bufferedEditor)"
    by blast
  then have c: "sent (interface ?s') = [PlaceBlocks ?ws True (Some 5)]"
    by (simp add: e)
  from a b c show ?thesis
    by blast
qed

section \<open>One block-update flag for each batch\<close>

lemma list_all_keys:
  "list_all (\<lambda>e. P (fst e)) xs \<longleftrightarrow> (\<forall>q. map_of xs q \<noteq> None \<longrightarrow> P q)"
  by (induction xs) auto

lemma oneFlag_iff:
  "oneFlag (s, g) \<longleftrightarrow>
   (\<forall>q. map_of (buffer s) q \<noteq> None \<longrightarrow> map_of g q = Some (bufferDoBlockUpdates s))"
  by (simp only: oneFlag_def prod.case
      list_all_keys [where P = "\<lambda>q. map_of g q = Some (bufferDoBlockUpdates s)"])

lemma map_of_filter_keys:
  "map_of (filter (\<lambda>e. P (fst e)) g) q = (if P q then map_of g q else None)"
  by (induction g) auto

lemma stage_cases:
  "placeSingleBlockGlobalBuffered s p b flag =
     (True,
      if effectiveUpdates s flag \<noteq> bufferDoBlockUpdates s
      then (sendBufferedBlocks s 5)\<lparr>bufferDoBlockUpdates := effectiveUpdates s flag,
                                   buffer := [(p, b)]\<rparr>
      else if bufferLimit s \<le> int (length (buffer s))
      then (sendBufferedBlocks s 5)\<lparr>buffer := [(p, b)]\<rparr>
      else s\<lparr>buffer := AList.update p b (buffer s)\<rparr>)"
  by (simp add: placeSingleBlockGlobalBuffered_def Let_def sendBufferedBlocks_empties)

lemma stageTracked_oneFlag:
  assumes "oneFlag (s, g)"
  shows "oneFlag (stageTracked (s, g) (p, b, flag))"
proof -
  let ?s' = "snd (placeSingleBlockGlobalBuffered s p b flag)"
  let ?eff = "effectiveUpdates s flag"
  let ?kept = "filter (\<lambda>e. map_of (buffer ?s') (fst e) \<noteq> None) g"
  from assms have inv:
    "\<And>q. map_of (buffer s) q \<noteq> None \<Longrightarrow> map_of g q = Some (bufferDoBlockUpdates s)"
    unfolding oneFlag_iff by blast
  have flag': "bufferDoBlockUpdates ?s' = ?eff"
    by (simp add: stage_cases sendBufferedBlocks_flag)
  have old: "q = p \<or> (?eff = bufferDoBlockUpdates s \<and> map_of (buffer s) q \<noteq> None)"
    if "map_of (buffer ?s') q \<noteq> None" for q
    using that by (auto simp: stage_cases update_conv' split: if_splits)
  have kept: "map_of ?kept q = map_of g q" if "map_of (buffer ?s') q \<noteq> None" for q
    using that
    by (simp only: map_of_filter_keys [where P = "\<lambda>k. map_of (buffer ?s') k \<noteq> None"]) simp
  have "map_of (AList.update p ?eff ?kept) q = Some (bufferDoBlockUpdates ?s')"
    if q: "map_of (buffer ?s') q \<noteq> None" for q
  proof (cases "q = p")
    case True
    then show ?thesis by (simp add: update_conv' flag')
  next
    case False
    with old [OF q] have "?eff = bufferDoBlockUpdates s" and "map_of (buffer s) q \<noteq> None"
      by blast+
    with inv have "map_of g q = Some ?eff" by simp
    with False kept [OF q] show ?thesis by (simp add: update_conv' flag')
  qed
  then have "oneFlag (?s', AList.update p ?eff ?kept)"
    unfolding oneFlag_iff by blast
  then show ?thesis
    by (simp add: stageTracked_def Let_def)
qed

lemma run_oneFlag: "oneFlag sg \<Longrightarrow> oneFlag (foldl stageTracked sg ops)"
proof (induction ops arbitrary: sg)
  case Nil
  then show ?case by simp
next
  case (Cons w ws)
  obtain s g where sg: "sg = (s, g)" by (cases sg)
  obtain p b flag where w: "w = (p, b, flag)" by (cases w)
  from Cons.prems have "oneFlag (stageTracked sg w)"
    by (simp add: sg w stageTracked_oneFlag)
  then show ?case by (simp add: Cons.IH)
qed

lemma sendBufferedBlocks_sent:
  "sent (interface (sendBufferedBlocks s n))
     = sent (interface s) @
       (if multithreading s then []
        else (if buffer s = [] then []
              else [PlaceBlocks (buffer s) (bufferDoBlockUpdates s) (Some n)]) @
             commandRequests (commandBuffer s))"
  by (simp add: sendBufferedBlocks_def flush_sent)

lemma stage_sent:
  "\<exists>extra. sent (interface (snd (placeSingleBlockGlobalBuffered s p b flag)))
             = sent (interface s) @ extra \<and>
           (\<forall>bs f n. PlaceBlocks bs f n \<in> set extra \<longrightarrow>
                      bs = buffer s \<and> f = bufferDoBlockUpdates s)"
  by (auto simp: stage_cases sendBufferedBlocks_sent commandRequests_def)

text \<open>
  The buffer never holds writes staged under two flags. In every state reached by
  staging writes from a state in which the buffer's writes were all staged under the
  buffer's flag, they still are, and they are after one more staging step. When the
  flag in effect for the new write differs from the buffer's flag, the buffer is
  flushed first, the buffer's flag is set to the new one, and the buffer then holds
  the new write alone. Without multithreading every batch of blocks a staging step
  sends to the host is the buffer as it was, sent with the flag the buffer had, which
  is the flag each of its writes was staged under.
\<close>

lemma staging_keeps_one_flag:
  assumes "oneFlag sg0"
    and "(s, g) = foldl stageTracked sg0 ops"
    and "(s', g') = stageTracked (s, g) (p, b, flag)"
  shows "oneFlag (s, g) \<and> oneFlag (s', g') \<and>
         (effectiveUpdates s flag \<noteq> bufferDoBlockUpdates s \<longrightarrow>
            buffer s' = [(p, b)] \<and>
            bufferDoBlockUpdates s' = effectiveUpdates s flag \<and>
            map_of g' p = Some (effectiveUpdates s flag) \<and>
            (\<not> multithreading s \<longrightarrow>
               sent (interface s')
                 = sent (interface s) @
                   (if buffer s = [] then []
                    else [PlaceBlocks (buffer s) (bufferDoBlockUpdates s) (Some 5)]) @
                   commandRequests (commandBuffer s)) \<and>
            (multithreading s \<longrightarrow>
               interface s' = interface s \<and>
               bufferFlushFutures s' =
                 filter (\<lambda>future. \<not> isDone future) (bufferFlushFutures s) @
                 [\<lparr>blockBufferCopy = buffer s, commandBufferCopy = commandBuffer s,
                   flushRetries = 5, isDone = False\<rparr>])) \<and>
         (\<forall>bs f n. PlaceBlocks bs f n \<in> set (drop (length (sent (interface s))) (sent (interface s'))) \<longrightarrow>
            bs = buffer s \<and> f = bufferDoBlockUpdates s \<and>
            list_all (\<lambda>e. map_of g (fst e) = Some f) bs)"
proof -
  have inv: "oneFlag (s, g)"
    using run_oneFlag [OF assms(1), of ops] assms(2) by simp
  have s': "s' = snd (placeSingleBlockGlobalBuffered s p b flag)"
    and g': "g' = AList.update p (effectiveUpdates s flag)
                   (filter (\<lambda>e. map_of (buffer s') (fst e) \<noteq> None) g)"
    using assms(3) by (simp_all add: stageTracked_def Let_def)
  have inv': "oneFlag (s', g')"
    using stageTracked_oneFlag [OF inv, of p b flag] assms(3) by simp
  have differs: "effectiveUpdates s flag \<noteq> bufferDoBlockUpdates s \<longrightarrow>
      buffer s' = [(p, b)] \<and>
      bufferDoBlockUpdates s' = effectiveUpdates s flag \<and>
      map_of g' p = Some (effectiveUpdates s flag) \<and>
      (\<not> multithreading s \<longrightarrow>
         sent (interface s')
           = sent (interface s) @
             (if buffer s = [] then []
              else [PlaceBlocks (buffer s) (bufferDoBlockUpdates s) (Some 5)]) @
             commandRequests (commandBuffer s)) \<and>
      (multithreading s \<longrightarrow>
         interface s' = interface s \<and>
         bufferFlushFutures s' =
                 filter (\<lambda>future. \<not> isDone future) (bufferFlushFutures s) @
                 [\<lparr>blockBufferCopy = buffer s, commandBufferCopy = commandBuffer s,
                   flushRetries = 5, isDone = False\<rparr>])"
    by (simp add: s' g' stage_cases sendBufferedBlocks_sent update_conv')
       (simp add: sendBufferedBlocks_def)
  obtain extra where ex: "sent (interface s') = sent (interface s) @ extra"
    and only: "\<And>bs f n. PlaceBlocks bs f n \<in> set extra \<Longrightarrow>
                 bs = buffer s \<and> f = bufferDoBlockUpdates s"
    using stage_sent [of s p b flag] unfolding s' by blast
  have batch: "bs = buffer s \<and> f = bufferDoBlockUpdates s \<and>
      list_all (\<lambda>e. map_of g (fst e) = Some f) bs"
    if "PlaceBlocks bs f n \<in> set (drop (length (sent (interface s))) (sent (interface s')))"
    for bs f n
  proof -
    from that have "PlaceBlocks bs f n \<in> set extra"
      by (simp add: ex)
    then have "bs = buffer s \<and> f = bufferDoBlockUpdates s"
      by (rule only)
    with inv show ?thesis
      by (simp add: oneFlag_def)
  qed
  from inv inv' differs batch show ?thesis
    by blast
qed

text \<open>
  Without multithreading, stone staged with block updates on, then dirt staged with
  block updates off: the stone is sent with the flag on, and the buffer holds the
  dirt alone with the flag off.
\<close>

lemma flagRun_value:
  "flagRun = (bufferedEditor\<lparr>buffer := [((0, 0, 0), mkBlock ''minecraft:stone'')]\<rparr>,
              [((0, 0, 0), True)])"
  by (simp add: flagRun_def stageTracked_def bufferedEditor_def stage_simps)

lemma staging_keeps_one_flag_example:
  "oneFlag (bufferedEditor, []) \<and>
   buffer (fst flagRun) = [((0, 0, 0), mkBlock ''minecraft:stone'')] \<and>
   snd flagRun = [((0, 0, 0), True)] \<and>
   effectiveUpdates (fst flagRun) (Some False) \<noteq> bufferDoBlockUpdates (fst flagRun) \<and>
   oneFlag flagRun \<and> oneFlag flagStep \<and>
   buffer (fst flagStep) = [((1, 0, 0), mkBlock ''minecraft:dirt'')] \<and>
   bufferDoBlockUpdates (fst flagStep) = False \<and>
   map_of (snd flagStep) (1, 0, 0) = Some False \<and>
   sent (interface (fst flagStep))
     = [PlaceBlocks [((0, 0, 0), mkBlock ''minecraft:stone'')] True (Some 5)]"
proof -
  have h0: "oneFlag (bufferedEditor, [])"
    by (simp add: oneFlag_def bufferedEditor_def newEditor_def)
  have h1: "(fst flagRun, snd flagRun) = foldl stageTracked (bufferedEditor, [])
      [((0, 0, 0), mkBlock ''minecraft:stone'', None)]"
    by (simp add: flagRun_def)
  have h2: "(fst flagStep, snd flagStep) = stageTracked (fst flagRun, snd flagRun)
      ((1, 0, 0), mkBlock ''minecraft:dirt'', Some False)"
    by (simp add: flagStep_def)
  have e: "buffer (fst flagRun) = [((0, 0, 0), mkBlock ''minecraft:stone'')]"
    "snd flagRun = [((0, 0, 0), True)]"
    "effectiveUpdates (fst flagRun) (Some False) \<noteq> bufferDoBlockUpdates (fst flagRun)"
    "\<not> multithreading (fst flagRun)" "sent (interface (fst flagRun)) = []"
    "commandRequests (commandBuffer (fst flagRun)) = []"
    "bufferDoBlockUpdates (fst flagRun) = True"
    by (simp_all add: flagRun_value bufferedEditor_def newEditor_def plainHost_def
        effectiveUpdates_def commandRequests_def)
  note t = staging_keeps_one_flag [OF h0 h1 h2]
  from t have a0: "oneFlag (fst flagRun, snd flagRun)" "oneFlag (fst flagStep, snd flagStep)"
    by blast+
  note a = a0 [unfolded prod.collapse]
  from t e(3) have b: "buffer (fst flagStep) = [((1, 0, 0), mkBlock ''minecraft:dirt'')]"
    "bufferDoBlockUpdates (fst flagStep) = effectiveUpdates (fst flagRun) (Some False)"
    "map_of (snd flagStep) (1, 0, 0) = Some (effectiveUpdates (fst flagRun) (Some False))"
    by blast+
  from t e(3,4) have "sent (interface (fst flagStep))
      = sent (interface (fst flagRun)) @
        (if buffer (fst flagRun) = [] then []
         else [PlaceBlocks (buffer (fst flagRun)) (bufferDoBlockUpdates (fst flagRun)) (Some 5)]) @
        commandRequests (commandBuffer (fst flagRun))"
    by blast
  then have c: "sent (interface (fst flagStep))
      = [PlaceBlocks [((0, 0, 0), mkBlock ''minecraft:stone'')] True (Some 5)]"
    by (simp add: e)
  from b have b': "bufferDoBlockUpdates (fst flagStep) = False"
    "map_of (snd flagStep) (1, 0, 0) = Some False"
    by (simp_all add: effectiveUpdates_def)
  from h0 a b(1) b' c e(1,2,3) show ?thesis
    by blast
qed

text \<open>
  Claim C10 fails on the code when flushing is multithreaded. Let the writes in the
  buffer all have been staged under the buffer's flag, and let a write be staged
  whose flag differs, while no task is waiting. The buffer is detached into a task
  and the buffer's flag is set to the new flag; nothing is sent during the call. The
  task reads the buffer's flag when it runs: run after the call, it sends the old
  buffer with the new flag, under which none of its writes was staged. Had the
  worker run the task before the flag was set, or had the flush been synchronous, the
  same batch would have gone out with the flag its writes were staged under. The
  other half of the claim holds: the buffer holds the new write alone, under the new
  flag.
\<close>

theorem queued_batch_sent_with_flag_at_run_time:
  assumes "oneFlag (s, g)"
    and "multithreading s"
    and "list_all isDone (bufferFlushFutures s)"
    and "buffer s \<noteq> []"
    and "effectiveUpdates s flag \<noteq> bufferDoBlockUpdates s"
    and "(s', g') = stageTracked (s, g) (p, b, flag)"
  shows "list_all (\<lambda>e. map_of g (fst e) = Some (bufferDoBlockUpdates s)) (buffer s) \<and>
         oneFlag (s', g') \<and> buffer s' = [(p, b)] \<and>
         bufferDoBlockUpdates s' = effectiveUpdates s flag \<and>
         sent (interface s') = sent (interface s) \<and>
         sent (interface (runFlushTask s'))
           = sent (interface s) @ [PlaceBlocks (buffer s) (effectiveUpdates s flag) (Some 5)] @
             commandRequests (commandBuffer s) \<and>
         sent (interface (runFlushTask (sendBufferedBlocks s 5)))
           = sent (interface s) @ [PlaceBlocks (buffer s) (bufferDoBlockUpdates s) (Some 5)] @
             commandRequests (commandBuffer s) \<and>
         sent (interface (snd (placeSingleBlockGlobalBuffered (s\<lparr>multithreading := False\<rparr>) p b flag)))
           = sent (interface s) @ [PlaceBlocks (buffer s) (bufferDoBlockUpdates s) (Some 5)] @
             commandRequests (commandBuffer s)"
proof -
  have staged: "list_all (\<lambda>e. map_of g (fst e) = Some (bufferDoBlockUpdates s)) (buffer s)"
    using assms(1) by (simp add: oneFlag_def)
  have s': "s' = (sendBufferedBlocks s 5)\<lparr>bufferDoBlockUpdates := effectiveUpdates s flag,
                                          buffer := [(p, b)]\<rparr>"
    using assms(5,6) by (simp add: stageTracked_def Let_def stage_cases)
  have inv': "oneFlag (s', g')"
    using stageTracked_oneFlag [OF assms(1), of p b flag] assms(6) by simp
  have now: "buffer s' = [(p, b)] \<and> bufferDoBlockUpdates s' = effectiveUpdates s flag \<and>
      sent (interface s') = sent (interface s)"
    using assms(2) by (simp add: s' sendBufferedBlocks_def)
  have late: "sent (interface (runFlushTask s'))
      = sent (interface s) @ [PlaceBlocks (buffer s) (effectiveUpdates s flag) (Some 5)] @
        commandRequests (commandBuffer s)"
  proof -
    have "sent (interface (runFlushTask s'))
        = sent (interface s) @
          (if buffer s = [] then []
           else [PlaceBlocks (buffer s) (bufferDoBlockUpdates s') (Some 5)]) @
          commandRequests (commandBuffer s)"
      using assms(2,3) by (intro queued_flush_sent) (simp_all add: s' sendBufferedBlocks_def)
    with now assms(4) show ?thesis by simp
  qed
  have early: "sent (interface (runFlushTask (sendBufferedBlocks s 5)))
      = sent (interface s) @ [PlaceBlocks (buffer s) (bufferDoBlockUpdates s) (Some 5)] @
        commandRequests (commandBuffer s)"
  proof -
    have "sent (interface (runFlushTask (sendBufferedBlocks s 5)))
        = sent (interface s) @
          (if buffer s = [] then []
           else [PlaceBlocks (buffer s) (bufferDoBlockUpdates (sendBufferedBlocks s 5)) (Some 5)]) @
          commandRequests (commandBuffer s)"
      using assms(2,3) by (intro queued_flush_sent) (simp_all add: sendBufferedBlocks_def)
    with assms(4) show ?thesis by (simp add: sendBufferedBlocks_flag)
  qed
  have sync: "sent (interface (snd (placeSingleBlockGlobalBuffered (s\<lparr>multithreading := False\<rparr>) p b flag)))
      = sent (interface s) @ [PlaceBlocks (buffer s) (bufferDoBlockUpdates s) (Some 5)] @
        commandRequests (commandBuffer s)"
  proof -
    have "effectiveUpdates (s\<lparr>multithreading := False\<rparr>) flag = effectiveUpdates s flag"
      by (simp add: effectiveUpdates_def split: option.splits)
    with assms(4,5) show ?thesis
      by (simp add: stage_cases sendBufferedBlocks_sent)
  qed
  from staged inv' now late early sync show ?thesis
    by blast
qed

text \<open>
  Stone staged with block updates on, then dirt staged with block updates off, with
  multithreading: nothing is sent by the two calls, and the worker, or the wait for
  it, sends the stone with block updates off. Without multithreading the same calls
  send the stone with block updates on.
\<close>

lemma threadedRun_value:
  "threadedRun = (threadedEditor\<lparr>buffer := [((0, 0, 0), mkBlock ''minecraft:stone'')]\<rparr>,
                  [((0, 0, 0), True)])"
  by (simp add: threadedRun_def stageTracked_def threadedEditor_def stage_simps)

theorem queued_batch_sent_with_flag_at_run_time_witness:
  "multithreading (fst threadedRun) \<and>
   buffer (fst threadedRun) = [((0, 0, 0), mkBlock ''minecraft:stone'')] \<and>
   bufferDoBlockUpdates (fst threadedRun) = True \<and>
   map_of (snd threadedRun) (0, 0, 0) = Some True \<and>
   buffer (fst threadedStep) = [((1, 0, 0), mkBlock ''minecraft:dirt'')] \<and>
   bufferDoBlockUpdates (fst threadedStep) = False \<and>
   sent (interface (fst threadedStep)) = [] \<and>
   sent (interface (runFlushTask (fst threadedStep)))
     = [PlaceBlocks [((0, 0, 0), mkBlock ''minecraft:stone'')] False (Some 5)] \<and>
   sent (interface (awaitBufferFlushes (fst threadedStep)))
     = [PlaceBlocks [((0, 0, 0), mkBlock ''minecraft:stone'')] False (Some 5)] \<and>
   sent (interface (snd (placeSingleBlockGlobalBuffered
       ((fst threadedRun)\<lparr>multithreading := False\<rparr>) (1, 0, 0) (mkBlock ''minecraft:dirt'')
       (Some False))))
     = [PlaceBlocks [((0, 0, 0), mkBlock ''minecraft:stone'')] True (Some 5)]"
proof -
  let ?s = "fst threadedRun" and ?g = "snd threadedRun"
  let ?s' = "fst threadedStep" and ?g' = "snd threadedStep"
  have h1: "oneFlag (?s, ?g)"
    by (simp add: threadedRun_value oneFlag_def threadedEditor_def newEditor_def)
  have e: "multithreading ?s" "list_all isDone (bufferFlushFutures ?s)"
    "buffer ?s = [((0, 0, 0), mkBlock ''minecraft:stone'')]"
    "bufferDoBlockUpdates ?s = True" "?g = [((0, 0, 0), True)]"
    "sent (interface ?s) = []" "commandRequests (commandBuffer ?s) = []"
    "effectiveUpdates ?s (Some False) = False"
    by (simp_all add: threadedRun_value threadedEditor_def newEditor_def plainHost_def
        commandRequests_def effectiveUpdates_def)
  have h4: "buffer ?s \<noteq> []" and h5: "effectiveUpdates ?s (Some False) \<noteq> bufferDoBlockUpdates ?s"
    by (simp_all add: e)
  have h6: "(?s', ?g') = stageTracked (?s, ?g) ((1, 0, 0), mkBlock ''minecraft:dirt'', Some False)"
    by (simp add: threadedStep_def)
  note t = queued_batch_sent_with_flag_at_run_time [OF h1 e(1) e(2) h4 h5 h6]
  from t have a: "buffer ?s' = [((1, 0, 0), mkBlock ''minecraft:dirt'')]"
    "bufferDoBlockUpdates ?s' = effectiveUpdates ?s (Some False)"
    "sent (interface ?s') = sent (interface ?s)"
    "sent (interface (runFlushTask ?s'))
       = sent (interface ?s) @ [PlaceBlocks (buffer ?s) (effectiveUpdates ?s (Some False)) (Some 5)] @
         commandRequests (commandBuffer ?s)"
    "sent (interface (snd (placeSingleBlockGlobalBuffered (?s\<lparr>multithreading := False\<rparr>)
         (1, 0, 0) (mkBlock ''minecraft:dirt'') (Some False))))
       = sent (interface ?s) @ [PlaceBlocks (buffer ?s) (bufferDoBlockUpdates ?s) (Some 5)] @
         commandRequests (commandBuffer ?s)"
    by blast+
  have b: "bufferDoBlockUpdates ?s' = False" "sent (interface ?s') = []"
    "sent (interface (runFlushTask ?s'))
       = [PlaceBlocks [((0, 0, 0), mkBlock ''minecraft:stone'')] False (Some 5)]"
    "sent (interface (snd (placeSingleBlockGlobalBuffered (?s\<lparr>multithreading := False\<rparr>)
         (1, 0, 0) (mkBlock ''minecraft:dirt'') (Some False))))
       = [PlaceBlocks [((0, 0, 0), mkBlock ''minecraft:stone'')] True (Some 5)]"
    unfolding a e by simp_all
  have w: "sent (interface (awaitBufferFlushes ?s'))
      = [PlaceBlocks [((0, 0, 0), mkBlock ''minecraft:stone'')] False (Some 5)]"
    by (simp add: threadedStep_def threadedRun_value stageTracked_def threadedEditor_def
        awaitBufferFlushes_def runFlushTask_def extract_Cons_code extract_Nil_code stage_simps)
  have m: "map_of ?g (0, 0, 0) = Some True"
    by (simp add: e)
  from e(1,3,4) m a(1) b w show ?thesis
    by blast
qed

section \<open>Result tokens\<close>

lemma isnumeric_ascii: "isAscii t \<Longrightarrow> isnumeric t = isNonNegativeInteger t"
proof -
  assume a: "isAscii t"
  have "list_all isnumeric_char t
      = list_all (\<lambda>c. 48 \<le> (of_char c :: nat) \<and> (of_char c :: nat) \<le> 57) t"
    using a by (induction t) (auto simp: isAscii_def isnumeric_char_def Let_def)
  then show ?thesis by (simp add: isnumeric_def isNonNegativeInteger_def)
qed

lemma flush_stderr:
  "stderr (flush s (buffer s) (commandBuffer s) n)
     = stderr s @ map WarnBufferedBlock (filter (\<lambda>l. \<not> isnumeric l) (blockTokens s n)) @
       map WarnBufferedCommand (filter (\<lambda>l. \<not> isnumeric l) (commandTokens s n))"
  by (simp add: flush_def Let_def placeBlocks_def runCommandI_def send_def blockTokens_def
      commandTokens_def split: prod.splits)

text \<open>
  With multithreading, a task that the worker runs while the editor's interface, its
  buffer's flag and its stderr are as they were when the task was submitted sends
  what the synchronous flush sends and prints the warnings it prints.
\<close>

lemma flush_reads:
  assumes "interface t = interface s" and "bufferDoBlockUpdates t = bufferDoBlockUpdates s"
    and "stderr t = stderr s"
  shows "interface (flush t bs cmds n) = interface (flush s bs cmds n) \<and>
         stderr (flush t bs cmds n) = stderr (flush s bs cmds n)"
  using assms by (simp add: flush_def Let_def split: prod.splits)

lemma worker_flushes_alike:
  assumes "multithreading s" and "list_all isDone (bufferFlushFutures s)"
  shows "interface (runFlushTask (sendBufferedBlocks s n))
           = interface (sendBufferedBlocks (s\<lparr>multithreading := False\<rparr>) n) \<and>
         stderr (runFlushTask (sendBufferedBlocks s n))
           = stderr (sendBufferedBlocks (s\<lparr>multithreading := False\<rparr>) n)"
proof -
  let ?t = "sendBufferedBlocks s n"
  let ?future = "\<lparr>blockBufferCopy = buffer s, commandBufferCopy = commandBuffer s,
                   flushRetries = n, isDone = False\<rparr>"
  have fs: "bufferFlushFutures ?t = [] @ ?future # []"
    using assms by (simp add: sendBufferedBlocks_def filter_all_done)
  have same: "interface ?t = interface s" "bufferDoBlockUpdates ?t = bufferDoBlockUpdates s"
    "stderr ?t = stderr s"
    using assms(1) by (simp_all add: sendBufferedBlocks_def)
  from runFlushTask_next [OF fs]
  have r: "interface (runFlushTask ?t) = interface (flush ?t (buffer s) (commandBuffer s) n)"
    "stderr (runFlushTask ?t) = stderr (flush ?t (buffer s) (commandBuffer s) n)"
    by simp_all
  note f = flush_reads [OF same, of "buffer s" "commandBuffer s" n]
  have a: "interface (runFlushTask ?t) = interface (flush s (buffer s) (commandBuffer s) n)"
    "stderr (runFlushTask ?t) = stderr (flush s (buffer s) (commandBuffer s) n)"
    unfolding r using f by simp_all
  have b: "interface (sendBufferedBlocks (s\<lparr>multithreading := False\<rparr>) n)
        = interface (flush s (buffer s) (commandBuffer s) n)"
    "stderr (sendBufferedBlocks (s\<lparr>multithreading := False\<rparr>) n)
        = stderr (flush s (buffer s) (commandBuffer s) n)"
    using flush_reads [of "s\<lparr>multithreading := False\<rparr>" s "buffer s" "commandBuffer s" n]
    by (simp_all add: sendBufferedBlocks_def)
  from a b show ?thesis by simp
qed

text \<open>
  Claim C7, amended. A result token counts as success exactly when \<open>str.isnumeric\<close>
  holds of it, which for a token of ASCII characters is to be a non-empty string of
  decimal digits. A direct placement whose first token is not numeric prints one
  warning and returns False; it does not raise. A flush prints one warning for each
  token that is not numeric, in the order of the tokens, for the blocks and then for
  the commands; whatever the tokens are it sends both requests and empties both
  buffers.
\<close>

theorem tokens_judged_by_isnumeric:
  "(isAscii t \<longrightarrow> isnumeric t = isNonNegativeInteger t) \<and>
   (fst (placeBlocks (interface s) [(p, b)] (effectiveUpdates s flag) None) = t # ts \<longrightarrow>
      placeSingleBlockGlobalDirect s p b flag
        = Inr (isnumeric t,
               s\<lparr>interface := snd (placeBlocks (interface s) [(p, b)] (effectiveUpdates s flag) None),
                 stderr := stderr s @ (if isnumeric t then [] else [WarnPlace (t # ts)])\<rparr>)) \<and>
   (\<not> multithreading s \<longrightarrow>
      stderr (sendBufferedBlocks s n)
        = stderr s @ map WarnBufferedBlock (filter (\<lambda>l. \<not> isnumeric l) (blockTokens s n)) @
          map WarnBufferedCommand (filter (\<lambda>l. \<not> isnumeric l) (commandTokens s n)) \<and>
      buffer (sendBufferedBlocks s n) = [] \<and> commandBuffer (sendBufferedBlocks s n) = [] \<and>
      sent (interface (sendBufferedBlocks s n))
        = sent (interface s) @
          (if buffer s = [] then []
           else [PlaceBlocks (buffer s) (bufferDoBlockUpdates s) (Some n)]) @
          commandRequests (commandBuffer s))"
proof -
  have direct: "fst (placeBlocks (interface s) [(p, b)] (effectiveUpdates s flag) None) = t # ts \<longrightarrow>
      placeSingleBlockGlobalDirect s p b flag
        = Inr (isnumeric t,
               s\<lparr>interface := snd (placeBlocks (interface s) [(p, b)] (effectiveUpdates s flag) None),
                 stderr := stderr s @ (if isnumeric t then [] else [WarnPlace (t # ts)])\<rparr>)"
    by (auto simp: placeSingleBlockGlobalDirect_def split: prod.splits)
  have fl: "\<not> multithreading s \<longrightarrow>
      stderr (sendBufferedBlocks s n)
        = stderr s @ map WarnBufferedBlock (filter (\<lambda>l. \<not> isnumeric l) (blockTokens s n)) @
          map WarnBufferedCommand (filter (\<lambda>l. \<not> isnumeric l) (commandTokens s n))"
    by (simp add: sendBufferedBlocks_def flush_stderr)
  from direct fl isnumeric_ascii [of t] sendBufferedBlocks_empties [of s n]
    sendBufferedBlocks_sent [of s n]
  show ?thesis by simp
qed

text \<open>
  Claim C7, as stated, fails: the token made of superscript two is not a
  non-negative integer, and a direct placement answered with it returns True and
  prints no warning.
\<close>

theorem superscript_token_is_success:
  "isnumeric superscriptTwo \<and> \<not> isNonNegativeInteger superscriptTwo \<and>
   placeSingleBlockGlobalDirect superscriptEditor (0, 0, 0) (mkBlock ''minecraft:stone'') None
     = Inr (True,
            superscriptEditor\<lparr>interface := (interface superscriptEditor)
              \<lparr>sent := [PlaceBlocks [((0, 0, 0), mkBlock ''minecraft:stone'')] True None]\<rparr>\<rparr>) \<and>
   stderr superscriptEditor = []"
  by (simp add: superscriptTwo_def isnumeric_def isnumeric_char_def isNonNegativeInteger_def
      placeSingleBlockGlobalDirect_def superscriptEditor_def newEditor_def plainHost_def
      placeBlocks_def send_def effectiveUpdates_def mkBlock_def Let_def)

text \<open>
  On the editor whose host answers err, 1, bad and fail, 12: the direct placement
  warns and returns False, and the flush warns about err, bad and fail and goes on to
  the end.
\<close>

theorem tokens_judged_by_isnumeric_witness:
  "isAscii ''12'' \<and> isnumeric ''12'' \<and> isNonNegativeInteger ''12'' \<and>
   \<not> isnumeric ''err'' \<and>
   placeSingleBlockGlobalDirect mixedEditor (0, 0, 0) (mkBlock ''minecraft:stone'') None
     = Inr (False,
            mixedEditor
              \<lparr>interface := snd (placeBlocks (interface mixedEditor)
                   [((0, 0, 0), mkBlock ''minecraft:stone'')] True None),
               stderr := [WarnPlace [''err'', ''1'', ''bad'']]\<rparr>) \<and>
   \<not> multithreading mixedEditor \<and>
   stderr (sendBufferedBlocks mixedEditor 5)
     = [WarnBufferedBlock ''err'', WarnBufferedBlock ''bad'', WarnBufferedCommand ''fail''] \<and>
   buffer (sendBufferedBlocks mixedEditor 5) = [] \<and>
   commandBuffer (sendBufferedBlocks mixedEditor 5) = [] \<and>
   sent (interface (sendBufferedBlocks mixedEditor 5))
     = [PlaceBlocks (buffer mixedEditor) True (Some 5), RunCommand ''say hi'']"
proof -
  let ?p = "(0, 0, 0) :: ivec3"
  let ?b = "mkBlock ''minecraft:stone''"
  note t12 = tokens_judged_by_isnumeric [where t = "''12''" and s = mixedEditor]
  note t = tokens_judged_by_isnumeric [where t = "''err''" and s = mixedEditor and p = ?p
      and b = ?b and flag = None and ts = "[''1'', ''bad'']" and n = 5]
  have a: "isAscii ''12''" "isNonNegativeInteger ''12''" "\<not> isnumeric ''err''"
    by (simp_all add: isAscii_def isNonNegativeInteger_def isnumeric_def isnumeric_char_def)
  have r: "fst (placeBlocks (interface mixedEditor) [(?p, ?b)]
      (effectiveUpdates mixedEditor None) None) = ''err'' # [''1'', ''bad'']"
    by (simp add: placeBlocks_def send_def mixedEditor_def newEditor_def plainHost_def)
  have m: "\<not> multithreading mixedEditor" "stderr mixedEditor = []"
    "sent (interface mixedEditor) = []" "bufferDoBlockUpdates mixedEditor = True"
    "buffer mixedEditor \<noteq> []" "effectiveUpdates mixedEditor None = True"
    "commandRequests (commandBuffer mixedEditor) = [RunCommand ''say hi'']"
    "blockTokens mixedEditor 5 = [''err'', ''1'', ''bad'']"
    "commandTokens mixedEditor 5 = [''fail'', ''12'']"
    by (simp_all add: mixedEditor_def newEditor_def plainHost_def commandRequests_def
        joinLines_def blockTokens_def commandTokens_def effectiveUpdates_def)
  have n: "filter (\<lambda>l. \<not> isnumeric l) [''err'', ''1'', ''bad''] = [''err'', ''bad'']"
    "filter (\<lambda>l. \<not> isnumeric l) [''fail'', ''12''] = [''fail'']"
    by (simp_all add: isnumeric_def isnumeric_char_def)
  from t12 a(1) have i: "isnumeric ''12''"
    using a(2) by blast
  from t r have d: "placeSingleBlockGlobalDirect mixedEditor ?p ?b None
      = Inr (isnumeric ''err'',
             mixedEditor\<lparr>interface := snd (placeBlocks (interface mixedEditor) [(?p, ?b)]
                 (effectiveUpdates mixedEditor None) None),
               stderr := stderr mixedEditor @
                 (if isnumeric ''err'' then [] else [WarnPlace (''err'' # [''1'', ''bad''])])\<rparr>)"
    by blast
  from t m(1) have f: "stderr (sendBufferedBlocks mixedEditor 5)
        = stderr mixedEditor @
          map WarnBufferedBlock (filter (\<lambda>l. \<not> isnumeric l) (blockTokens mixedEditor 5)) @
          map WarnBufferedCommand (filter (\<lambda>l. \<not> isnumeric l) (commandTokens mixedEditor 5))"
    "buffer (sendBufferedBlocks mixedEditor 5) = []"
    "commandBuffer (sendBufferedBlocks mixedEditor 5) = []"
    "sent (interface (sendBufferedBlocks mixedEditor 5))
        = sent (interface mixedEditor) @
          (if buffer mixedEditor = [] then []
           else [PlaceBlocks (buffer mixedEditor) (bufferDoBlockUpdates mixedEditor) (Some 5)]) @
          commandRequests (commandBuffer mixedEditor)"
    by blast+
  have f1: "stderr (sendBufferedBlocks mixedEditor 5)
      = [WarnBufferedBlock ''err'', WarnBufferedBlock ''bad'', WarnBufferedCommand ''fail'']"
    unfolding f(1) m(2,8,9) n by simp
  have f4: "sent (interface (sendBufferedBlocks mixedEditor 5))
      = [PlaceBlocks (buffer mixedEditor) True (Some 5), RunCommand ''say hi'']"
    using m(5) unfolding f(4) m(3,4,7) by simp
  have d1: "placeSingleBlockGlobalDirect mixedEditor ?p ?b None
      = Inr (False,
             mixedEditor
               \<lparr>interface := snd (placeBlocks (interface mixedEditor) [(?p, ?b)] True None),
                stderr := [WarnPlace [''err'', ''1'', ''bad'']]\<rparr>)"
    unfolding d m(2,6) using a(3) by simp
  from a i d1 m(1) f1 f(2,3) f4 show ?thesis
    by blast
qed

section \<open>The decay array\<close>

lemma cell_in_volume:
  assumes "decayShaped env ws d" "contains (sliceRect ws) (dropY p)" "inBuildHeight env p"
  shows "np_cell3 d (decayIndex env ws p) = Inr (cellOf env ws p)"
  using assms
  by (auto simp: decayShaped_def contains_def dropY_def inBuildHeight_def np_cell3_def
      np_index_def decayIndex_def vsub_def addY_def cellOf_def)

lemma staged_frame:
  "placeSingleBlockGlobalBuffered s p b flag = (ok, s') \<Longrightarrow>
   ok \<and> worldSlice s' = worldSlice s \<and> worldSliceDecay s' = worldSliceDecay s \<and>
   caching s' = caching s \<and> cache s' = cache s"
  by (auto simp: stage_cases sendBufferedBlocks_def flush_def Let_def split: if_splits prod.splits)

lemma direct_frame:
  "placeSingleBlockGlobalDirect s p b flag = Inr (ok, s') \<Longrightarrow>
   worldSlice s' = worldSlice s \<and> worldSliceDecay s' = worldSliceDecay s \<and>
   caching s' = caching s \<and> cache s' = cache s"
  by (auto simp: placeSingleBlockGlobalDirect_def split: prod.splits list.splits if_splits)

lemma recordPlacement_decay:
  "recordPlacement env s p b = Inr (ok, s') \<Longrightarrow>
   ok \<and> worldSlice s' = worldSlice s \<and>
   (case worldSlice s of
      None \<Rightarrow> worldSliceDecay s' = worldSliceDecay s
    | Some ws \<Rightarrow>
        if contains (sliceRect ws) (dropY p)
        then (\<exists>d d'. worldSliceDecay s = Some d \<and>
                np_set3 d (decayIndex env ws p) True = Inr d' \<and> worldSliceDecay s' = Some d')
        else worldSliceDecay s' = worldSliceDecay s)"
  by (auto simp: recordPlacement_def Let_def split: option.splits sum.splits if_splits)

lemma read_keeps:
  assumes "getBlockGlobal env s p gs gd = Inr (b, s1)"
  shows "worldSlice s1 = worldSlice s \<and> worldSliceDecay s1 = worldSliceDecay s \<and>
         buffer s1 = buffer s \<and> interface s1 = interface s \<and> caching s1 = caching s \<and>
         buffering s1 = buffering s \<and> s1 = s\<lparr>cache := cache s1\<rparr>"
proof -
  from read_frame [OF assms] have e: "s1 = s\<lparr>cache := cache s1\<rparr>" by simp
  have "worldSlice (s\<lparr>cache := cache s1\<rparr>) = worldSlice s \<and>
        worldSliceDecay (s\<lparr>cache := cache s1\<rparr>) = worldSliceDecay s \<and>
        buffer (s\<lparr>cache := cache s1\<rparr>) = buffer s \<and>
        interface (s\<lparr>cache := cache s1\<rparr>) = interface s \<and>
        caching (s\<lparr>cache := cache s1\<rparr>) = caching s \<and>
        buffering (s\<lparr>cache := cache s1\<rparr>) = buffering s"
    by simp
  with e show ?thesis by metis
qed

lemma placeChosen_effect:
  assumes "placeChosen env s p blk flag = Inr (ok, s')"
  shows "worldSlice s' = worldSlice s \<and>
         ((ok \<and> s' = s\<lparr>cache := cache s'\<rparr>) \<or>
          (\<not> ok \<and> worldSliceDecay s' = worldSliceDecay s) \<or>
          (ok \<and> recorded env s p s'))"
proof (cases "id_b (chooseId env blk) = []")
  case True
  with assms show ?thesis by (simp add: placeChosen_def Let_def)
next
  case False
  let ?block = "chooseId env blk"
  obtain skip s1 where look:
    "(if caching s
      then (case getBlockGlobal env s p True False of
              Inl e \<Rightarrow> Inl e
            | Inr (b, t) \<Rightarrow> Inr (idInBlock (id_b ?block) b, t))
      else Inr (False, s)) = Inr (skip, s1)"
    using assms False by (auto simp: placeChosen_def Let_def split: sum.splits)
  have s1: "worldSlice s1 = worldSlice s \<and> worldSliceDecay s1 = worldSliceDecay s \<and>
      s1 = s\<lparr>cache := cache s1\<rparr>"
    using look read_keeps [of env s p True False]
    by (auto split: if_splits sum.splits)
  show ?thesis
  proof (cases skip)
    case True
    with assms False look have "ok \<and> s' = s1"
      by (simp add: placeChosen_def Let_def)
    with s1 show ?thesis by metis
  next
    case noskip: False
    obtain success s2 where place:
      "(if buffering s1 then Inr (placeSingleBlockGlobalBuffered s1 p ?block flag)
        else placeSingleBlockGlobalDirect s1 p ?block flag) = Inr (success, s2)"
      using assms False look noskip
      by (auto simp: placeChosen_def Let_def split: sum.splits)
    have s2: "worldSlice s2 = worldSlice s1 \<and> worldSliceDecay s2 = worldSliceDecay s1"
      using place staged_frame [of s1 p ?block flag success s2]
        direct_frame [of s1 p ?block flag success s2]
      by (auto split: if_splits)
    show ?thesis
    proof (cases success)
      case False
      with assms \<open>id_b ?block \<noteq> []\<close> look noskip place have "\<not> ok \<and> s' = s2"
        by (simp add: placeChosen_def Let_def)
      with s1 s2 show ?thesis by simp
    next
      case True
      with assms \<open>id_b ?block \<noteq> []\<close> look noskip place
      have rec: "recordPlacement env s2 p ?block = Inr (ok, s')"
        by (simp add: placeChosen_def Let_def)
      from recordPlacement_decay [OF rec] s1 s2 show ?thesis
        by (auto simp: recorded_def split: option.splits if_splits)
    qed
  qed
qed

lemma recorded_cong:
  "worldSlice s1 = worldSlice s \<Longrightarrow> worldSliceDecay s1 = worldSliceDecay s \<Longrightarrow>
   recorded env s1 p s' = recorded env s p s'"
  by (simp add: recorded_def cong: option.case_cong if_cong)

lemma write_effect:
  assumes "placeSingleBlockGlobal env s p blk replace flag = Inr (ok, s')"
  shows "worldSlice s' = worldSlice s \<and>
         ((ok \<and> s' = s\<lparr>cache := cache s'\<rparr>) \<or>
          (\<not> ok \<and> worldSliceDecay s' = worldSliceDecay s) \<or>
          (ok \<and> recorded env s p s'))"
proof (cases replace)
  case None
  with assms placeChosen_effect [of env s p blk flag ok s'] show ?thesis
    by (simp add: placeSingleBlockGlobal_def)
next
  case (Some r)
  obtain b s1 where rd: "getBlockGlobal env s p True False = Inr (b, s1)"
    using assms Some by (auto simp: placeSingleBlockGlobal_def split: sum.splits)
  note k = read_keeps [OF rd]
  show ?thesis
  proof (cases "blockInReplace b r")
    case False
    with assms Some rd have "ok \<and> s' = s1"
      by (simp add: placeSingleBlockGlobal_def)
    with k show ?thesis by metis
  next
    case True
    with assms Some rd have "placeChosen env s1 p blk flag = Inr (ok, s')"
      by (simp add: placeSingleBlockGlobal_def)
    from placeChosen_effect [OF this]
    have e: "worldSlice s' = worldSlice s1 \<and>
        ((ok \<and> s' = s1\<lparr>cache := cache s'\<rparr>) \<or>
         (\<not> ok \<and> worldSliceDecay s' = worldSliceDecay s1) \<or>
         (ok \<and> recorded env s1 p s'))" .
    from k have s1: "s1 = s\<lparr>cache := cache s1\<rparr>" by simp
    have skip: "s' = s\<lparr>cache := cache s'\<rparr>" if "s' = s1\<lparr>cache := cache s'\<rparr>"
    proof -
      have "s1\<lparr>cache := cache s'\<rparr> = (s\<lparr>cache := cache s1\<rparr>)\<lparr>cache := cache s'\<rparr>"
        using s1 by simp
      also have "\<dots> = s\<lparr>cache := cache s'\<rparr>" by simp
      finally show ?thesis using that by simp
    qed
    have rec: "recorded env s1 p s' = recorded env s p s'"
      using k by (intro recorded_cong) simp_all
    from e k skip rec show ?thesis
      by metis
  qed
qed

lemma read_outside:
  assumes "worldSlice s = Some ws" "\<not> contains (sliceRect ws) (dropY q)"
  shows "answer (getBlockGlobal env
            (s\<lparr>worldSlice := Some (ws\<lparr>sliceBlockAt := f\<rparr>), worldSliceDecay := dd\<rparr>) q gs gd)
         = answer (getBlockGlobal env s q gs gd)"
  using assms
  by (auto simp: answer_def getBlockGlobal_def sliceForRead_def getBlocks_def
      split: option.splits sum.splits list.splits)

lemma read_decayed:
  assumes "worldSlice s = Some ws" "worldSliceDecay s = Some d"
    "np_get3 d (decayIndex env ws p) = Inr True"
  shows "answer (getBlockGlobal env (s\<lparr>worldSlice := Some (ws\<lparr>sliceBlockAt := f\<rparr>)\<rparr>) p gs gd)
         = answer (getBlockGlobal env s p gs gd)"
  using assms
  by (auto simp: answer_def getBlockGlobal_def sliceForRead_def getBlocks_def decayIndex_def
      split: option.splits sum.splits list.splits)

lemma np_cell3_shape: "shape3 a = shape3 b \<Longrightarrow> np_cell3 a idx = np_cell3 b idx"
  by (simp add: np_cell3_def cong: sum.case_cong)

text \<open>
  What a write leaves of the lookup cache and of the write buffer. Every operation on
  the cache during a write is at the written position; the entries for the other
  positions can only be evicted, oldest first, and are not when the cache has room.
  The buffer is flushed only by the staging of the write, when a flush is due.
\<close>

lemma cacheKept_refl: "cacheKept p c c"
  by (simp add: cacheKept_def)

lemma cacheKept_trans:
  assumes "cacheKept p c c1" and "cacheKept p c1 c2"
  shows "cacheKept p c c2"
proof -
  have room: "cacheHasRoom c1 p" if "cacheHasRoom c p"
    using that assms(1) by (simp add: cacheKept_def cacheHasRoom_def)
  from assms room show ?thesis
    unfolding cacheKept_def
    by (metis suffix_order.trans)
qed

lemma filter_drop_all:
  "\<forall>e \<in> set xs. P e \<Longrightarrow> filter P (drop n xs) = drop n xs"
  by (simp add: filter_id_conv in_set_dropD)

lemma cacheKept_getitem:
  assumes "cache_getitem c p = Some (v, c')"
  shows "cacheKept p c c'"
  using assms
  by (auto simp: cache_getitem_def cacheKept_def otherEntries_def split: option.splits)

lemma cacheKept_setitem: "cacheKept p c (cache_setitem c p v)"
proof -
  let ?F = "otherEntries c p"
  let ?n = "length (?F @ [(p, v)]) - maxSize c"
  have all: "\<forall>e \<in> set ?F. fst e \<noteq> p"
    by (simp add: otherEntries_def)
  have "otherEntries (cache_setitem c p v) p
      = filter (\<lambda>e. fst e \<noteq> p) (drop ?n ?F) @ filter (\<lambda>e. fst e \<noteq> p) (drop (?n - length ?F) [(p, v)])"
    by (simp add: cache_setitem_def otherEntries_def Let_def)
  also have "filter (\<lambda>e. fst e \<noteq> p) (drop (?n - length ?F) [(p, v)]) = []"
    by (cases "?n - length ?F") simp_all
  also have "filter (\<lambda>e. fst e \<noteq> p) (drop ?n ?F) = drop ?n ?F"
    using all by (rule filter_drop_all)
  finally have eq: "otherEntries (cache_setitem c p v) p = drop ?n ?F"
    by simp
  have room: "?n = 0" if "cacheHasRoom c p"
    using that by (simp add: cacheHasRoom_def)
  have m: "maxSize (cache_setitem c p v) = maxSize c"
    by (simp add: cache_setitem_def Let_def)
  from eq room m show ?thesis
    by (auto simp: cacheKept_def suffix_drop)
qed

lemma map_of_other: "q \<noteq> p \<Longrightarrow> map_of (filter (\<lambda>e. fst e \<noteq> p) xs) q = map_of xs q"
  by (induction xs) auto

lemma map_of_suffix_None:
  "suffix xs ys \<Longrightarrow> map_of ys q = None \<Longrightarrow> map_of xs q = None"
  by (auto simp: suffix_def map_of_eq_None_iff)

lemma cacheKept_lookup:
  assumes "cacheKept p c c'" and "q \<noteq> p"
    and "map_of (entries c) q = None \<or> cacheHasRoom c p"
  shows "map_of (entries c') q = map_of (entries c) q"
proof -
  have a: "map_of (entries c') q = map_of (otherEntries c' p) q"
    "map_of (entries c) q = map_of (otherEntries c p) q"
    using assms(2) by (simp_all add: otherEntries_def map_of_other)
  from assms(3) show ?thesis
  proof
    assume "cacheHasRoom c p"
    with assms(1) show ?thesis by (simp add: a cacheKept_def)
  next
    assume n: "map_of (entries c) q = None"
    then have "map_of (otherEntries c p) q = None"
      by (simp add: a)
    moreover have "suffix (otherEntries c' p) (otherEntries c p)"
      using assms(1) by (simp add: cacheKept_def)
    ultimately have "map_of (otherEntries c' p) q = None"
      by (rule map_of_suffix_None [rotated])
    with n show ?thesis by (simp add: a)
  qed
qed

lemma read_kept:
  assumes "getBlockGlobal env s p gs gd = Inr (b, s1)"
  shows "s1 = s\<lparr>cache := cache s1\<rparr> \<and> cacheKept p (cache s) (cache s1) \<and>
         (\<not> caching s \<longrightarrow> cache s1 = cache s)"
proof -
  note f = read_frame [OF assms]
  have "cacheKept p (cache s) (cache s1)"
  proof (cases "caching s")
    case False
    with f show ?thesis by (simp add: cacheKept_refl)
  next
    case True
    with f have c: "cache s1 = (case cache_getitem (cache s) p of
                          Some (v, c) \<Rightarrow> c
                        | None \<Rightarrow> if bufferMiss s p then cache_setitem (cache s) p b
                                  else cache s)"
      by simp
    show ?thesis
      unfolding c
      by (auto simp: cacheKept_refl cacheKept_setitem cacheKept_getitem split: option.splits)
  qed
  with f show ?thesis by simp
qed

lemma staged_kept:
  assumes "placeSingleBlockGlobalBuffered s p b flag = (ok, s2)"
  shows "caching s2 = caching s \<and> buffering s2 = buffering s \<and> cache s2 = cache s \<and>
         (buffer s2 = AList.update p b (buffer s) \<or> (flushDue s flag \<and> buffer s2 = [(p, b)]))"
  using assms
  by (auto simp: stage_cases sendBufferedBlocks_def flush_def Let_def flushDue_def
      split: if_splits prod.splits)

lemma direct_kept:
  assumes "placeSingleBlockGlobalDirect s p b flag = Inr (ok, s2)"
  shows "caching s2 = caching s \<and> buffering s2 = buffering s \<and> cache s2 = cache s \<and>
         buffer s2 = buffer s"
  using assms
  by (auto simp: placeSingleBlockGlobalDirect_def split: prod.splits list.splits if_splits)

lemma record_kept:
  assumes "recordPlacement env s2 p b = Inr (ok, s')"
  shows "caching s' = caching s2 \<and> buffering s' = buffering s2 \<and> buffer s' = buffer s2 \<and>
         cacheKept p (cache s2) (cache s') \<and> (\<not> caching s2 \<longrightarrow> cache s' = cache s2)"
  using assms
  by (auto simp: recordPlacement_def Let_def cacheKept_refl cacheKept_setitem
      split: option.splits sum.splits if_splits)

lemma keptBy_read:
  assumes "s1 = s\<lparr>cache := cache s1\<rparr>" and "cacheKept p (cache s) (cache s1)"
    and "\<not> caching s \<longrightarrow> cache s1 = cache s"
  shows "keptBy p b flag s s1 \<and> flushDue s1 flag = flushDue s flag \<and> buffer s1 = buffer s \<and>
         caching s1 = caching s \<and> buffering s1 = buffering s"
proof -
  let ?t = "s\<lparr>cache := cache s1\<rparr>"
  have "caching ?t = caching s \<and> buffering ?t = buffering s \<and> buffer ?t = buffer s \<and>
        flushDue ?t flag = flushDue s flag"
    by (simp add: flushDue_def effectiveUpdates_def split: option.splits)
  with assms(1) have "caching s1 = caching s \<and> buffering s1 = buffering s \<and>
      buffer s1 = buffer s \<and> flushDue s1 flag = flushDue s flag"
    by metis
  with assms(2,3) show ?thesis
    by (simp add: keptBy_def)
qed

lemma keptBy_trans_read:
  assumes "keptBy p b flag s s1" and "flushDue s1 flag = flushDue s flag"
    and "buffer s1 = buffer s" and "keptBy p b flag s1 s2"
  shows "keptBy p b flag s s2"
  using assms cacheKept_trans [of p "cache s" "cache s1" "cache s2"]
  unfolding keptBy_def by auto

lemma placeChosen_kept:
  assumes "placeChosen env s p blk flag = Inr (ok, s')"
  shows "keptBy p (chooseId env blk) flag s s'"
proof (cases "id_b (chooseId env blk) = []")
  case True
  with assms have "s' = s" by (simp add: placeChosen_def Let_def)
  then show ?thesis by (simp add: keptBy_def cacheKept_refl)
next
  case False
  let ?block = "chooseId env blk"
  obtain skip s1 where look:
    "(if caching s
      then (case getBlockGlobal env s p True False of
              Inl e \<Rightarrow> Inl e
            | Inr (b, t) \<Rightarrow> Inr (idInBlock (id_b ?block) b, t))
      else Inr (False, s)) = Inr (skip, s1)"
    using assms False by (auto simp: placeChosen_def Let_def split: sum.splits)
  have "s1 = s\<lparr>cache := cache s1\<rparr> \<and> cacheKept p (cache s) (cache s1) \<and>
      (\<not> caching s \<longrightarrow> cache s1 = cache s)"
    using look read_kept [of env s p True False]
    by (auto simp: cacheKept_refl split: if_splits sum.splits)
  then have k1: "keptBy p ?block flag s s1" and fd: "flushDue s1 flag = flushDue s flag"
    and b1: "buffer s1 = buffer s" and c1: "caching s1 = caching s"
    and bf1: "buffering s1 = buffering s"
    using keptBy_read [of s1 s p ?block flag] by simp_all
  show ?thesis
  proof (cases skip)
    case True
    with assms False look have "s' = s1"
      by (simp add: placeChosen_def Let_def)
    with k1 show ?thesis by simp
  next
    case noskip: False
    obtain success s2 where place:
      "(if buffering s1 then Inr (placeSingleBlockGlobalBuffered s1 p ?block flag)
        else placeSingleBlockGlobalDirect s1 p ?block flag) = Inr (success, s2)"
      using assms False look noskip
      by (auto simp: placeChosen_def Let_def split: sum.splits)
    have s2: "caching s2 = caching s1 \<and> buffering s2 = buffering s1 \<and> cache s2 = cache s1 \<and>
        (buffer s2 = buffer s1 \<or> buffer s2 = AList.update p ?block (buffer s1) \<or>
         (buffering s1 \<and> flushDue s1 flag \<and> buffer s2 = [(p, ?block)]))"
      using place staged_kept [of s1 p ?block flag success s2]
        direct_kept [of s1 p ?block flag success s2]
      by (auto split: if_splits)
    have rest: "keptBy p ?block flag s1 s'"
    proof (cases success)
      case False
      with assms \<open>id_b ?block \<noteq> []\<close> look noskip place have "s' = s2"
        by (simp add: placeChosen_def Let_def)
      with s2 show ?thesis
        by (auto simp: keptBy_def cacheKept_refl)
    next
      case True
      with assms \<open>id_b ?block \<noteq> []\<close> look noskip place
      have rec: "recordPlacement env s2 p ?block = Inr (ok, s')"
        by (simp add: placeChosen_def Let_def)
      from record_kept [OF rec] s2 show ?thesis
        by (auto simp: keptBy_def)
    qed
    from keptBy_trans_read [OF k1 fd b1 rest] show ?thesis .
  qed
qed

lemma write_kept:
  assumes "placeSingleBlockGlobal env s p blk replace flag = Inr (ok, s')"
  shows "keptBy p (chooseId env blk) flag s s'"
proof (cases replace)
  case None
  with assms placeChosen_kept [of env s p blk flag ok s'] show ?thesis
    by (simp add: placeSingleBlockGlobal_def)
next
  case (Some r)
  obtain b s1 where rd: "getBlockGlobal env s p True False = Inr (b, s1)"
    using assms Some by (auto simp: placeSingleBlockGlobal_def split: sum.splits)
  from read_kept [OF rd]
  have k1: "keptBy p (chooseId env blk) flag s s1" and fd: "flushDue s1 flag = flushDue s flag"
    and b1: "buffer s1 = buffer s"
    using keptBy_read [of s1 s p "chooseId env blk" flag] by simp_all
  show ?thesis
  proof (cases "blockInReplace b r")
    case False
    with assms Some rd have "s' = s1"
      by (simp add: placeSingleBlockGlobal_def)
    with k1 show ?thesis by simp
  next
    case True
    with assms Some rd have "placeChosen env s1 p blk flag = Inr (ok, s')"
      by (simp add: placeSingleBlockGlobal_def)
    from keptBy_trans_read [OF k1 fd b1 placeChosen_kept [OF this]] show ?thesis .
  qed
qed

lemma read_outside_answer:
  assumes "worldSlice s = Some ws" and "\<not> contains (sliceRect ws) (dropY q)"
  shows "answer (getBlockGlobal env s q gs gd)
         = (case (if caching s then map_of (entries (cache s)) q else None) of
              Some b \<Rightarrow> Inr b
            | None \<Rightarrow>
                (case (if buffering s then map_of (buffer s) q else None) of
                   Some b \<Rightarrow> Inr b
                 | None \<Rightarrow> hostBlock (interface s) q gs gd))"
  using assms
  by (auto simp: answer_def getBlockGlobal_def sliceForRead_def hostBlock_def cache_getitem_def
      split: option.splits sum.splits list.splits)

text \<open>
  Claim C4, amended. Let a slice be cached with a decay array of its shape, and let a
  write be made at a position \<open>p\<close> whose XZ lies in the slice's rectangle and whose Y
  lies within the build height. The slice stays cached and the decay array keeps its
  shape. No cell goes from true to false, and a cell that goes from false to true is
  the cell of \<open>p\<close>, after a write that returned True. When the write returned True and
  changed the write buffer or reached the host, the cell of \<open>p\<close> is true afterwards.
  When that cell is true, a read of \<open>p\<close> gives the same answer whatever data the
  slice holds. For a position \<open>q\<close> whose XZ lies outside the rectangle: a read of \<open>q\<close>
  gives the same answer whatever the slice and the decay array hold; the write leaves
  the buffer as it was, or with the new block added, or flushed, which happens only
  when a flush was due; it leaves the cache entry of \<open>q\<close> as it was when there was
  none or when the cache had room for the entry of \<open>p\<close>; and the read of \<open>q\<close> gives
  after the write the answer it gave before, provided that the source that answered
  before still answers the same: the cache entry of \<open>q\<close> is as it was if the cache
  answered; the pending write for \<open>q\<close> is still in the buffer, or the host holds its
  block, if the buffer answered; the host's block for \<open>q\<close> is as it was if the host
  answered.
\<close>

theorem decay_correctness:
  assumes W: "placeSingleBlockGlobal env s p blk replace flag = Inr (ok, s')"
    and ws: "worldSlice s = Some ws" and d: "worldSliceDecay s = Some d"
    and shaped: "decayShaped env ws d"
    and inR: "contains (sliceRect ws) (dropY p)" and inH: "inBuildHeight env p"
    and outR: "\<not> contains (sliceRect ws) (dropY q)"
  shows "\<exists>d'. worldSlice s' = Some ws \<and> worldSliceDecay s' = Some d' \<and>
           shape3 d' = shape3 d \<and>
           (\<forall>c. cells3 d c \<longrightarrow> cells3 d' c) \<and>
           (\<forall>c. cells3 d' c \<and> \<not> cells3 d c \<longrightarrow> ok \<and> c = cellOf env ws p) \<and>
           (ok \<and> (buffer s' \<noteq> buffer s \<or> interface s' \<noteq> interface s) \<longrightarrow>
              cells3 d' (cellOf env ws p)) \<and>
           (cells3 d' (cellOf env ws p) \<longrightarrow>
              (\<forall>f. answer (getBlockGlobal env
                        (s'\<lparr>worldSlice := Some (ws\<lparr>sliceBlockAt := f\<rparr>)\<rparr>) p gs gd)
                   = answer (getBlockGlobal env s' p gs gd))) \<and>
           (\<forall>f dd. answer (getBlockGlobal env
                       (s'\<lparr>worldSlice := Some (ws\<lparr>sliceBlockAt := f\<rparr>),
                          worldSliceDecay := dd\<rparr>) q gs gd)
                  = answer (getBlockGlobal env s' q gs gd)) \<and>
           (buffer s' = buffer s \<or> buffer s' = AList.update p (chooseId env blk) (buffer s) \<or>
            (buffering s \<and> flushDue s flag \<and> buffer s' = [(p, chooseId env blk)])) \<and>
           (cacheMiss s q \<or> cacheHasRoom (cache s) p \<longrightarrow>
              map_of (entries (cache s')) q = map_of (entries (cache s)) q) \<and>
           ((\<not> cacheMiss s q \<longrightarrow>
               map_of (entries (cache s')) q = map_of (entries (cache s)) q) \<and>
            (cacheMiss s q \<and> \<not> bufferMiss s q \<longrightarrow>
               map_of (buffer s') q = map_of (buffer s) q \<or>
               Some (hostBlock (interface s') q gs gd) = map_option Inr (map_of (buffer s) q)) \<and>
            (cacheMiss s q \<and> bufferMiss s q \<longrightarrow>
               hostBlock (interface s') q gs gd = hostBlock (interface s) q gs gd) \<longrightarrow>
              answer (getBlockGlobal env s' q gs gd) = answer (getBlockGlobal env s q gs gd))"
proof -
  let ?cell = "cellOf env ws p"
  let ?set = "d\<lparr>cells3 := (cells3 d)(?cell := True)\<rparr>"
  let ?b = "chooseId env blk"
  note cell = cell_in_volume [OF shaped inR inH]
  from write_effect [OF W] have ws': "worldSlice s' = Some ws"
    and cases: "(ok \<and> s' = s\<lparr>cache := cache s'\<rparr>) \<or>
                (\<not> ok \<and> worldSliceDecay s' = worldSliceDecay s) \<or>
                (ok \<and> recorded env s p s')"
    using ws by simp_all
  have rec: "worldSliceDecay s' = Some ?set" if "recorded env s p s'"
    using that ws d inR cell by (auto simp: recorded_def np_set3_def)
  have unchanged: "worldSliceDecay s' = Some d \<and> buffer s' = buffer s \<and>
      interface s' = interface s" if "s' = s\<lparr>cache := cache s'\<rparr>"
  proof -
    have "worldSliceDecay (s\<lparr>cache := cache s'\<rparr>) = Some d \<and>
        buffer (s\<lparr>cache := cache s'\<rparr>) = buffer s \<and>
        interface (s\<lparr>cache := cache s'\<rparr>) = interface s"
      using d by simp
    with that show ?thesis by metis
  qed
  obtain d' where d': "worldSliceDecay s' = Some d'"
    and shape: "d' = d \<or> (ok \<and> d' = ?set)"
    and marked: "ok \<and> (buffer s' \<noteq> buffer s \<or> interface s' \<noteq> interface s) \<longrightarrow> d' = ?set"
    using cases rec unchanged d by metis
  have same_shape: "shape3 d' = shape3 d"
    using shape by auto
  have mono: "\<forall>c. cells3 d c \<longrightarrow> cells3 d' c"
    using shape by auto
  have only: "\<forall>c. cells3 d' c \<and> \<not> cells3 d c \<longrightarrow> ok \<and> c = ?cell"
    using shape by (auto split: if_splits)
  have mark: "ok \<and> (buffer s' \<noteq> buffer s \<or> interface s' \<noteq> interface s) \<longrightarrow> cells3 d' ?cell"
    using marked by auto
  have cell': "np_cell3 d' (decayIndex env ws p) = Inr ?cell"
    using cell np_cell3_shape [OF same_shape] by simp
  have at_p: "cells3 d' ?cell \<longrightarrow>
      (\<forall>f. answer (getBlockGlobal env (s'\<lparr>worldSlice := Some (ws\<lparr>sliceBlockAt := f\<rparr>)\<rparr>) p gs gd)
           = answer (getBlockGlobal env s' p gs gd))"
    using read_decayed [OF ws' d', of env p] cell' by (simp add: np_get3_def)
  have at_q: "\<forall>f dd. answer (getBlockGlobal env
        (s'\<lparr>worldSlice := Some (ws\<lparr>sliceBlockAt := f\<rparr>), worldSliceDecay := dd\<rparr>) q gs gd)
      = answer (getBlockGlobal env s' q gs gd)"
    using read_outside [OF ws' outR] by simp
  from write_kept [OF W] have c: "caching s' = caching s" and bf: "buffering s' = buffering s"
    and off: "\<not> caching s \<longrightarrow> cache s' = cache s"
    and kept: "cacheKept p (cache s) (cache s')"
    and buf: "buffer s' = buffer s \<or> buffer s' = AList.update p ?b (buffer s) \<or>
              (buffering s \<and> flushDue s flag \<and> buffer s' = [(p, ?b)])"
    by (simp_all add: keptBy_def)
  have qp: "q \<noteq> p"
    using inR outR by auto
  have entry: "map_of (entries (cache s')) q = map_of (entries (cache s)) q"
    if "cacheMiss s q \<or> cacheHasRoom (cache s) p"
  proof (cases "caching s")
    case False
    with off show ?thesis by simp
  next
    case True
    with that have "map_of (entries (cache s)) q = None \<or> cacheHasRoom (cache s) p"
      by (auto simp: cacheMiss_def cache_getitem_def split: option.splits)
    with cacheKept_lookup [OF kept qp] show ?thesis by simp
  qed
  have pending: "map_of (buffer s') q = map_of (buffer s) q \<or> map_of (buffer s') q = None"
    using buf qp by (auto simp: update_conv')
  have before: "answer (getBlockGlobal env s q gs gd)
      = (case (if caching s then map_of (entries (cache s)) q else None) of
           Some b \<Rightarrow> Inr b
         | None \<Rightarrow>
             (case (if buffering s then map_of (buffer s) q else None) of
                Some b \<Rightarrow> Inr b
              | None \<Rightarrow> hostBlock (interface s) q gs gd))"
    by (rule read_outside_answer [OF ws outR])
  have after: "answer (getBlockGlobal env s' q gs gd)
      = (case (if caching s then map_of (entries (cache s')) q else None) of
           Some b \<Rightarrow> Inr b
         | None \<Rightarrow>
             (case (if buffering s then map_of (buffer s') q else None) of
                Some b \<Rightarrow> Inr b
              | None \<Rightarrow> hostBlock (interface s') q gs gd))"
    using read_outside_answer [OF ws' outR, of env gs gd] by (simp add: c bf)
  have same: "answer (getBlockGlobal env s' q gs gd) = answer (getBlockGlobal env s q gs gd)"
    if K: "\<not> cacheMiss s q \<longrightarrow> map_of (entries (cache s')) q = map_of (entries (cache s)) q"
      and B: "cacheMiss s q \<and> \<not> bufferMiss s q \<longrightarrow>
               map_of (buffer s') q = map_of (buffer s) q \<or>
               Some (hostBlock (interface s') q gs gd) = map_option Inr (map_of (buffer s) q)"
      and H: "cacheMiss s q \<and> bufferMiss s q \<longrightarrow>
               hostBlock (interface s') q gs gd = hostBlock (interface s) q gs gd"
  proof (cases "cacheMiss s q")
    case False
    with K have "map_of (entries (cache s')) q = map_of (entries (cache s)) q" by simp
    moreover from False obtain v where "caching s" "map_of (entries (cache s)) q = Some v"
      by (auto simp: cacheMiss_def cache_getitem_def split: option.splits)
    ultimately show ?thesis
      by (simp add: before after)
  next
    case miss: True
    then have e: "map_of (entries (cache s')) q = map_of (entries (cache s)) q"
      using entry by simp
    from miss have n: "caching s \<longrightarrow> map_of (entries (cache s)) q = None"
      by (auto simp: cacheMiss_def cache_getitem_def split: option.splits)
    show ?thesis
    proof (cases "bufferMiss s q")
      case True
      then have b0: "buffering s \<longrightarrow> map_of (buffer s) q = None"
        by (auto simp: bufferMiss_def)
      with pending have b1: "buffering s \<longrightarrow> map_of (buffer s') q = None"
        by auto
      from H miss True have "hostBlock (interface s') q gs gd = hostBlock (interface s) q gs gd"
        by simp
      with n b0 b1 show ?thesis
        by (auto simp: before after e)
    next
      case False
      then obtain bq where bq: "buffering s" "map_of (buffer s) q = Some bq"
        by (auto simp: bufferMiss_def)
      from B miss False have "map_of (buffer s') q = map_of (buffer s) q \<or>
          Some (hostBlock (interface s') q gs gd) = map_option Inr (map_of (buffer s) q)"
        by simp
      with pending have "map_of (buffer s') q = Some bq \<or>
          (map_of (buffer s') q = None \<and> hostBlock (interface s') q gs gd = Inr bq)"
        by (auto simp: bq)
      with n show ?thesis
        by (auto simp: before after e bq)
    qed
  qed
  from ws' d' same_shape mono only mark at_p at_q buf entry same show ?thesis
    by blast
qed

text \<open>
  Claim C4, as stated, fails in four places. A write inside the region changes the
  answer of a read outside it in three ways. It evicts an entry of the lookup cache:
  the write of dirt at the origin evicts the entry cached for (5, 0, 5), whose read
  then gives the host's air where it gave the cached stone. It flushes the write
  buffer: with multithreading the write of dirt at the origin detaches the buffer
  that held stone for (5, 0, 5), whose read then gives the host's air until the
  worker has run. It changes the host outside the region: water placed at (1, 0, 0)
  with block updates on spreads to (2, 0, 0), whose read gave air. And after a write
  that the replace filter turned away, which returns True, the read of the written
  position is still answered from the slice's data.
\<close>

theorem write_inside_changes_read_outside:
  "contains rect22 (dropY (0, 0, 0)) \<and> \<not> contains rect22 (dropY (5, 0, 5)) \<and>
   worldSlice evictEditor = Some \<lparr>sliceRect = rect22, sliceBlockAt = worldAfter []\<rparr> \<and>
   answer (getBlockGlobal exEnv evictEditor (5, 0, 5) True False)
     = Inr (mkBlock ''minecraft:stone'') \<and>
   placeSingleBlockGlobal exEnv evictEditor (0, 0, 0) (mkBlock ''minecraft:dirt'') None None
     = Inr (True, evictedEditor) \<and>
   answer (getBlockGlobal exEnv evictedEditor (5, 0, 5) True False)
     = Inr (mkBlock ''minecraft:air'') \<and>
   worldSlice detachEditor = Some \<lparr>sliceRect = rect22, sliceBlockAt = worldAfter []\<rparr> \<and>
   answer (getBlockGlobal exEnv detachEditor (5, 0, 5) True False)
     = Inr (mkBlock ''minecraft:stone'') \<and>
   placeSingleBlockGlobal exEnv detachEditor (0, 0, 0) (mkBlock ''minecraft:dirt'') None None
     = Inr (True, detachedEditor) \<and>
   answer (getBlockGlobal exEnv detachedEditor (5, 0, 5) True False)
     = Inr (mkBlock ''minecraft:air'') \<and>
   contains rect22 (dropY (1, 0, 0)) \<and> \<not> contains rect22 (dropY (2, 0, 0)) \<and>
   worldSlice spreadEditor = Some \<lparr>sliceRect = rect22, sliceBlockAt = worldAfter []\<rparr> \<and>
   answer (getBlockGlobal exEnv spreadEditor (2, 0, 0) True False)
     = Inr (mkBlock ''minecraft:air'') \<and>
   placeSingleBlockGlobal exEnv spreadEditor (1, 0, 0) (mkBlock ''minecraft:water'') None None
     = Inr (True, spreadWrittenEditor) \<and>
   answer (getBlockGlobal exEnv spreadWrittenEditor (2, 0, 0) True False)
     = Inr (mkBlock ''minecraft:water'') \<and>
   placeSingleBlockGlobal exEnv loadedEditor (0, 0, 0) (mkBlock ''minecraft:dirt'')
      (Some [''minecraft:stone'']) None
     = Inr (True, loadedEditor) \<and>
   answer (getBlockGlobal exEnv loadedEditor (0, 0, 0) True False)
     = Inr (mkBlock ''minecraft:air'') \<and>
   answer (getBlockGlobal exEnv
      (loadedEditor\<lparr>worldSlice :=
         Some \<lparr>sliceRect = rect22, sliceBlockAt = (\<lambda>_. mkBlock ''minecraft:stone'')\<rparr>\<rparr>)
      (0, 0, 0) True False)
     = Inr (mkBlock ''minecraft:stone'')"
proof -
  have evict: "worldSlice evictEditor = Some \<lparr>sliceRect = rect22, sliceBlockAt = worldAfter []\<rparr> \<and>
      answer (getBlockGlobal exEnv evictEditor (5, 0, 5) True False)
        = Inr (mkBlock ''minecraft:stone'') \<and>
      placeSingleBlockGlobal exEnv evictEditor (0, 0, 0) (mkBlock ''minecraft:dirt'') None None
        = Inr (True, evictedEditor) \<and>
      answer (getBlockGlobal exEnv evictedEditor (5, 0, 5) True False)
        = Inr (mkBlock ''minecraft:air'')"
    by (simp add: evictEditor_def evictedEditor_def write_simps ex_simps)
  have detach: "worldSlice detachEditor = Some \<lparr>sliceRect = rect22, sliceBlockAt = worldAfter []\<rparr> \<and>
      answer (getBlockGlobal exEnv detachEditor (5, 0, 5) True False)
        = Inr (mkBlock ''minecraft:stone'') \<and>
      placeSingleBlockGlobal exEnv detachEditor (0, 0, 0) (mkBlock ''minecraft:dirt'') None None
        = Inr (True, detachedEditor) \<and>
      answer (getBlockGlobal exEnv detachedEditor (5, 0, 5) True False)
        = Inr (mkBlock ''minecraft:air'')"
    by (simp add: detachEditor_def detachedEditor_def write_simps stage_simps ex_simps)
  have spread: "worldSlice spreadEditor = Some \<lparr>sliceRect = rect22, sliceBlockAt = worldAfter []\<rparr> \<and>
      answer (getBlockGlobal exEnv spreadEditor (2, 0, 0) True False)
        = Inr (mkBlock ''minecraft:air'') \<and>
      placeSingleBlockGlobal exEnv spreadEditor (1, 0, 0) (mkBlock ''minecraft:water'') None None
        = Inr (True, spreadWrittenEditor) \<and>
      answer (getBlockGlobal exEnv spreadWrittenEditor (2, 0, 0) True False)
        = Inr (mkBlock ''minecraft:water'')"
    by (simp add: spreadEditor_def spreadWrittenEditor_def spreadAfter_def loadedEditor_def
        write_simps ex_simps)
  have skip: "placeSingleBlockGlobal exEnv loadedEditor (0, 0, 0) (mkBlock ''minecraft:dirt'')
        (Some [''minecraft:stone'']) None
       = Inr (True, loadedEditor) \<and>
     answer (getBlockGlobal exEnv loadedEditor (0, 0, 0) True False)
       = Inr (mkBlock ''minecraft:air'') \<and>
     answer (getBlockGlobal exEnv
        (loadedEditor\<lparr>worldSlice :=
           Some \<lparr>sliceRect = rect22, sliceBlockAt = (\<lambda>_. mkBlock ''minecraft:stone'')\<rparr>\<rparr>)
        (0, 0, 0) True False)
       = Inr (mkBlock ''minecraft:stone'')"
    by (simp add: loadedEditor_def write_simps ex_simps)
  have geo: "contains rect22 (dropY (0, 0, 0)) \<and> \<not> contains rect22 (dropY (5, 0, 5)) \<and>
      contains rect22 (dropY (1, 0, 0)) \<and> \<not> contains rect22 (dropY (2, 0, 0))"
    by (simp add: contains_def dropY_def rect22_def)
  from evict detach spread skip geo show ?thesis
    by blast
qed

text \<open>
  The example editors with a pending write are reached by writes from editors with
  an empty buffer.
\<close>

lemma pendingEditor_is_reached:
  "placeSingleBlockGlobal exEnv (loadedEditor\<lparr>buffering := True\<rparr>) (5, 0, 5)
      (mkBlock ''minecraft:stone'') None None
     = Inr (True, pendingEditor)"
  by (simp add: pendingEditor_def loadedEditor_def write_simps stage_simps ex_simps)

lemma detachEditor_is_reached:
  "placeSingleBlockGlobal exEnv (detachEditor\<lparr>buffer := []\<rparr>) (5, 0, 5)
      (mkBlock ''minecraft:stone'') None None
     = Inr (True, detachEditor)"
  by (simp add: detachEditor_def write_simps stage_simps ex_simps)

lemma pendingWrittenEditor_is_written:
  "placeSingleBlockGlobal exEnv pendingEditor (0, 0, 0) (mkBlock ''minecraft:dirt'') None None
     = Inr (True, pendingWrittenEditor)"
  by (simp add: pendingEditor_def pendingWrittenEditor_def loadedEditor_def write_simps
      stage_simps ex_simps)

text \<open>
  On the editor with the cached slice, stone is placed at the origin: the cell
  (0, 64, 0) goes from false to true, the read of the origin gives the host's
  stone whatever the slice holds, and the read of (5, 0, 5), which the host answers,
  gives what it gave before. On the editor with stone pending for (5, 0, 5), dirt is
  staged for the origin: the read of (5, 0, 5) gives the pending stone as before.
\<close>

theorem decay_correctness_witness:
  "placeSingleBlockGlobal exEnv loadedEditor (0, 0, 0) (mkBlock ''minecraft:stone'') None None
     = Inr (True, writtenEditor) \<and>
   contains rect22 (dropY (0, 0, 0)) \<and> inBuildHeight exEnv (0, 0, 0) \<and>
   \<not> contains rect22 (dropY (5, 0, 5)) \<and>
   interface writtenEditor \<noteq> interface loadedEditor \<and>
   map_option (\<lambda>d. cells3 d (0, 64, 0)) (worldSliceDecay loadedEditor) = Some False \<and>
   map_option (\<lambda>d. cells3 d (0, 64, 0)) (worldSliceDecay writtenEditor) = Some True \<and>
   answer (getBlockGlobal exEnv
      (writtenEditor\<lparr>worldSlice :=
         Some \<lparr>sliceRect = rect22, sliceBlockAt = (\<lambda>_. mkBlock ''minecraft:glass'')\<rparr>\<rparr>)
      (0, 0, 0) True False)
     = answer (getBlockGlobal exEnv writtenEditor (0, 0, 0) True False) \<and>
   answer (getBlockGlobal exEnv writtenEditor (0, 0, 0) True False)
     = Inr (mkBlock ''minecraft:stone'') \<and>
   answer (getBlockGlobal exEnv writtenEditor (5, 0, 5) True False)
     = answer (getBlockGlobal exEnv loadedEditor (5, 0, 5) True False) \<and>
   placeSingleBlockGlobal exEnv pendingEditor (0, 0, 0) (mkBlock ''minecraft:dirt'') None None
     = Inr (True, pendingWrittenEditor) \<and>
   answer (getBlockGlobal exEnv pendingEditor (5, 0, 5) True False)
     = Inr (mkBlock ''minecraft:stone'') \<and>
   answer (getBlockGlobal exEnv pendingWrittenEditor (5, 0, 5) True False)
     = answer (getBlockGlobal exEnv pendingEditor (5, 0, 5) True False)"
proof -
  let ?ws = "\<lparr>sliceRect = rect22, sliceBlockAt = worldAfter []\<rparr>"
  let ?d = "\<lparr>shape3 = (2, 384, 2), cells3 = (\<lambda>_. False)\<rparr>"
  let ?p = "(0, 0, 0) :: ivec3"
  let ?q = "(5, 0, 5) :: ivec3"
  have ws: "worldSlice loadedEditor = Some ?ws"
    and d: "worldSliceDecay loadedEditor = Some ?d"
    and pws: "worldSlice pendingEditor = Some ?ws"
    and pd: "worldSliceDecay pendingEditor = Some ?d"
    by (simp_all add: loadedEditor_def pendingEditor_def)
  have shaped: "decayShaped exEnv ?ws ?d"
    by (simp add: decayShaped_def exEnv_def rect22_def)
  have inR: "contains (sliceRect ?ws) (dropY ?p)"
    and inH: "inBuildHeight exEnv ?p"
    and outR: "\<not> contains (sliceRect ?ws) (dropY ?q)"
    by (simp_all add: contains_def dropY_def rect22_def inBuildHeight_def exEnv_def)
  have cell: "cellOf exEnv ?ws ?p = (0, 64, 0)"
    by (simp add: cellOf_def exEnv_def rect22_def)
  have changed: "interface writtenEditor \<noteq> interface loadedEditor"
    by (simp add: writtenEditor_def loadedEditor_def newEditor_def plainHost_def)
  have miss: "cacheMiss loadedEditor ?q" "bufferMiss loadedEditor ?q"
    "cacheMiss pendingEditor ?q" "\<not> bufferMiss pendingEditor ?q"
    by (simp_all add: cacheMiss_def bufferMiss_def loadedEditor_def pendingEditor_def
        newEditor_def)
  have host: "hostBlock (interface writtenEditor) ?q True False
      = hostBlock (interface loadedEditor) ?q True False"
    by (simp add: hostBlock_def getBlocks_def writtenEditor_def loadedEditor_def newEditor_def
        plainHost_def worldAfter_def)
  have still: "map_of (buffer pendingWrittenEditor) ?q = map_of (buffer pendingEditor) ?q"
    by (simp add: pendingWrittenEditor_def pendingEditor_def)
  from decay_correctness [OF writtenEditor_is_written ws d shaped inR inH outR,
      where gs = True and gd = False]
  obtain d' where d': "worldSliceDecay writtenEditor = Some d'"
    and mark: "True \<and> (buffer writtenEditor \<noteq> buffer loadedEditor \<or>
                interface writtenEditor \<noteq> interface loadedEditor) \<longrightarrow>
               cells3 d' (cellOf exEnv ?ws ?p)"
    and at_p: "cells3 d' (cellOf exEnv ?ws ?p) \<longrightarrow>
      (\<forall>f. answer (getBlockGlobal exEnv
                 (writtenEditor\<lparr>worldSlice := Some (?ws\<lparr>sliceBlockAt := f\<rparr>)\<rparr>) ?p True False)
           = answer (getBlockGlobal exEnv writtenEditor ?p True False))"
    and at_q: "(\<not> cacheMiss loadedEditor ?q \<longrightarrow>
               map_of (entries (cache writtenEditor)) ?q = map_of (entries (cache loadedEditor)) ?q) \<and>
            (cacheMiss loadedEditor ?q \<and> \<not> bufferMiss loadedEditor ?q \<longrightarrow>
               map_of (buffer writtenEditor) ?q = map_of (buffer loadedEditor) ?q \<or>
               Some (hostBlock (interface writtenEditor) ?q True False)
                 = map_option Inr (map_of (buffer loadedEditor) ?q)) \<and>
            (cacheMiss loadedEditor ?q \<and> bufferMiss loadedEditor ?q \<longrightarrow>
               hostBlock (interface writtenEditor) ?q True False
                 = hostBlock (interface loadedEditor) ?q True False) \<longrightarrow>
              answer (getBlockGlobal exEnv writtenEditor ?q True False)
                = answer (getBlockGlobal exEnv loadedEditor ?q True False)"
    by blast
  from decay_correctness [OF pendingWrittenEditor_is_written pws pd shaped inR inH outR,
      where gs = True and gd = False]
  have at_q2: "(\<not> cacheMiss pendingEditor ?q \<longrightarrow>
               map_of (entries (cache pendingWrittenEditor)) ?q
                 = map_of (entries (cache pendingEditor)) ?q) \<and>
            (cacheMiss pendingEditor ?q \<and> \<not> bufferMiss pendingEditor ?q \<longrightarrow>
               map_of (buffer pendingWrittenEditor) ?q = map_of (buffer pendingEditor) ?q \<or>
               Some (hostBlock (interface pendingWrittenEditor) ?q True False)
                 = map_option Inr (map_of (buffer pendingEditor) ?q)) \<and>
            (cacheMiss pendingEditor ?q \<and> bufferMiss pendingEditor ?q \<longrightarrow>
               hostBlock (interface pendingWrittenEditor) ?q True False
                 = hostBlock (interface pendingEditor) ?q True False) \<longrightarrow>
              answer (getBlockGlobal exEnv pendingWrittenEditor ?q True False)
                = answer (getBlockGlobal exEnv pendingEditor ?q True False)"
    by blast
  from mark changed have set: "cells3 d' (0, 64, 0)"
    by (simp add: cell)
  with at_p cell have indep: "answer (getBlockGlobal exEnv
        (writtenEditor\<lparr>worldSlice := Some (?ws\<lparr>sliceBlockAt := (\<lambda>_. mkBlock ''minecraft:glass'')\<rparr>)\<rparr>)
        ?p True False)
      = answer (getBlockGlobal exEnv writtenEditor ?p True False)"
    by simp
  from at_q miss(1,2) host have outside: "answer (getBlockGlobal exEnv writtenEditor ?q True False)
      = answer (getBlockGlobal exEnv loadedEditor ?q True False)"
    by blast
  from at_q2 miss(3,4) still
  have outside2: "answer (getBlockGlobal exEnv pendingWrittenEditor ?q True False)
      = answer (getBlockGlobal exEnv pendingEditor ?q True False)"
    by blast
  have now: "answer (getBlockGlobal exEnv writtenEditor ?p True False)
      = Inr (mkBlock ''minecraft:stone'')"
    by (simp add: writtenEditor_def loadedEditor_def answer_def ex_simps)
  have pend: "answer (getBlockGlobal exEnv pendingEditor ?q True False)
      = Inr (mkBlock ''minecraft:stone'')"
    by (simp add: pendingEditor_def loadedEditor_def answer_def ex_simps)
  have before: "map_option (\<lambda>d. cells3 d (0, 64, 0)) (worldSliceDecay loadedEditor) = Some False"
    by (simp add: d)
  have after: "map_option (\<lambda>d. cells3 d (0, 64, 0)) (worldSliceDecay writtenEditor) = Some True"
    by (simp add: d' set)
  have ctx: "contains rect22 (dropY ?p) \<and> inBuildHeight exEnv ?p \<and> \<not> contains rect22 (dropY ?q)"
    using inR inH outR by simp
  have t1: "answer (getBlockGlobal exEnv
      (writtenEditor\<lparr>worldSlice :=
         Some \<lparr>sliceRect = rect22, sliceBlockAt = (\<lambda>_. mkBlock ''minecraft:glass'')\<rparr>\<rparr>)
      (0, 0, 0) True False)
     = answer (getBlockGlobal exEnv writtenEditor (0, 0, 0) True False)"
    using indep by simp
  from writtenEditor_is_written ctx changed before after t1 now outside
    pendingWrittenEditor_is_written pend outside2
  show ?thesis by blast
qed

section \<open>The height maps of a world slice\<close>

lemma pyrange_16: "pyrange 16 = [0, 1, 2, 3, 4, 5, 6, 7, 8, 9, 10, 11, 12, 13, 14, 15]"
  by (simp add: pyrange_def upt_rec)

lemma pyrange_1: "pyrange 1 = [0]"
  by (simp add: pyrange_def)

lemma np_index_error: "np_index n i = Inl e \<Longrightarrow> e = IndexError"
  by (auto simp: np_index_def split: if_splits)

lemma storeHeight_nine:
  assumes "bitsPerEntry bits = 9"
  shows "storeHeight rectOffset x z bits cz cx hm =
     (case np_cell2 hm (- fst rectOffset + x * 16 + cx, - snd rectOffset + z * 16 + cz) of
        Inl e \<Rightarrow> Inr hm
      | Inr c \<Rightarrow>
          (case getAt bits (cz * 16 + cx) of
             Inl e \<Rightarrow> Inr hm
           | Inr v \<Rightarrow> Inr (hm\<lparr>cells2 := (cells2 hm)(c := v - 64)\<rparr>)))"
  using assms
  by (auto simp: storeHeight_def getAt_def Let_def np_cell2_def
      split: sum.splits dest: np_index_error)

lemma bits_nine: "bitsPerEntry (newBitArray 9 n w) = 9"
  by (simp add: newBitArray_def)

lemma hmWords_decode:
  "getAt (newBitArray 9 256 (Some hmWords)) 0 = Inr 64"
  "getAt (newBitArray 9 256 (Some hmWords)) 1 = Inr 65"
  "getAt (newBitArray 9 256 (Some hmWords)) 2 = Inr 66"
  "getAt (newBitArray 9 256 (Some hmWords)) 16 = Inr 80"
  "getAt (newBitArray 9 256 (Some hmWords)) 17 = Inr 81"
  "getAt (newBitArray 9 256 (Some hmWords)) 18 = Inr 82"
  "getAt (newBitArray 9 256 (Some hmWords)) 13 = Inr 77"
  "getAt (newBitArray 9 256 (Some hmWords)) 14 = Inr 78"
  "getAt (newBitArray 9 256 (Some hmWords)) 15 = Inr 79"
  "getAt (newBitArray 9 256 (Some hmWords)) 29 = Inr 93"
  "getAt (newBitArray 9 256 (Some hmWords)) 30 = Inr 94"
  "getAt (newBitArray 9 256 (Some hmWords)) 31 = Inr 95"
  by (simp_all add: getAt_def newBitArray_def hmWords_def)

lemma fill_1_0:
  "fillHeightmap (1, 0) 0 0 (newBitArray 9 256 (Some hmWords))
     \<lparr>shape2 = (2, 2), cells2 = (\<lambda>_. 0)\<rparr>
   = Inr \<lparr>shape2 = (2, 2),
          cells2 = (\<lambda>_. 0)((0, 0) := 1, (Suc 0, 0) := 2, (0, Suc 0) := 17, (Suc 0, Suc 0) := 18)\<rparr>"
  by (simp add: fillHeightmap_def pyrange_16 storeHeight_nine bits_nine hmWords_decode
      np_cell2_def np_index_def)

lemma fill_15_0:
  "fillHeightmap (15, 0) 0 0 (newBitArray 9 256 (Some hmWords))
     \<lparr>shape2 = (2, 2), cells2 = (\<lambda>_. 0)\<rparr>
   = Inr \<lparr>shape2 = (2, 2),
          cells2 = (\<lambda>_. 0)((Suc 0, 0) := 14, (0, 0) := 15, (Suc 0, Suc 0) := 30, (0, Suc 0) := 31)\<rparr>"
  by (simp add: fillHeightmap_def pyrange_16 storeHeight_nine bits_nine hmWords_decode
      np_cell2_def np_index_def)

text \<open>
  Claim C6 fails on the code. For the rectangle of the single column x = 1, z = 0 the
  height-map array has shape 2 by 2, not 1 by 1: cell (0, 0) holds the height 1 of the
  column, and the cells (1, 0), (0, 1) and (1, 1) hold the heights 2, 17 and 18 of the
  columns (2, 0), (1, 1) and (2, 1), which lie outside the rectangle and were not
  passed over. For the rectangle of the single column x = 15, z = 0 the cell (1, 0)
  holds the height 14 of the column x = 14, west of the rectangle, stored through the
  negative index -1, which numpy counts from the end and does not refuse.
\<close>

theorem heightmap_holds_columns_outside:
  "newWorldSliceL hmChunks 1 0 2 1 (Some [''MOTION_BLOCKING''])
     = Inr \<lparr>rect = (1, 0, 1, 1), chunkRect = (0, 0, 1, 1),
            heightmapTypes = [''MOTION_BLOCKING''], nbtfile = hmChunks (0, 0, 1, 1),
            heightmaps =
              [(''MOTION_BLOCKING'',
                \<lparr>shape2 = (2, 2),
                 cells2 = (\<lambda>_. 0)((0, 0) := 1, (Suc 0, 0) := 2, (0, Suc 0) := 17,
                                   (Suc 0, Suc 0) := 18)\<rparr>)],
            sections = []\<rparr> \<and>
   newWorldSliceL hmChunks 15 0 16 1 (Some [''MOTION_BLOCKING''])
     = Inr \<lparr>rect = (15, 0, 1, 1), chunkRect = (0, 0, 1, 1),
            heightmapTypes = [''MOTION_BLOCKING''], nbtfile = hmChunks (0, 0, 1, 1),
            heightmaps =
              [(''MOTION_BLOCKING'',
                \<lparr>shape2 = (2, 2),
                 cells2 = (\<lambda>_. 0)((Suc 0, 0) := 14, (0, 0) := 15, (Suc 0, Suc 0) := 30,
                                   (0, Suc 0) := 31)\<rparr>)],
            sections = []\<rparr>"
  by (simp add: newWorldSliceL_def Let_def zeroHeightmaps_def loadHeightmaps_def
      loadSections_def np_zeros2_def hmChunks_def py_index_def np_index_def chunkHeightmap_def
      pyrange_1 fill_1_0 fill_15_0)

section \<open>Positions outside the build height\<close>

text \<open>
  The decay array is indexed without a check of Y. With the build height from -64 to
  319, a buffered write at Y = -65 succeeds and sets the cell of the layer Y = 319 of
  the same column, through the index -1.
\<close>

lemma write_below_build_height_marks_top_layer:
  "placeSingleBlockGlobal exEnv (loadedEditor\<lparr>buffering := True\<rparr>) (0, - 65, 0)
      (mkBlock ''minecraft:stone'') None None
     = Inr (True,
            loadedEditor
              \<lparr>buffering := True,
               buffer := [((0, - 65, 0), mkBlock ''minecraft:stone'')],
               worldSliceDecay :=
                 Some \<lparr>shape3 = (2, 384, 2), cells3 = (\<lambda>_. False)((0, 383, 0) := True)\<rparr>\<rparr>)"
  by (simp add: loadedEditor_def write_simps stage_simps ex_simps)

text \<open>
  At Y = 320 the index 384 is beyond the array: the read raises IndexError, and so does
  the buffered write, after it has staged the block.
\<close>

lemma read_above_build_height_raises:
  "getBlockGlobal exEnv loadedEditor (0, 320, 0) True False = Inl IndexError \<and>
   placeSingleBlockGlobal exEnv (loadedEditor\<lparr>buffering := True\<rparr>) (0, 320, 0)
      (mkBlock ''minecraft:stone'') None None = Inl IndexError"
  by (simp add: loadedEditor_def write_simps stage_simps ex_simps)

text \<open>
  The cell the decay array is indexed at for a position whose XZ lies in the
  rectangle: X and Z are in range, and Y is taken as numpy takes an index.
\<close>

lemma decay_index_y:
  assumes "decayShaped env ws d" and "contains (sliceRect ws) (dropY (x, y, z))"
  shows "np_cell3 d (decayIndex env ws (x, y, z))
         = (case np_index (nat (BUILD_HEIGHT env)) (y - BUILD_Y_MIN env) of
              Inl e \<Rightarrow> Inl e
            | Inr j \<Rightarrow> Inr (nat (x - fst (offset (sliceRect ws))), j,
                            nat (z - snd (offset (sliceRect ws)))))"
  using assms
  by (auto simp: decayShaped_def contains_def dropY_def np_cell3_def np_index_def
      decayIndex_def vsub_def addY_def split: sum.splits)

text \<open>
  Claim C5 fails on the code for positions outside the build height. The read tests
  only the XZ of the position against the slice's rectangle and then indexes the
  decay array with the position's Y, unchecked. For a read that the cache and the
  buffer do not answer, at a position whose XZ lies in the rectangle of the cached
  slice: when Y is at or above the top of the build height, or below its bottom by
  more than the build height, the read raises IndexError and no source answers; when
  Y is below the bottom by at most the build height, the index is negative and
  counts from the top, so that the cell of the position one build height higher
  decides whether the slice answers, and the slice is asked for a position outside
  the build height when that cell is false.
\<close>

theorem read_indexes_decay_with_unchecked_y:
  assumes "cacheMiss s (x, y, z)" and "bufferMiss s (x, y, z)"
    and "worldSlice s = Some ws" and "worldSliceDecay s = Some d"
    and "decayShaped env ws d"
    and "contains (sliceRect ws) (dropY (x, y, z))"
  shows "(BUILD_Y_MIN env + BUILD_HEIGHT env \<le> y \<or> y < BUILD_Y_MIN env - BUILD_HEIGHT env \<longrightarrow>
            getBlockGlobal env s (x, y, z) gs gd = Inl IndexError) \<and>
         (BUILD_Y_MIN env - BUILD_HEIGHT env \<le> y \<and> y < BUILD_Y_MIN env \<longrightarrow>
            \<not> inBuildHeight env (x, y, z) \<and> inBuildHeight env (x, y + BUILD_HEIGHT env, z) \<and>
            sliceForRead env s (x, y, z)
              = Inr (if cells3 d (cellOf env ws (x, y + BUILD_HEIGHT env, z)) then None
                     else Some ws) \<and>
            (\<not> cells3 d (cellOf env ws (x, y + BUILD_HEIGHT env, z)) \<longrightarrow>
               getBlockGlobal env s (x, y, z) gs gd
                 = Inr (sliceBlockAt ws (x, y, z), cacheStored s (x, y, z) (sliceBlockAt ws (x, y, z)))))"
proof -
  note idx = decay_index_y [OF assms(5,6)]
  have H: "0 \<le> BUILD_HEIGHT env"
    using assms(5) by (simp add: decayShaped_def)
  have miss: "(if caching s then cache_getitem (cache s) (x, y, z) else None) = None"
    "(if buffering s then map_of (buffer s) (x, y, z) else None) = None"
    using assms(1,2) by (auto simp: cacheMiss_def bufferMiss_def)
  have rd: "getBlockGlobal env s (x, y, z) gs gd
      = (case sliceForRead env s (x, y, z) of
           Inl e \<Rightarrow> Inl e
         | Inr src \<Rightarrow>
             (case (case src of
                      Some ws \<Rightarrow> Inr (sliceBlockAt ws (x, y, z))
                    | None \<Rightarrow>
                        (case getBlocks (interface s) (x, y, z) gs gd of
                           [] \<Rightarrow> Inl IndexError
                         | r # _ \<Rightarrow> Inr (snd r))) of
                Inl e \<Rightarrow> Inl e
              | Inr block \<Rightarrow> Inr (block, cacheStored s (x, y, z) block)))"
    unfolding getBlockGlobal_def cacheStored_def by (simp add: miss)
  have sl: "sliceForRead env s (x, y, z)
      = (case np_get3 d (decayIndex env ws (x, y, z)) of
           Inl e \<Rightarrow> Inl e
         | Inr decayed \<Rightarrow> Inr (if decayed then None else Some ws))"
    using assms(3,4,6) by (simp add: sliceForRead_def)
  have above: "getBlockGlobal env s (x, y, z) gs gd = Inl IndexError"
    if "BUILD_Y_MIN env + BUILD_HEIGHT env \<le> y \<or> y < BUILD_Y_MIN env - BUILD_HEIGHT env"
  proof -
    from that H have "np_index (nat (BUILD_HEIGHT env)) (y - BUILD_Y_MIN env) = Inl IndexError"
      by (auto simp: np_index_def)
    then have "np_get3 d (decayIndex env ws (x, y, z)) = Inl IndexError"
      by (simp add: np_get3_def idx)
    then show ?thesis
      by (simp add: rd sl)
  qed
  have below: "\<not> inBuildHeight env (x, y, z) \<and> inBuildHeight env (x, y + BUILD_HEIGHT env, z) \<and>
      sliceForRead env s (x, y, z)
        = Inr (if cells3 d (cellOf env ws (x, y + BUILD_HEIGHT env, z)) then None else Some ws)"
    if "BUILD_Y_MIN env - BUILD_HEIGHT env \<le> y \<and> y < BUILD_Y_MIN env"
  proof -
    from that H have "np_index (nat (BUILD_HEIGHT env)) (y - BUILD_Y_MIN env)
        = Inr (nat (y + BUILD_HEIGHT env - BUILD_Y_MIN env))"
      by (auto simp: np_index_def algebra_simps)
    then have "np_get3 d (decayIndex env ws (x, y, z))
        = Inr (cells3 d (cellOf env ws (x, y + BUILD_HEIGHT env, z)))"
      by (simp add: np_get3_def idx cellOf_def)
    with that show ?thesis
      by (simp add: sl inBuildHeight_def)
  qed
  from above below rd show ?thesis
    by (auto simp: cacheStored_def)
qed

text \<open>
  With the build height from -64 to 319 and the slice of the rectangle cached: the
  read of (0, 320, 0) raises IndexError; the read of (0, -65, 0) is answered by the
  slice; and after stone was placed at (0, 319, 0) the slice no longer answers the
  read of (0, -65, 0).
\<close>

lemma topWrittenEditor_is_written:
  "placeSingleBlockGlobal exEnv loadedEditor (0, 319, 0) (mkBlock ''minecraft:stone'') None None
     = Inr (True, topWrittenEditor)"
  by (simp add: loadedEditor_def topWrittenEditor_def write_simps ex_simps)

theorem read_indexes_decay_with_unchecked_y_witness:
  "contains rect22 (dropY (0, 320, 0)) \<and> \<not> inBuildHeight exEnv (0, 320, 0) \<and>
   getBlockGlobal exEnv loadedEditor (0, 320, 0) True False = Inl IndexError \<and>
   \<not> inBuildHeight exEnv (0, - 65, 0) \<and>
   sliceForRead exEnv loadedEditor (0, - 65, 0)
     = Inr (Some \<lparr>sliceRect = rect22, sliceBlockAt = worldAfter []\<rparr>) \<and>
   getBlockGlobal exEnv loadedEditor (0, - 65, 0) True False
     = Inr (mkBlock ''minecraft:air'', loadedEditor) \<and>
   placeSingleBlockGlobal exEnv loadedEditor (0, 319, 0) (mkBlock ''minecraft:stone'') None None
     = Inr (True, topWrittenEditor) \<and>
   sliceForRead exEnv topWrittenEditor (0, - 65, 0) = Inr None"
proof -
  let ?ws = "\<lparr>sliceRect = rect22, sliceBlockAt = worldAfter []\<rparr>"
  let ?d = "\<lparr>shape3 = (2, 384, 2), cells3 = (\<lambda>_. False)\<rparr>"
  let ?d' = "\<lparr>shape3 = (2, 384, 2), cells3 = (\<lambda>_. False)((0 :: nat, 383 :: nat, 0 :: nat) := True)\<rparr>"
  have ed: "cacheMiss loadedEditor p" "bufferMiss loadedEditor p"
    "worldSlice loadedEditor = Some ?ws" "worldSliceDecay loadedEditor = Some ?d"
    "cacheMiss topWrittenEditor p" "bufferMiss topWrittenEditor p"
    "worldSlice topWrittenEditor = Some ?ws" "worldSliceDecay topWrittenEditor = Some ?d'"
    for p
    by (simp_all add: loadedEditor_def topWrittenEditor_def newEditor_def cacheMiss_def
        bufferMiss_def)
  have shaped: "decayShaped exEnv ?ws ?d" "decayShaped exEnv ?ws ?d'"
    by (simp_all add: decayShaped_def exEnv_def rect22_def)
  have inR: "contains (sliceRect ?ws) (dropY (0, y, 0))" for y
    by (simp add: contains_def dropY_def rect22_def)
  have env: "BUILD_Y_MIN exEnv = - 64" "BUILD_HEIGHT exEnv = 384"
    by (simp_all add: exEnv_def)
  have cell: "cellOf exEnv ?ws (0, 319, 0) = (0, 383, 0)"
    by (simp add: cellOf_def exEnv_def rect22_def)
  note a = read_indexes_decay_with_unchecked_y [OF ed(1) ed(2) ed(3) ed(4) shaped(1) inR,
      where gs = True and gd = False and y = 320]
  note b = read_indexes_decay_with_unchecked_y [OF ed(1) ed(2) ed(3) ed(4) shaped(1) inR,
      where gs = True and gd = False and y = "- 65"]
  note c = read_indexes_decay_with_unchecked_y [OF ed(5) ed(6) ed(7) ed(8) shaped(2) inR,
      where gs = True and gd = False and y = "- 65"]
  from a have r1: "getBlockGlobal exEnv loadedEditor (0, 320, 0) True False = Inl IndexError"
    by (simp add: env)
  from b have r2: "\<not> inBuildHeight exEnv (0, - 65, 0)"
    "sliceForRead exEnv loadedEditor (0, - 65, 0) = Inr (Some ?ws)"
    "getBlockGlobal exEnv loadedEditor (0, - 65, 0) True False
       = Inr (sliceBlockAt ?ws (0, - 65, 0), cacheStored loadedEditor (0, - 65, 0)
                (sliceBlockAt ?ws (0, - 65, 0)))"
    by (simp_all add: env cell)
  from c have r3: "sliceForRead exEnv topWrittenEditor (0, - 65, 0) = Inr None"
    by (simp add: env cell)
  have v: "sliceBlockAt ?ws (0, - 65, 0) = mkBlock ''minecraft:air''"
    "cacheStored loadedEditor p blk = loadedEditor" for p blk
    by (simp_all add: worldAfter_def cacheStored_def loadedEditor_def newEditor_def)
  have o: "\<not> inBuildHeight exEnv (0, 320, 0)"
    by (simp add: inBuildHeight_def env)
  from inR [of 320] o r1 r2 r3 v topWrittenEditor_is_written show ?thesis
    by simp
qed

end
